theory Spec2Isabelle
  imports Complex_Main "HOL-Library.Word" "HOL-Library.Monad_Syntax" "HOL-Library.Multiset"
begin

section \<open>Shortwave sub-grid correction factors: the ray-traced engines\<close>

text \<open>
  The development embeds \<^verbatim>\<open>src/subgrid_radiation/sun_position_comp.cpp\<close>.

  Conventions of the embedding.
  \<^item> A C++ \<^verbatim>\<open>double\<close> or \<^verbatim>\<open>float\<close> is a \<^typ>\<open>real\<close>: arithmetic is exact, the
    narrowing casts \<^verbatim>\<open>(float)\<close> and the widening casts \<^verbatim>\<open>(double)\<close> are the identity.
    Rounding is therefore outside the model.
  \<^item> A division whose divisor is zero yields no number in exact arithmetic (IEEE
    arithmetic returns NaN or an infinity there). Every such division of the kernel is
    a branch of the model: the function returns \<^term>\<open>None\<close>.
  \<^item> An output cell is a \<^verbatim>\<open>float\<close> that may be NaN, so it has a type of its own.
  \<^item> \<^verbatim>\<open>size_t\<close> and the non-negative \<^verbatim>\<open>int\<close> dimensions are \<^typ>\<open>nat\<close>; no index of
    the program comes near the word size.
\<close>

subsection \<open>Unit conversion and indexing\<close>

definition deg2rad :: "real \<Rightarrow> real" where
  "deg2rad ang = (ang / 180) * pi"

definition rad2deg :: "real \<Rightarrow> real" where
  "rad2deg ang = (ang / pi) * 180"

definition K2degC :: "real \<Rightarrow> real" where
  "K2degC temp = temp - 273.15"

definition lin_ind_2d :: "nat \<Rightarrow> nat \<Rightarrow> nat \<Rightarrow> nat" where
  "lin_ind_2d dim_1 ind_0 ind_1 = ind_0 * dim_1 + ind_1"

subsection \<open>Vector and triangle kernel\<close>

type_synonym vec = "real \<times> real \<times> real"

text \<open>\<^verbatim>\<open>vec_unit\<close> overwrites its three reference arguments; the model returns the new
  triple. The three divisions by \<^verbatim>\<open>mag\<close> are undefined when \<^verbatim>\<open>mag\<close> is zero.\<close>

definition vec_unit :: "vec \<Rightarrow> vec option" where
  "vec_unit v = (case v of (v_x, v_y, v_z) \<Rightarrow>
     let mag = sqrt (v_x * v_x + v_y * v_y + v_z * v_z)
     in if mag = 0 then None else Some (v_x / mag, v_y / mag, v_z / mag))"

definition cross_prod :: "vec \<Rightarrow> vec \<Rightarrow> vec" where
  "cross_prod a b = (case a of (a_x, a_y, a_z) \<Rightarrow> case b of (b_x, b_y, b_z) \<Rightarrow>
     (a_y * b_z - a_z * b_y, a_z * b_x - a_x * b_z, a_x * b_y - a_y * b_x))"

definition vec_rot :: "vec \<Rightarrow> real \<Rightarrow> vec \<Rightarrow> vec" where
  "vec_rot k theta v = (case k of (k_x, k_y, k_z) \<Rightarrow> case v of (v_x, v_y, v_z) \<Rightarrow>
     let cos_theta = cos theta;
         sin_theta = sin theta;
         part = (k_x * v_x + k_y * v_y + k_z * v_z) * (1 - cos_theta);
         v_x_rot = v_x * cos_theta + (k_y * v_z - k_z * v_y) * sin_theta + k_x * part;
         v_y_rot = v_y * cos_theta + (k_z * v_x - k_x * v_z) * sin_theta + k_y * part;
         v_z_rot = v_z * cos_theta + (k_x * v_y - k_y * v_x) * sin_theta + k_z * part
     in (v_x_rot, v_y_rot, v_z_rot))"

text \<open>The dot product is written out inline in the source; the model names it.\<close>

definition dot_prod :: "vec \<Rightarrow> vec \<Rightarrow> real" where
  "dot_prod a b = (case a of (a_x, a_y, a_z) \<Rightarrow> case b of (b_x, b_y, b_z) \<Rightarrow>
     a_x * b_x + a_y * b_y + a_z * b_z)"

definition triangle_normal_area :: "vec \<Rightarrow> vec \<Rightarrow> vec \<Rightarrow> (vec \<times> real) option" where
  "triangle_normal_area vert_0 vert_1 vert_2 =
     (case vert_0 of (vert_0_x, vert_0_y, vert_0_z) \<Rightarrow>
      case vert_1 of (vert_1_x, vert_1_y, vert_1_z) \<Rightarrow>
      case vert_2 of (vert_2_x, vert_2_y, vert_2_z) \<Rightarrow>
      let a_x = vert_2_x - vert_1_x;
          a_y = vert_2_y - vert_1_y;
          a_z = vert_2_z - vert_1_z;
          b_x = vert_0_x - vert_1_x;
          b_y = vert_0_y - vert_1_y;
          b_z = vert_0_z - vert_1_z;
          norm_x = a_y * b_z - a_z * b_y;
          norm_y = a_z * b_x - a_x * b_z;
          norm_z = a_x * b_y - a_y * b_x;
          mag = sqrt (norm_x * norm_x + norm_y * norm_y + norm_z * norm_z)
      in if mag = 0 then None
         else Some ((norm_x / mag, norm_y / mag, norm_z / mag), mag / 2))"

definition triangle_centroid :: "vec \<Rightarrow> vec \<Rightarrow> vec \<Rightarrow> vec" where
  "triangle_centroid vert_0 vert_1 vert_2 =
     (case vert_0 of (vert_0_x, vert_0_y, vert_0_z) \<Rightarrow>
      case vert_1 of (vert_1_x, vert_1_y, vert_1_z) \<Rightarrow>
      case vert_2 of (vert_2_x, vert_2_y, vert_2_z) \<Rightarrow>
      ((vert_0_x + vert_1_x + vert_2_x) / 3,
       (vert_0_y + vert_1_y + vert_2_y) / 3,
       (vert_0_z + vert_1_z + vert_2_z) / 3))"

subsection \<open>Triangulation indexer\<close>

definition triangle_vert_ll :: "nat \<Rightarrow> nat \<Rightarrow> nat \<Rightarrow> nat \<times> nat \<times> nat" where
  "triangle_vert_ll dim_1 ind_0 ind_1 =
     ((ind_0 * dim_1 + ind_1) * 3,
      (ind_0 * dim_1 + ind_1 + 1) * 3,
      ((ind_0 + 1) * dim_1 + ind_1) * 3)"

definition triangle_vert_ur :: "nat \<Rightarrow> nat \<Rightarrow> nat \<Rightarrow> nat \<times> nat \<times> nat" where
  "triangle_vert_ur dim_1 ind_0 ind_1 =
     ((ind_0 * dim_1 + ind_1 + 1) * 3,
      ((ind_0 + 1) * dim_1 + ind_1 + 1) * 3,
      ((ind_0 + 1) * dim_1 + ind_1) * 3)"

definition func_ptr :: "(nat \<Rightarrow> nat \<Rightarrow> nat \<Rightarrow> nat \<times> nat \<times> nat) list" where
  "func_ptr = [triangle_vert_ll, triangle_vert_ur]"

text \<open>The three reads \<^verbatim>\<open>vert_grid[ind]\<close>, \<^verbatim>\<open>vert_grid[ind + 1]\<close>, \<^verbatim>\<open>vert_grid[ind + 2]\<close> of one
  vertex. A read past the end of the buffer has no defined behaviour.\<close>

definition vert_at :: "real list \<Rightarrow> nat \<Rightarrow> vec option" where
  "vert_at vert_grid ind =
     (if ind + 2 < length vert_grid
      then Some (vert_grid ! ind, vert_grid ! (ind + 1), vert_grid ! (ind + 2))
      else None)"

subsection \<open>Atmospheric refraction\<close>

text \<open>The tangent is undefined where the cosine vanishes; the quotients by the tangent and
  by \<^verbatim>\<open>273.0 + temp\<close> are undefined where these vanish.\<close>

definition atmos_refrac :: "real \<Rightarrow> real \<Rightarrow> real \<Rightarrow> real option" where
  "atmos_refrac elev_ang_true temp pressure =
     (let lower = - 1;
          upper = 90;
          elev_ang_true = max lower (min elev_ang_true upper);
          ang = deg2rad (elev_ang_true + 10.3 / (elev_ang_true + 5.11))
      in if cos ang = 0 \<or> tan ang = 0 \<or> 273 + temp = 0 then None
         else let refrac_cor = 1.02 / tan ang;
                  refrac_cor = refrac_cor + 0.0019279;
                  refrac_cor = refrac_cor * ((pressure / 101) * (283 / (273 + temp)))
              in Some (refrac_cor * (1 / 60)))"

subsection \<open>Output cells, rays and the occlusion queries\<close>

text \<open>A cell of the output array: NaN or a number (infinities are not modelled).\<close>

datatype cfloat = NaN | Val real

text \<open>\<^verbatim>\<open>sw_dir_cor[c] + (float)x\<close> and \<^verbatim>\<open>sw_dir_cor[c] / d\<close>: NaN is absorbing.\<close>

fun fadd :: "cfloat \<Rightarrow> real \<Rightarrow> cfloat" where
  "fadd NaN x = NaN"
| "fadd (Val a) x = Val (a + x)"

fun fdiv :: "cfloat \<Rightarrow> real \<Rightarrow> cfloat option" where
  "fdiv c d = (if d = 0 then None else Some (case c of NaN \<Rightarrow> NaN | Val a \<Rightarrow> Val (a / d)))"

text \<open>The field \<^verbatim>\<open>tfar\<close> of a ray: a number, or the \<^verbatim>\<open>-inf\<close> that an occlusion query
  stores on a hit.\<close>

datatype tfar_t = NegInf | Fin real

fun tfar_pos :: "tfar_t \<Rightarrow> bool" where
  "tfar_pos NegInf = False"
| "tfar_pos (Fin t) = (0 < t)"

record rtc_ray =
  org :: vec
  dir :: vec
  tnear :: real
  tfar :: tfar_t

record rtc_ray_id = rtc_ray +
  ray_id :: nat

text \<open>
  The ray tracer (Embree) is an external library. Its committed scene is a parameter of
  the model: a predicate telling whether the segment of a ray between \<^verbatim>\<open>tnear\<close> and
  \<^verbatim>\<open>tfar\<close> meets the geometry. The three occlusion queries follow the convention the
  source relies on (\<^verbatim>\<open>no intersection -> 'tfar' is not updated; otherwise 'tfar' = -inf\<close>);
  the packet query skips the lanes whose validity entry is not \<^verbatim>\<open>-1\<close>.
\<close>

type_synonym rtc_scene = "vec \<Rightarrow> vec \<Rightarrow> real \<Rightarrow> real \<Rightarrow> bool"

definition rtcOccluded1 :: "rtc_scene \<Rightarrow> 'a rtc_ray_scheme \<Rightarrow> 'a rtc_ray_scheme" where
  "rtcOccluded1 sc ray =
     (case tfar ray of
        NegInf \<Rightarrow> ray
      | Fin t \<Rightarrow> if sc (org ray) (dir ray) (tnear ray) t then ray\<lparr>tfar := NegInf\<rparr> else ray)"

definition rtcOccluded1M :: "rtc_scene \<Rightarrow> rtc_ray_id list \<Rightarrow> nat \<Rightarrow> rtc_ray_id list" where
  "rtcOccluded1M sc rays M = map (rtcOccluded1 sc) (take M rays) @ drop M rays"

definition rtcOccluded8 :: "int list \<Rightarrow> rtc_scene \<Rightarrow> rtc_ray_id list \<Rightarrow> rtc_ray_id list" where
  "rtcOccluded8 valid sc ray8 =
     map (\<lambda>l. if valid ! l = - 1 then rtcOccluded1 sc (ray8 ! l) else ray8 ! l) [0 ..< length ray8]"

subsection \<open>The terrain object\<close>

text \<open>The cached configuration of \<^verbatim>\<open>CppTerrain\<close> (the members with suffix \<^verbatim>\<open>_cl\<close>) and its
  scene handle.\<close>

record terrain =
  vert_grid_cl :: "real list"
  dem_dim_0_cl :: nat
  dem_dim_1_cl :: nat
  vert_grid_in_cl :: "real list"
  dem_dim_in_0_cl :: nat
  dem_dim_in_1_cl :: nat
  pixel_per_gc_cl :: nat
  offset_gc_cl :: nat
  mask_cl :: "8 word list"
  sw_dir_cor_max_cl :: real
  ang_max_cl :: real
  ray_org_elev_cl :: real
  num_gc_y_cl :: nat
  num_gc_x_cl :: nat
  num_tri_cl :: nat
  dot_prod_min_cl :: real
  dist_search_cl :: real
  scene :: rtc_scene

text \<open>
  \<^verbatim>\<open>CppTerrain::initialise\<close>. The scene builder \<^verbatim>\<open>initializeScene\<close> belongs to the external
  ray tracer and is a parameter. The progress lines written to standard output are not
  modelled. The integer division by \<^verbatim>\<open>pixel_per_gc\<close> is undefined for zero, and the
  dimensions are taken to be at least one vertex.
\<close>

definition initialise ::
  "(real list \<Rightarrow> nat \<Rightarrow> nat \<Rightarrow> string \<Rightarrow> rtc_scene) \<Rightarrow>
   real list \<Rightarrow> nat \<Rightarrow> nat \<Rightarrow> real list \<Rightarrow> nat \<Rightarrow> nat \<Rightarrow> nat \<Rightarrow> nat \<Rightarrow>
   8 word list \<Rightarrow> real \<Rightarrow> string \<Rightarrow> real \<Rightarrow> real \<Rightarrow> terrain option" where
  "initialise initializeScene vert_grid dem_dim_0 dem_dim_1 vert_grid_in dem_dim_in_0 dem_dim_in_1
     pixel_per_gc offset_gc mask_arr dist_search geom_type sw_dir_cor_max ang_max =
     (if pixel_per_gc = 0 \<or> dem_dim_in_0 = 0 \<or> dem_dim_in_1 = 0 then None
      else Some \<lparr>
        vert_grid_cl = vert_grid,
        dem_dim_0_cl = dem_dim_0,
        dem_dim_1_cl = dem_dim_1,
        vert_grid_in_cl = vert_grid_in,
        dem_dim_in_0_cl = dem_dim_in_0,
        dem_dim_in_1_cl = dem_dim_in_1,
        pixel_per_gc_cl = pixel_per_gc,
        offset_gc_cl = offset_gc,
        mask_cl = mask_arr,
        sw_dir_cor_max_cl = sw_dir_cor_max,
        ang_max_cl = ang_max,
        ray_org_elev_cl = 0.1,
        num_gc_y_cl = (dem_dim_in_0 - 1) div pixel_per_gc,
        num_gc_x_cl = (dem_dim_in_1 - 1) div pixel_per_gc,
        num_tri_cl = (dem_dim_in_0 - 1) * (dem_dim_in_1 - 1) * 2,
        dot_prod_min_cl = cos (deg2rad ang_max),
        dist_search_cl = dist_search * 1000,
        scene = initializeScene vert_grid dem_dim_0 dem_dim_1 geom_type \<rparr>)"


subsection \<open>Loops\<close>

text \<open>A \<^verbatim>\<open>for\<close> loop over the indices \<open>xs\<close> whose body may be undefined.\<close>

fun for_each :: "('a \<Rightarrow> 's \<Rightarrow> 's option) \<Rightarrow> 'a list \<Rightarrow> 's \<Rightarrow> 's option" where
  "for_each body [] s = Some s"
| "for_each body (x # xs) s =
     (case body x s of None \<Rightarrow> None | Some s' \<Rightarrow> for_each body xs s')"

text \<open>The indices of \<^verbatim>\<open>for (k = lo; k < hi; k += 2)\<close>.\<close>

definition stride2 :: "nat \<Rightarrow> nat \<Rightarrow> nat list" where
  "stride2 lo hi = map (\<lambda>t. lo + 2 * t) [0 ..< (hi - lo + 1) div 2]"

subsection \<open>Per-triangle geometry (identical text in the three engines)\<close>

text \<open>The local variables of the innermost loop body once the sun unit vector and
  \<^verbatim>\<open>dot_prod_hs\<close> are computed. \<open>vert_hori\<close> holds \<^verbatim>\<open>vert_0\<close>, \<^verbatim>\<open>vert_1\<close>, \<^verbatim>\<open>vert_2\<close> after they
  have been reassigned to the horizontal triangle.\<close>

record tri_state =
  cent :: vec
  norm_tilt :: vec
  area_tilt :: real
  ray_org :: vec
  vert_hori :: "vec \<times> vec \<times> vec"
  norm_hori :: vec
  area_hori :: real
  surf_enl_fac :: real
  sun :: vec
  dot_prod_hs :: real

definition tri_setup :: "terrain \<Rightarrow> vec \<Rightarrow> nat \<Rightarrow> nat \<Rightarrow> nat \<Rightarrow> tri_state option" where
  "tri_setup cfg sun_pos k m n =
     (case (func_ptr ! n) (dem_dim_1_cl cfg)
             (k + pixel_per_gc_cl cfg * offset_gc_cl cfg)
             (m + pixel_per_gc_cl cfg * offset_gc_cl cfg) of
        (ind_tri_0, ind_tri_1, ind_tri_2) \<Rightarrow>
      do {
        vert_0 \<leftarrow> vert_at (vert_grid_cl cfg) ind_tri_0;
        vert_1 \<leftarrow> vert_at (vert_grid_cl cfg) ind_tri_1;
        vert_2 \<leftarrow> vert_at (vert_grid_cl cfg) ind_tri_2;
        let cent = triangle_centroid vert_0 vert_1 vert_2;
        (norm_tilt, area_tilt) \<leftarrow> triangle_normal_area vert_0 vert_1 vert_2;
        let ray_org =
          (fst cent + fst norm_tilt * ray_org_elev_cl cfg,
           fst (snd cent) + fst (snd norm_tilt) * ray_org_elev_cl cfg,
           snd (snd cent) + snd (snd norm_tilt) * ray_org_elev_cl cfg);
        (case (func_ptr ! n) (dem_dim_in_1_cl cfg) k m of
           (ind_tri_0, ind_tri_1, ind_tri_2) \<Rightarrow>
         do {
           vert_0 \<leftarrow> vert_at (vert_grid_in_cl cfg) ind_tri_0;
           vert_1 \<leftarrow> vert_at (vert_grid_in_cl cfg) ind_tri_1;
           vert_2 \<leftarrow> vert_at (vert_grid_in_cl cfg) ind_tri_2;
           (norm_hori, area_hori) \<leftarrow> triangle_normal_area vert_0 vert_1 vert_2;
           let surf_enl_fac = area_tilt / area_hori;
           sun \<leftarrow> vec_unit
             (fst sun_pos - fst ray_org,
              fst (snd sun_pos) - fst (snd ray_org),
              snd (snd sun_pos) - snd (snd ray_org));
           let dot_prod_hs = dot_prod norm_hori sun;
           Some \<lparr> cent = cent, norm_tilt = norm_tilt, area_tilt = area_tilt,
                  ray_org = ray_org, vert_hori = (vert_0, vert_1, vert_2),
                  norm_hori = norm_hori, area_hori = area_hori,
                  surf_enl_fac = surf_enl_fac, sun = sun, dot_prod_hs = dot_prod_hs \<rparr>
         })
      })"

text \<open>The tilted normal alone: the indexer, the nine reads of the vertex buffer and
  \<^verbatim>\<open>triangle_normal_area\<close>, as the loop body runs them for triangle \<open>n\<close> of the pixel in
  row \<open>k\<close> and column \<open>m\<close> of a DEM with \<open>dem_dim_1\<close> columns. The same lines are run on
  the inner DEM for the horizontal normal.\<close>

definition tri_normal :: "real list \<Rightarrow> nat \<Rightarrow> nat \<Rightarrow> nat \<Rightarrow> nat \<Rightarrow> vec option" where
  "tri_normal vert_grid dem_dim_1 k m n =
     (case (func_ptr ! n) dem_dim_1 k m of
        (ind_tri_0, ind_tri_1, ind_tri_2) \<Rightarrow>
      do {
        vert_0 \<leftarrow> vert_at vert_grid ind_tri_0;
        vert_1 \<leftarrow> vert_at vert_grid ind_tri_1;
        vert_2 \<leftarrow> vert_at vert_grid ind_tri_2;
        (norm_tilt, area_tilt) \<leftarrow> triangle_normal_area vert_0 vert_1 vert_2;
        Some norm_tilt
      })"

subsection \<open>The refraction block of the single-ray engine\<close>

text \<open>
  The body of \<^verbatim>\<open>if (refrac_cor == 1) { ... }\<close>. \<^verbatim>\<open>acos\<close> has no value outside \<open>[-1, 1]\<close> and
  \<^verbatim>\<open>pow\<close> none for a negative base with this exponent. The block assigns \<^verbatim>\<open>sun_x\<close>,
  \<^verbatim>\<open>sun_y\<close>, \<^verbatim>\<open>sun_z\<close> (through \<^verbatim>\<open>vec_rot\<close>) and \<^verbatim>\<open>dot_prod_hs\<close>; all its other assignments
  are to variables declared inside the block.
\<close>

definition sw_dir_cor_refrac :: "tri_state \<Rightarrow> tri_state option" where
  "sw_dir_cor_refrac ts =
     (let temperature_ref = 283.15;
          pressure_ref = 101;
          lapse_rate = 0.0065;
          g = 9.81;
          R_d = 287;
          exp_baro = g / (R_d * lapse_rate);
          cent_base = (case vert_hori ts of (vert_0, vert_1, vert_2) \<Rightarrow>
                         triangle_centroid vert_0 vert_1 vert_2);
          elevation = sqrt ((fst (cent ts) - fst cent_base)\<^sup>2
                            + (fst (snd (cent ts)) - fst (snd cent_base))\<^sup>2
                            + (snd (snd (cent ts)) - snd (snd cent_base))\<^sup>2)
      in if dot_prod_hs ts < - 1 \<or> 1 < dot_prod_hs ts then None
         else let elev_ang_true = 90 - rad2deg (arccos (dot_prod_hs ts));
                  temperature = temperature_ref - (lapse_rate * elevation)
              in if temperature / temperature_ref < 0 then None
                 else let pressure = pressure_ref * ((temperature / temperature_ref) powr exp_baro)
                      in do {
                        refrac_cor \<leftarrow> atmos_refrac elev_ang_true (K2degC temperature) pressure;
                        k \<leftarrow> vec_unit (cross_prod (sun ts) (norm_hori ts));
                        let sun' = vec_rot k (deg2rad refrac_cor) (sun ts);
                        Some (ts\<lparr> sun := sun', dot_prod_hs := dot_prod (norm_hori ts) sun' \<rparr>)
                      })"

subsection \<open>Standard output of the correction calls\<close>

text \<open>The lines a correction call prints: the error of the packet engine
  (\<^verbatim>\<open>Error: method is only implemented for even 'pixel_per_gc' values\<close>), the ray-tracing
  time (whose value is not modelled), the number of rays and the two operands of the
  fraction of rays.\<close>

datatype log_line =
    Error_even_pixel_per_gc
  | Ray_tracing_time
  | Number_of_rays_shot nat
  | Fraction_of_rays_required nat nat

subsection \<open>Single-ray engine\<close>

text \<open>
  One pass of the body of the loop over \<^verbatim>\<open>n\<close>, on the pair of the output buffer and the
  ray counter. \<^verbatim>\<open>continue\<close> leaves both unchanged. The quotient by \<^verbatim>\<open>dot_prod_hs\<close> is
  evaluated only when the ray is not occluded.
\<close>

definition sw_dir_cor_tri ::
  "terrain \<Rightarrow> vec \<Rightarrow> int \<Rightarrow> nat \<Rightarrow> nat \<Rightarrow> nat \<Rightarrow> nat \<Rightarrow> cfloat list \<times> nat \<Rightarrow>
   (cfloat list \<times> nat) option" where
  "sw_dir_cor_tri cfg sun_pos refrac_cor lin_ind_gc k m n st =
     (case st of (out, num_rays) \<Rightarrow>
      case tri_setup cfg sun_pos k m n of None \<Rightarrow> None | Some ts0 \<Rightarrow>
      case (if refrac_cor = 1 then sw_dir_cor_refrac ts0 else Some ts0) of
        None \<Rightarrow> None
      | Some ts \<Rightarrow>
          if dot_prod_hs ts \<le> dot_prod_min_cl cfg then Some (out, num_rays)
          else
            let dot_prod_ts = dot_prod (norm_tilt ts) (sun ts)
            in if dot_prod_ts \<le> 0 then Some (out, num_rays)
               else
                 let ray = \<lparr> org = ray_org ts, dir = sun ts, tnear = 0,
                             tfar = Fin (dist_search_cl cfg) \<rparr>;
                     ray = rtcOccluded1 (scene cfg) ray
                 in if tfar_pos (tfar ray)
                    then (if dot_prod_hs ts = 0 then None
                          else Some (out[lin_ind_gc :=
                                       fadd (out ! lin_ind_gc)
                                         (min ((dot_prod_ts / dot_prod_hs ts) * surf_enl_fac ts)
                                              (sw_dir_cor_max_cl cfg))],
                                     num_rays + 1))
                    else Some (out, num_rays + 1))"

text \<open>The body of the loop over \<^verbatim>\<open>j\<close>: one grid cell.\<close>

definition sw_dir_cor_gc ::
  "terrain \<Rightarrow> vec \<Rightarrow> int \<Rightarrow> nat \<Rightarrow> nat \<Rightarrow> cfloat list \<times> nat \<Rightarrow> (cfloat list \<times> nat) option" where
  "sw_dir_cor_gc cfg sun_pos refrac_cor i j st =
     (let lin_ind_gc = lin_ind_2d (num_gc_x_cl cfg) i j
      in if mask_cl cfg ! lin_ind_gc = 1
         then for_each (\<lambda>k. for_each (\<lambda>m. for_each
                  (\<lambda>n. sw_dir_cor_tri cfg sun_pos refrac_cor lin_ind_gc k m n) [0 ..< 2])
                  [j * pixel_per_gc_cl cfg ..< j * pixel_per_gc_cl cfg + pixel_per_gc_cl cfg])
                [i * pixel_per_gc_cl cfg ..< i * pixel_per_gc_cl cfg + pixel_per_gc_cl cfg] st
         else (case st of (out, num_rays) \<Rightarrow> Some (out[lin_ind_gc := NaN], num_rays)))"

text \<open>
  \<^verbatim>\<open>CppTerrain::sw_dir_cor\<close>. The rows of grid cells are distributed over tasks by
  \<^verbatim>\<open>tbb::parallel_reduce\<close>; every task writes only the cells of its rows and the ray
  counts are added, so the model runs the rows in order. A mask or output buffer
  shorter than the grid is read or written past its end. The result is the output
  buffer and the lines printed.
\<close>

definition sw_dir_cor ::
  "terrain \<Rightarrow> vec \<Rightarrow> cfloat list \<Rightarrow> int \<Rightarrow> (cfloat list \<times> log_line list) option" where
  "sw_dir_cor cfg sun_pos out refrac_cor =
     (let num_elem = num_gc_y_cl cfg * num_gc_x_cl cfg
      in if length out < num_elem \<or> length (mask_cl cfg) < num_elem then None
         else
           case for_each (\<lambda>i. for_each (\<lambda>j. sw_dir_cor_gc cfg sun_pos refrac_cor i j)
                                [0 ..< num_gc_x_cl cfg])
                  [0 ..< num_gc_y_cl cfg] (out, 0) of
             None \<Rightarrow> None
           | Some (out, num_rays) \<Rightarrow>
               let num_tri_per_gc = real (pixel_per_gc_cl cfg * pixel_per_gc_cl cfg) * 2
               in case for_each (\<lambda>i out. case fdiv (out ! i) num_tri_per_gc of
                                            None \<Rightarrow> None
                                          | Some v \<Rightarrow> Some (out[i := v]))
                         [0 ..< num_elem] out of
                    None \<Rightarrow> None
                  | Some out \<Rightarrow>
                      Some (out, [Ray_tracing_time, Number_of_rays_shot num_rays,
                                  Fraction_of_rays_required num_rays (num_tri_cl cfg)]))"

subsection \<open>Coherent-batch engine\<close>

text \<open>
  The arrays \<^verbatim>\<open>rays\<close> and \<^verbatim>\<open>sw_dir_cor_ray\<close> are filled from index 0 upwards and only
  their first \<^verbatim>\<open>num_rays_gc\<close> entries are passed to the ray tracer or read afterwards;
  the model keeps these filled prefixes as lists, and writing entry \<^verbatim>\<open>num_rays_gc\<close>
  appends. The contribution is computed when the ray is enqueued.
\<close>

definition sw_dir_cor_coherent_tri ::
  "terrain \<Rightarrow> vec \<Rightarrow> nat \<Rightarrow> nat \<Rightarrow> nat \<Rightarrow> rtc_ray_id list \<times> real list \<times> nat \<Rightarrow>
   (rtc_ray_id list \<times> real list \<times> nat) option" where
  "sw_dir_cor_coherent_tri cfg sun_pos k m n st =
     (case st of (rays, sw_dir_cor_ray, num_rays_gc) \<Rightarrow>
      case tri_setup cfg sun_pos k m n of None \<Rightarrow> None | Some ts \<Rightarrow>
        if dot_prod_hs ts \<le> dot_prod_min_cl cfg then Some (rays, sw_dir_cor_ray, num_rays_gc)
        else
          let dot_prod_ts = dot_prod (norm_tilt ts) (sun ts)
          in if dot_prod_ts \<le> 0 then Some (rays, sw_dir_cor_ray, num_rays_gc)
             else if dot_prod_hs ts = 0 then None
             else Some (rays @ [\<lparr> org = ray_org ts, dir = sun ts, tnear = 0,
                                   tfar = Fin (dist_search_cl cfg), ray_id = num_rays_gc \<rparr>],
                        sw_dir_cor_ray @ [min ((dot_prod_ts / dot_prod_hs ts) * surf_enl_fac ts)
                                              (sw_dir_cor_max_cl cfg)],
                        num_rays_gc + 1))"

text \<open>The three loops over \<^verbatim>\<open>k\<close>, \<^verbatim>\<open>m\<close> and \<^verbatim>\<open>n\<close> that fill the batch of one grid cell.\<close>

definition sw_dir_cor_coherent_batch ::
  "terrain \<Rightarrow> vec \<Rightarrow> nat \<Rightarrow> nat \<Rightarrow> (rtc_ray_id list \<times> real list \<times> nat) option" where
  "sw_dir_cor_coherent_batch cfg sun_pos i j =
     for_each (\<lambda>k. for_each (\<lambda>m. for_each
         (\<lambda>n. sw_dir_cor_coherent_tri cfg sun_pos k m n) [0 ..< 2])
         [j * pixel_per_gc_cl cfg ..< j * pixel_per_gc_cl cfg + pixel_per_gc_cl cfg])
       [i * pixel_per_gc_cl cfg ..< i * pixel_per_gc_cl cfg + pixel_per_gc_cl cfg]
       ([], [], 0)"

definition sw_dir_cor_coherent_gc ::
  "terrain \<Rightarrow> vec \<Rightarrow> nat \<Rightarrow> nat \<Rightarrow> cfloat list \<times> nat \<Rightarrow> (cfloat list \<times> nat) option" where
  "sw_dir_cor_coherent_gc cfg sun_pos i j st =
     (case st of (out, num_rays) \<Rightarrow>
      let num_tri_per_gc = pixel_per_gc_cl cfg * pixel_per_gc_cl cfg * 2;
          lin_ind_gc = lin_ind_2d (num_gc_x_cl cfg) i j
      in if mask_cl cfg ! lin_ind_gc = 1
         then
           case sw_dir_cor_coherent_batch cfg sun_pos i j of
             None \<Rightarrow> None
           | Some (rays, sw_dir_cor_ray, num_rays_gc) \<Rightarrow>
               let rays = rtcOccluded1M (scene cfg) rays num_rays_gc;
                   num_rays = num_rays + num_rays_gc;
                   sw_dir_cor_agg =
                     fold (\<lambda>k agg. if tfar_pos (tfar (rays ! k))
                                    then agg + sw_dir_cor_ray ! ray_id (rays ! k) else agg)
                          [0 ..< num_rays_gc] 0
               in (case fdiv (Val sw_dir_cor_agg) (real num_tri_per_gc) of
                     None \<Rightarrow> None
                   | Some v \<Rightarrow> Some (out[lin_ind_gc := v], num_rays))
         else Some (out[lin_ind_gc := NaN], num_rays))"

definition sw_dir_cor_coherent ::
  "terrain \<Rightarrow> vec \<Rightarrow> cfloat list \<Rightarrow> (cfloat list \<times> log_line list) option" where
  "sw_dir_cor_coherent cfg sun_pos out =
     (let num_elem = num_gc_y_cl cfg * num_gc_x_cl cfg
      in if length out < num_elem \<or> length (mask_cl cfg) < num_elem then None
         else
           case for_each (\<lambda>i. for_each (\<lambda>j. sw_dir_cor_coherent_gc cfg sun_pos i j)
                                [0 ..< num_gc_x_cl cfg])
                  [0 ..< num_gc_y_cl cfg] (out, 0) of
             None \<Rightarrow> None
           | Some (out, num_rays) \<Rightarrow>
               Some (out, [Ray_tracing_time, Number_of_rays_shot num_rays,
                           Fraction_of_rays_required num_rays (num_tri_cl cfg)]))"

subsection \<open>Packet-8 engine\<close>

text \<open>
  As for the batch engine, the model keeps the filled lanes of \<^verbatim>\<open>ray8\<close> and of
  \<^verbatim>\<open>sw_dir_cor_ray\<close> as lists; \<^verbatim>\<open>valid8\<close> has its eight entries. The state of a block of
  two by two pixels is the lanes, the validity mask, the contributions and the lane
  counter.
\<close>

definition sw_dir_cor_coherent_rp8_tri ::
  "terrain \<Rightarrow> vec \<Rightarrow> nat \<Rightarrow> nat \<Rightarrow> nat \<Rightarrow> rtc_ray_id list \<times> int list \<times> real list \<times> nat \<Rightarrow>
   (rtc_ray_id list \<times> int list \<times> real list \<times> nat) option" where
  "sw_dir_cor_coherent_rp8_tri cfg sun_pos k_block m_block n st =
     (case st of (ray8, valid8, sw_dir_cor_ray, num_rays_gc) \<Rightarrow>
      case tri_setup cfg sun_pos k_block m_block n of None \<Rightarrow> None | Some ts \<Rightarrow>
        if dot_prod_hs ts \<le> dot_prod_min_cl cfg
        then Some (ray8, valid8, sw_dir_cor_ray, num_rays_gc)
        else
          let dot_prod_ts = dot_prod (norm_tilt ts) (sun ts)
          in if dot_prod_ts \<le> 0 then Some (ray8, valid8, sw_dir_cor_ray, num_rays_gc)
             else if dot_prod_hs ts = 0 then None
             else Some (ray8 @ [\<lparr> org = ray_org ts, dir = sun ts, tnear = 0,
                                   tfar = Fin (dist_search_cl cfg), ray_id = num_rays_gc \<rparr>],
                        valid8[num_rays_gc := - 1],
                        sw_dir_cor_ray @ [min ((dot_prod_ts / dot_prod_hs ts) * surf_enl_fac ts)
                                              (sw_dir_cor_max_cl cfg)],
                        num_rays_gc + 1))"

text \<open>The three loops over \<^verbatim>\<open>k_block\<close>, \<^verbatim>\<open>m_block\<close> and \<^verbatim>\<open>n\<close> that fill the packet of
  the block of two by two pixels at \<open>(k, m)\<close>.\<close>

definition sw_dir_cor_coherent_rp8_packet ::
  "terrain \<Rightarrow> vec \<Rightarrow> nat \<Rightarrow> nat \<Rightarrow> (rtc_ray_id list \<times> int list \<times> real list \<times> nat) option" where
  "sw_dir_cor_coherent_rp8_packet cfg sun_pos k m =
     for_each (\<lambda>k_block. for_each (\<lambda>m_block. for_each
         (\<lambda>n. sw_dir_cor_coherent_rp8_tri cfg sun_pos k_block m_block n) [0 ..< 2])
         [m ..< m + 2])
       [k ..< k + 2] ([], replicate 8 0, [], 0)"

text \<open>One block: the body of the loop over \<^verbatim>\<open>m\<close> with stride 2, on the pair of the
  cell accumulator and the ray counter.\<close>

definition sw_dir_cor_coherent_rp8_block ::
  "terrain \<Rightarrow> vec \<Rightarrow> nat \<Rightarrow> nat \<Rightarrow> real \<times> nat \<Rightarrow> (real \<times> nat) option" where
  "sw_dir_cor_coherent_rp8_block cfg sun_pos k m st =
     (case st of (sw_dir_cor_agg, num_rays) \<Rightarrow>
      case sw_dir_cor_coherent_rp8_packet cfg sun_pos k m of
        None \<Rightarrow> None
      | Some (ray8, valid8, sw_dir_cor_ray, num_rays_gc) \<Rightarrow>
          let ray8 = rtcOccluded8 valid8 (scene cfg) ray8;
              num_rays = num_rays + num_rays_gc;
              sw_dir_cor_agg =
                fold (\<lambda>n agg. if tfar_pos (tfar (ray8 ! n)) then agg + sw_dir_cor_ray ! n else agg)
                     [0 ..< num_rays_gc] sw_dir_cor_agg
          in Some (sw_dir_cor_agg, num_rays))"

definition sw_dir_cor_coherent_rp8_gc ::
  "terrain \<Rightarrow> vec \<Rightarrow> nat \<Rightarrow> nat \<Rightarrow> cfloat list \<times> nat \<Rightarrow> (cfloat list \<times> nat) option" where
  "sw_dir_cor_coherent_rp8_gc cfg sun_pos i j st =
     (case st of (out, num_rays) \<Rightarrow>
      let num_tri_per_gc = real (pixel_per_gc_cl cfg * pixel_per_gc_cl cfg) * 2;
          lin_ind_gc = lin_ind_2d (num_gc_x_cl cfg) i j
      in if mask_cl cfg ! lin_ind_gc = 1
         then
           case for_each (\<lambda>k. for_each (\<lambda>m. sw_dir_cor_coherent_rp8_block cfg sun_pos k m)
                    (stride2 (j * pixel_per_gc_cl cfg)
                             (j * pixel_per_gc_cl cfg + pixel_per_gc_cl cfg)))
                  (stride2 (i * pixel_per_gc_cl cfg)
                           (i * pixel_per_gc_cl cfg + pixel_per_gc_cl cfg))
                  (0, num_rays) of
             None \<Rightarrow> None
           | Some (sw_dir_cor_agg, num_rays) \<Rightarrow>
               (case fdiv (Val sw_dir_cor_agg) num_tri_per_gc of
                  None \<Rightarrow> None
                | Some v \<Rightarrow> Some (out[lin_ind_gc := v], num_rays))
         else Some (out[lin_ind_gc := NaN], num_rays))"

text \<open>\<^verbatim>\<open>CppTerrain::sw_dir_cor_coherent_rp8\<close>: the early return for an odd
  \<^verbatim>\<open>pixel_per_gc\<close> comes before anything else.\<close>

definition sw_dir_cor_coherent_rp8 ::
  "terrain \<Rightarrow> vec \<Rightarrow> cfloat list \<Rightarrow> (cfloat list \<times> log_line list) option" where
  "sw_dir_cor_coherent_rp8 cfg sun_pos out =
     (if pixel_per_gc_cl cfg mod 2 \<noteq> 0 then Some (out, [Error_even_pixel_per_gc])
      else
        let num_elem = num_gc_y_cl cfg * num_gc_x_cl cfg
        in if length out < num_elem \<or> length (mask_cl cfg) < num_elem then None
           else
             case for_each (\<lambda>i. for_each (\<lambda>j. sw_dir_cor_coherent_rp8_gc cfg sun_pos i j)
                                  [0 ..< num_gc_x_cl cfg])
                    [0 ..< num_gc_y_cl cfg] (out, 0) of
               None \<Rightarrow> None
             | Some (out, num_rays) \<Rightarrow>
                 Some (out, [Ray_tracing_time, Number_of_rays_shot num_rays,
                             Fraction_of_rays_required num_rays (num_tri_cl cfg)]))"


subsection \<open>The per-triangle contribution in the words of the specification\<close>

text \<open>
  The definitions of this subsection do not come from the engines: they restate
  steps 1 to 9 of the single-ray engine of the specification, and the theorems below
  compare the three engines with them. A triangle is named by its pixel row \<open>k\<close>, pixel
  column \<open>m\<close> and sub-triangle \<open>n\<close>.
\<close>

text \<open>Steps 1 to 6: the geometry of a triangle, the sun vector refracted on request.\<close>

definition tri_geom :: "terrain \<Rightarrow> vec \<Rightarrow> int \<Rightarrow> nat \<times> nat \<times> nat \<Rightarrow> tri_state option" where
  "tri_geom cfg sun_pos refrac_cor t =
     (case t of (k, m, n) \<Rightarrow>
      case tri_setup cfg sun_pos k m n of
        None \<Rightarrow> None
      | Some ts \<Rightarrow> if refrac_cor = 1 then sw_dir_cor_refrac ts else Some ts)"

text \<open>Steps 7 and 8: the two self-shadow tests.\<close>

definition self_shadowed :: "terrain \<Rightarrow> tri_state \<Rightarrow> bool" where
  "self_shadowed cfg ts \<longleftrightarrow>
     dot_prod (norm_hori ts) (sun ts) \<le> dot_prod_min_cl cfg \<or>
     dot_prod (norm_tilt ts) (sun ts) \<le> 0"

text \<open>Step 9: the ray from \<open>r\<close> in direction \<open>s\<close> with \<open>tnear = 0\<close> and \<open>tfar = dist_search\<close>
  meets the scene.\<close>

definition occluded :: "terrain \<Rightarrow> tri_state \<Rightarrow> bool" where
  "occluded cfg ts \<longleftrightarrow> scene cfg (ray_org ts) (sun ts) 0 (dist_search_cl cfg)"

definition tri_contrib :: "terrain \<Rightarrow> tri_state \<Rightarrow> real" where
  "tri_contrib cfg ts =
     (if self_shadowed cfg ts \<or> occluded cfg ts then 0
      else min ((dot_prod (norm_tilt ts) (sun ts) / dot_prod (norm_hori ts) (sun ts))
                  * (area_tilt ts / area_hori ts))
               (sw_dir_cor_max_cl cfg))"

text \<open>The number of rays a triangle costs: one unless it is self-shadowed.\<close>

definition tri_rays :: "terrain \<Rightarrow> tri_state \<Rightarrow> nat" where
  "tri_rays cfg ts = (if self_shadowed cfg ts then 0 else 1)"

text \<open>The \<open>pixel_per_gc\<^sup>2 \<cdot> 2\<close> triangles of grid cell \<open>(i, j)\<close>, row by row.\<close>

definition cell_tris :: "terrain \<Rightarrow> nat \<Rightarrow> nat \<Rightarrow> (nat \<times> nat \<times> nat) list" where
  "cell_tris cfg i j =
     concat (map (\<lambda>k. concat (map (\<lambda>m. map (\<lambda>n. (k, m, n)) [0 ..< 2])
        [j * pixel_per_gc_cl cfg ..< j * pixel_per_gc_cl cfg + pixel_per_gc_cl cfg]))
        [i * pixel_per_gc_cl cfg ..< i * pixel_per_gc_cl cfg + pixel_per_gc_cl cfg])"

text \<open>The contributions and the ray counts of the triangles of a cell.\<close>

definition cell_contribs :: "terrain \<Rightarrow> vec \<Rightarrow> int \<Rightarrow> nat \<Rightarrow> nat \<Rightarrow> real list" where
  "cell_contribs cfg sun_pos refrac_cor i j =
     map (\<lambda>t. case tri_geom cfg sun_pos refrac_cor t of None \<Rightarrow> 0 | Some ts \<Rightarrow> tri_contrib cfg ts)
         (cell_tris cfg i j)"

definition cell_rays :: "terrain \<Rightarrow> vec \<Rightarrow> int \<Rightarrow> nat \<Rightarrow> nat \<Rightarrow> nat list" where
  "cell_rays cfg sun_pos refrac_cor i j =
     map (\<lambda>t. case tri_geom cfg sun_pos refrac_cor t of None \<Rightarrow> 0 | Some ts \<Rightarrow> tri_rays cfg ts)
         (cell_tris cfg i j)"

text \<open>The grid cells in the order of the two outer loops, and the cells to process.\<close>

definition grid_cells :: "terrain \<Rightarrow> (nat \<times> nat) list" where
  "grid_cells cfg =
     concat (map (\<lambda>i. map (\<lambda>j. (i, j)) [0 ..< num_gc_x_cl cfg]) [0 ..< num_gc_y_cl cfg])"

definition processed :: "terrain \<Rightarrow> nat \<times> nat \<Rightarrow> bool" where
  "processed cfg c \<longleftrightarrow> mask_cl cfg ! lin_ind_2d (num_gc_x_cl cfg) (fst c) (snd c) = 1"

text \<open>
  Well-formed geometry: in every processed cell the geometry of every triangle is
  defined (the vertices lie inside the buffers, no triangle has zero area, the sun is
  not at a ray origin and, with refraction, the refraction block is defined).
\<close>

definition geom_defined :: "terrain \<Rightarrow> vec \<Rightarrow> int \<Rightarrow> bool" where
  "geom_defined cfg sun_pos refrac_cor \<longleftrightarrow>
     (\<forall>c \<in> set (grid_cells cfg). processed cfg c \<longrightarrow>
        (\<forall>t \<in> set (cell_tris cfg (fst c) (snd c)). tri_geom cfg sun_pos refrac_cor t \<noteq> None))"

text \<open>The input constraints of the specification that the engines rely on, on the cached
  configuration, and buffers that cover the grid.\<close>

definition input_ok :: "terrain \<Rightarrow> cfloat list \<Rightarrow> bool" where
  "input_ok cfg out \<longleftrightarrow>
     1 \<le> pixel_per_gc_cl cfg \<and> 0 \<le> dot_prod_min_cl cfg \<and> 0 < dist_search_cl cfg \<and>
     0 < sw_dir_cor_max_cl cfg \<and>
     num_gc_y_cl cfg * num_gc_x_cl cfg \<le> length out \<and>
     num_gc_y_cl cfg * num_gc_x_cl cfg \<le> length (mask_cl cfg)"


subsection \<open>Auxiliary notions for the proofs\<close>

text \<open>What the geometry of a triangle satisfies once it is defined.\<close>

definition tri_inv :: "tri_state \<Rightarrow> bool" where
  "tri_inv ts \<longleftrightarrow>
     dot_prod_hs ts = dot_prod (norm_hori ts) (sun ts) \<and>
     surf_enl_fac ts = area_tilt ts / area_hori ts \<and>
     0 < area_tilt ts \<and> 0 < area_hori ts"

text \<open>The fixed divisor \<open>pixel_per_gc\<^sup>2 \<cdot> 2\<close> and the number of rays of a whole call.\<close>

definition num_tri_per_gc :: "terrain \<Rightarrow> real" where
  "num_tri_per_gc cfg = real (pixel_per_gc_cl cfg * pixel_per_gc_cl cfg) * 2"

definition total_rays :: "terrain \<Rightarrow> vec \<Rightarrow> int \<Rightarrow> nat" where
  "total_rays cfg sun_pos refrac_cor =
     sum_list (map (\<lambda>c. if processed cfg c
                          then sum_list (cell_rays cfg sun_pos refrac_cor (fst c) (snd c)) else 0)
                   (grid_cells cfg))"

text \<open>The clamped quotient of a triangle that is not self-shadowed, and the ray of lane or
  batch entry \<open>l\<close> for it.\<close>

definition tri_value :: "terrain \<Rightarrow> tri_state \<Rightarrow> real" where
  "tri_value cfg ts =
     min ((dot_prod (norm_tilt ts) (sun ts) / dot_prod (norm_hori ts) (sun ts))
            * (area_tilt ts / area_hori ts))
         (sw_dir_cor_max_cl cfg)"

definition tri_ray :: "terrain \<Rightarrow> nat \<times> tri_state \<Rightarrow> rtc_ray_id" where
  "tri_ray cfg lt = \<lparr> org = ray_org (snd lt), dir = sun (snd lt), tnear = 0,
                      tfar = Fin (dist_search_cl cfg), ray_id = fst lt \<rparr>"

text \<open>The triangles of a list that pass both self-shadow tests.\<close>

definition survivors :: "terrain \<Rightarrow> vec \<Rightarrow> (nat \<times> nat \<times> nat) list \<Rightarrow> tri_state list" where
  "survivors cfg sun_pos ts =
     concat (map (\<lambda>t. case tri_geom cfg sun_pos 0 t of
                         None \<Rightarrow> []
                       | Some ts \<Rightarrow> if self_shadowed cfg ts then [] else [ts]) ts)"

text \<open>The eight triangles of the block of two by two pixels at \<open>(k, m)\<close>, and the
  validity mask after \<open>n\<close> lanes from \<open>a\<close> on have been marked.\<close>

definition block_tris :: "nat \<Rightarrow> nat \<Rightarrow> (nat \<times> nat \<times> nat) list" where
  "block_tris k m =
     concat (map (\<lambda>k_block. concat (map (\<lambda>m_block. map (\<lambda>n. (k_block, m_block, n)) [0 ..< 2])
        [m ..< m + 2])) [k ..< k + 2])"

definition mark_valid :: "int list \<Rightarrow> nat \<Rightarrow> nat \<Rightarrow> int list" where
  "mark_valid v a n = fold (\<lambda>l v. v[l := - 1]) [a ..< a + n] v"

text \<open>The blocks of an even-sized cell, in the order of the two loops with stride 2.\<close>

definition cell_blocks :: "terrain \<Rightarrow> nat \<Rightarrow> nat \<Rightarrow> (nat \<times> nat) list" where
  "cell_blocks cfg i j =
     concat (map (\<lambda>k. map (\<lambda>m. (k, m))
        (stride2 (j * pixel_per_gc_cl cfg) (j * pixel_per_gc_cl cfg + pixel_per_gc_cl cfg)))
        (stride2 (i * pixel_per_gc_cl cfg) (i * pixel_per_gc_cl cfg + pixel_per_gc_cl cfg)))"

text \<open>The angle, in radians, by which \<open>90 + 10.3 / (90 + 5.11)\<close> degrees exceed a right
  angle.\<close>

definition y90 :: real where
  "y90 = deg2rad (10.3 / (90 + 5.11))"

text \<open>Twice the signed area of the projection of a triangle on the horizontal plane:
  positive when the vertices \<open>v0\<close>, \<open>v1\<close>, \<open>v2\<close> run counter-clockwise seen from above,
  negative when they run clockwise, zero when they lie on one vertical plane.\<close>

definition winding :: "vec \<Rightarrow> vec \<Rightarrow> vec \<Rightarrow> real" where
  "winding v0 v1 v2 =
     (case v0 of (x0, y0, z0) \<Rightarrow> case v1 of (x1, y1, z1) \<Rightarrow> case v2 of (x2, y2, z2) \<Rightarrow>
        (x1 - x0) * (y2 - y0) - (x2 - x0) * (y1 - y0))"

subsection \<open>Example inputs\<close>

text \<open>A flat DEM of two by two vertices with unit spacing, \<open>x\<close> growing with the column
  and \<open>y\<close> with the row; an empty scene; and the terrain object that \<open>initialise\<close>
  builds for one grid cell of one pixel, with \<open>ang_max = 90\<close>, \<open>sw_dir_cor_max = 5\<close> and a
  search distance of 100 km.\<close>

definition ex_dem :: "real list" where
  "ex_dem = [0, 0, 0,  1, 0, 0,  0, 1, 0,  1, 1, 0]"

definition ex_scene :: rtc_scene where
  "ex_scene = (\<lambda>org dir tnear tfar. False)"

definition ex_cfg :: terrain where
  "ex_cfg = \<lparr> vert_grid_cl = ex_dem, dem_dim_0_cl = 2, dem_dim_1_cl = 2,
              vert_grid_in_cl = ex_dem, dem_dim_in_0_cl = 2, dem_dim_in_1_cl = 2,
              pixel_per_gc_cl = 1, offset_gc_cl = 0, mask_cl = [1],
              sw_dir_cor_max_cl = 5, ang_max_cl = 90, ray_org_elev_cl = 0.1,
              num_gc_y_cl = 1, num_gc_x_cl = 1, num_tri_cl = 2,
              dot_prod_min_cl = 0, dist_search_cl = 100000, scene = ex_scene \<rparr>"

text \<open>The same four vertices with the rows running south: \<open>y\<close> decreases with the row.\<close>

definition ex_dem_south :: "real list" where
  "ex_dem_south = [0, 0, 0,  1, 0, 0,  0, - 1, 0,  1, - 1, 0]"

text \<open>The geometry of the lower-left triangle of the example for a sun on the horizon of
  its ray origin, at \<open>(4 / 3, 1 / 3, 1 / 10)\<close>, and the angle by which refraction lifts that
  sun.\<close>

definition ex_ts :: tri_state where
  "ex_ts = \<lparr> cent = (1 / 3, 1 / 3, 0), norm_tilt = (0, 0, 1), area_tilt = 1 / 2,
             ray_org = (1 / 3, 1 / 3, 1 / 10),
             vert_hori = ((0, 0, 0), (1, 0, 0), (0, 1, 0)), norm_hori = (0, 0, 1),
             area_hori = 1 / 2, surf_enl_fac = 1, sun = (1, 0, 0), dot_prod_hs = 0 \<rparr>"

definition ex_theta :: real where
  "ex_theta = deg2rad ((1.02 / tan (deg2rad (10.3 / 5.11)) + 0.0019279) / 60)"

subsection \<open>The output invariant and further example inputs\<close>

text \<open>Invariant I1 of the specification: a cell of the grid is NaN exactly when its mask
  byte is not 1, and is otherwise a number between 0 and \<open>sw_dir_cor_max\<close>.\<close>

definition output_invariant :: "terrain \<Rightarrow> cfloat list \<Rightarrow> bool" where
  "output_invariant cfg out \<longleftrightarrow>
     (\<forall>l < num_gc_y_cl cfg * num_gc_x_cl cfg.
        (out ! l = NaN \<longleftrightarrow> mask_cl cfg ! l \<noteq> 1) \<and>
        (mask_cl cfg ! l = 1 \<longrightarrow>
           (\<exists>v. out ! l = Val v \<and> 0 \<le> v \<and> v \<le> sw_dir_cor_max_cl cfg)))"

text \<open>The contributions stored with the batch of a cell by the coherent engine, and with
  the packets of the blocks of a cell by the packet engine.\<close>

definition batch_contribs :: "terrain \<Rightarrow> vec \<Rightarrow> nat \<Rightarrow> nat \<Rightarrow> real list" where
  "batch_contribs cfg sun_pos i j =
     (case sw_dir_cor_coherent_batch cfg sun_pos i j of
        None \<Rightarrow> []
      | Some (rays, sw_dir_cor_ray, num_rays_gc) \<Rightarrow> sw_dir_cor_ray)"

definition packet_contribs :: "terrain \<Rightarrow> vec \<Rightarrow> nat \<Rightarrow> nat \<Rightarrow> real list" where
  "packet_contribs cfg sun_pos i j =
     concat (map (\<lambda>(k, m). case sw_dir_cor_coherent_rp8_packet cfg sun_pos k m of
                               None \<Rightarrow> []
                             | Some (ray8, valid8, sw_dir_cor_ray, num_rays_gc) \<Rightarrow> sw_dir_cor_ray)
                 (cell_blocks cfg i j))"

text \<open>A flat DEM of three by three vertices with unit spacing and the terrain object for
  one grid cell of two by two pixels over it.\<close>

definition ex_dem3 :: "real list" where
  "ex_dem3 = [0, 0, 0,  1, 0, 0,  2, 0, 0,
              0, 1, 0,  1, 1, 0,  2, 1, 0,
              0, 2, 0,  1, 2, 0,  2, 2, 0]"

definition ex_cfg2 :: terrain where
  "ex_cfg2 = \<lparr> vert_grid_cl = ex_dem3, dem_dim_0_cl = 3, dem_dim_1_cl = 3,
               vert_grid_in_cl = ex_dem3, dem_dim_in_0_cl = 3, dem_dim_in_1_cl = 3,
               pixel_per_gc_cl = 2, offset_gc_cl = 0, mask_cl = [1],
               sw_dir_cor_max_cl = 5, ang_max_cl = 90, ray_org_elev_cl = 0.1,
               num_gc_y_cl = 1, num_gc_x_cl = 1, num_tri_cl = 8,
               dot_prod_min_cl = 0, dist_search_cl = 100000, scene = ex_scene \<rparr>"

text \<open>The cells to process hold 0 when the call starts.\<close>

definition zero_initialised :: "terrain \<Rightarrow> cfloat list \<Rightarrow> bool" where
  "zero_initialised cfg out \<longleftrightarrow>
     (\<forall>l < num_gc_y_cl cfg * num_gc_x_cl cfg. mask_cl cfg ! l = 1 \<longrightarrow> out ! l = Val 0)"

section \<open>Properties\<close>

subsection \<open>The vector kernel\<close>

lemma sum_squares3_eq_0_iff:
  fixes x y z :: real
  shows "x * x + y * y + z * z = 0 \<longleftrightarrow> x = 0 \<and> y = 0 \<and> z = 0"
proof
  assume h: "x * x + y * y + z * z = 0"
  have "0 \<le> x * x" "0 \<le> y * y" "0 \<le> z * z" by simp_all
  with h have "x * x = 0" "y * y = 0" "z * z = 0" by linarith+
  then show "x = 0 \<and> y = 0 \<and> z = 0" by simp
qed simp

lemma sum_squares3_nonneg:
  fixes x y z :: real
  shows "0 \<le> x * x + y * y + z * z"
  by (simp add: add_nonneg_nonneg)

lemma vec_unit_eq_None_iff: "vec_unit v = None \<longleftrightarrow> v = (0, 0, 0)"
  by (cases v) (simp add: vec_unit_def Let_def sum_squares3_eq_0_iff)

lemma vec_unit_norm:
  assumes "vec_unit v = Some u"
  shows "dot_prod u u = 1"
proof -
  obtain x y z where v: "v = (x, y, z)" by (cases v)
  define q where "q = x * x + y * y + z * z"
  have q0: "0 \<le> q" unfolding q_def by (rule sum_squares3_nonneg)
  from assms have m: "sqrt q \<noteq> 0" and u: "u = (x / sqrt q, y / sqrt q, z / sqrt q)"
    by (auto simp: v vec_unit_def Let_def q_def split: if_splits)
  have "dot_prod u u = (x * x + y * y + z * z) / (sqrt q * sqrt q)"
    by (simp add: u dot_prod_def add_divide_distrib)
  also have "\<dots> = q / q" using q0 by (simp add: q_def)
  also have "\<dots> = 1" using m by simp
  finally show ?thesis .
qed

text \<open>
  Claim C10. \<^verbatim>\<open>vec_unit\<close> divides each component by the Euclidean magnitude. For a
  vector that is not the zero vector the divisor is strictly positive, the result is
  defined and has Euclidean norm 1; for the zero vector the result is undefined.
\<close>

theorem vec_unit_spec:
  "(v \<noteq> (0, 0, 0) \<longrightarrow>
      (case v of (v_x, v_y, v_z) \<Rightarrow>
         0 < sqrt (v_x * v_x + v_y * v_y + v_z * v_z) \<and>
         (\<exists>u_x u_y u_z.
            vec_unit v = Some (u_x, u_y, u_z) \<and>
            u_x = v_x / sqrt (v_x * v_x + v_y * v_y + v_z * v_z) \<and>
            u_y = v_y / sqrt (v_x * v_x + v_y * v_y + v_z * v_z) \<and>
            u_z = v_z / sqrt (v_x * v_x + v_y * v_y + v_z * v_z) \<and>
            sqrt (u_x * u_x + u_y * u_y + u_z * u_z) = 1))) \<and>
   vec_unit (0, 0, 0) = None"
proof (intro conjI impI)
  show "vec_unit (0, 0, 0) = None" by (simp add: vec_unit_eq_None_iff)
next
  assume nz: "v \<noteq> (0, 0, 0)"
  obtain x y z where v: "v = (x, y, z)" by (cases v)
  define q where "q = x * x + y * y + z * z"
  have "q \<noteq> 0" using nz unfolding q_def v by (simp add: sum_squares3_eq_0_iff)
  moreover have "0 \<le> q" unfolding q_def by (rule sum_squares3_nonneg)
  ultimately have qpos: "0 < q" by simp
  then have mpos: "0 < sqrt q" by simp
  have u: "vec_unit v = Some (x / sqrt q, y / sqrt q, z / sqrt q)"
    using mpos by (simp add: v vec_unit_def Let_def q_def)
  from vec_unit_norm[OF u]
  have "sqrt (x / sqrt q * (x / sqrt q) + y / sqrt q * (y / sqrt q) + z / sqrt q * (z / sqrt q)) = 1"
    by (simp add: dot_prod_def)
  with mpos u show "case v of (v_x, v_y, v_z) \<Rightarrow>
         0 < sqrt (v_x * v_x + v_y * v_y + v_z * v_z) \<and>
         (\<exists>u_x u_y u_z.
            vec_unit v = Some (u_x, u_y, u_z) \<and>
            u_x = v_x / sqrt (v_x * v_x + v_y * v_y + v_z * v_z) \<and>
            u_y = v_y / sqrt (v_x * v_x + v_y * v_y + v_z * v_z) \<and>
            u_z = v_z / sqrt (v_x * v_x + v_y * v_y + v_z * v_z) \<and>
            sqrt (u_x * u_x + u_y * u_y + u_z * u_z) = 1)"
    by (simp add: v q_def)
qed

theorem vec_unit_spec_witness:
  "(3, 4, 0) \<noteq> (0 :: real, 0 :: real, 0 :: real) \<and>
   0 < sqrt (3 * 3 + 4 * 4 + 0 * 0 :: real) \<and>
   vec_unit (3, 4, 0) = Some (3 / 5, 4 / 5, 0) \<and>
   vec_unit (0, 0, 0) = None"
proof -
  have s: "sqrt (25 :: real) = 5"
    by (rule real_sqrt_unique) simp_all
  show ?thesis
    using vec_unit_spec [of "(3, 4, 0)"] by (simp add: s)
qed

subsection \<open>Loops\<close>

lemma for_each_append:
  "for_each body (xs @ ys) s =
     (case for_each body xs s of None \<Rightarrow> None | Some s' \<Rightarrow> for_each body ys s')"
  by (induction xs arbitrary: s) (auto split: option.splits)

lemma for_each_map: "for_each body (map g xs) = for_each (\<lambda>x. body (g x)) xs"
proof
  fix s show "for_each body (map g xs) s = for_each (\<lambda>x. body (g x)) xs s"
    by (induction xs arbitrary: s) (auto split: option.splits)
qed

lemma for_each_concat:
  "for_each body (concat xss) = for_each (\<lambda>xs. for_each body xs) xss"
proof
  fix s show "for_each body (concat xss) s = for_each (\<lambda>xs. for_each body xs) xss s"
    by (induction xss arbitrary: s) (auto simp: for_each_append split: option.splits)
qed

lemma for_each_nest2:
  "for_each (\<lambda>x. for_each (\<lambda>y. body x y) ys) xs s =
   for_each (\<lambda>(x, y). body x y) (concat (map (\<lambda>x. map (\<lambda>y. (x, y)) ys) xs)) s"
  by (simp add: for_each_concat for_each_map)

lemma for_each_nest3:
  "for_each (\<lambda>x. for_each (\<lambda>y. for_each (\<lambda>z. body x y z) (zs)) (ys x)) xs s =
   for_each (\<lambda>(x, y, z). body x y z)
     (concat (map (\<lambda>x. concat (map (\<lambda>y. map (\<lambda>z. (x, y, z)) zs) (ys x))) xs)) s"
  by (simp add: for_each_concat for_each_map)

lemma fadd_zero [simp]: "fadd a 0 = a"
  by (cases a) simp_all

lemma fadd_fadd [simp]: "fadd (fadd a x) y = fadd a (x + y)"
  by (cases a) simp_all

text \<open>A loop whose every pass adds to one cell of the buffer and to the counter.\<close>

lemma for_each_accumulate:
  assumes "\<And>x out nr. x \<in> set xs \<Longrightarrow> length out = L \<Longrightarrow>
             body x (out, nr) = Some (out[l := fadd (out ! l) (c x)], nr + r x)"
    and "l < L" and "length out = L"
  shows "for_each body xs (out, nr) =
           Some (out[l := fadd (out ! l) (sum_list (map c xs))], nr + sum_list (map r xs))"
  using assms
proof (induction xs arbitrary: out nr)
  case Nil
  then show ?case by simp
next
  case (Cons x xs)
  have b: "body x (out, nr) = Some (out[l := fadd (out ! l) (c x)], nr + r x)"
    using Cons.prems by simp
  have "for_each body xs (out[l := fadd (out ! l) (c x)], nr + r x) =
          Some ((out[l := fadd (out ! l) (c x)])[l := fadd ((out[l := fadd (out ! l) (c x)]) ! l)
                   (sum_list (map c xs))], nr + r x + sum_list (map r xs))"
    using Cons.prems by (intro Cons.IH) simp_all
  then show ?case using b Cons.prems(2,3) by (simp add: add.assoc)
qed

text \<open>A loop over cells with distinct indices, each pass rewriting its own cell.\<close>

lemma for_each_cells:
  assumes "\<And>x out nr. x \<in> set xs \<Longrightarrow> length out = L \<Longrightarrow>
             body x (out, nr) = Some (out[idx x := upd x (out ! idx x)], nr + r x)"
    and "distinct (map idx xs)" and "\<forall>x \<in> set xs. idx x < L" and "length out = L"
  shows "\<exists>out'. for_each body xs (out, nr) = Some (out', nr + sum_list (map r xs)) \<and>
           length out' = L \<and>
           (\<forall>x \<in> set xs. out' ! idx x = upd x (out ! idx x)) \<and>
           (\<forall>c. c \<notin> idx ` set xs \<longrightarrow> out' ! c = out ! c)"
  using assms
proof (induction xs arbitrary: out nr)
  case Nil
  then show ?case by simp
next
  case (Cons x xs)
  let ?o = "out[idx x := upd x (out ! idx x)]"
  have b: "body x (out, nr) = Some (?o, nr + r x)"
    using Cons.prems by simp
  have "\<exists>out'. for_each body xs (?o, nr + r x) = Some (out', nr + r x + sum_list (map r xs)) \<and>
           length out' = L \<and>
           (\<forall>y \<in> set xs. out' ! idx y = upd y (?o ! idx y)) \<and>
           (\<forall>c. c \<notin> idx ` set xs \<longrightarrow> out' ! c = ?o ! c)"
    using Cons.prems by (intro Cons.IH) simp_all
  then obtain out' where o: "for_each body xs (?o, nr + r x) = Some (out', nr + r x + sum_list (map r xs))"
    "length out' = L" "\<forall>y \<in> set xs. out' ! idx y = upd y (?o ! idx y)"
    "\<forall>c. c \<notin> idx ` set xs \<longrightarrow> out' ! c = ?o ! c" by blast
  have nx: "idx x \<notin> idx ` set xs" using Cons.prems(2) by simp
  have lx: "idx x < length out" using Cons.prems(3,4) by simp
  have 1: "out' ! idx x = upd x (out ! idx x)" using o(4) nx lx by simp
  have 2: "\<forall>y \<in> set xs. out' ! idx y = upd y (out ! idx y)"
  proof
    fix y assume y: "y \<in> set xs"
    then have "idx y \<noteq> idx x" using nx by (metis imageI)
    then show "out' ! idx y = upd y (out ! idx y)" using o(3) y by simp
  qed
  have 3: "\<forall>c. c \<notin> idx ` set (x # xs) \<longrightarrow> out' ! c = out ! c"
    using o(4) by auto
  show ?case using b o(1,2) 1 2 3 by (auto simp: add.assoc)
qed

lemma for_each_update:
  assumes "distinct xs" and "\<forall>x \<in> set xs. x < length out"
  shows "\<exists>out'. for_each (\<lambda>i out. Some (out[i := f (out ! i)])) xs out = Some out' \<and>
           length out' = length out \<and>
           (\<forall>x \<in> set xs. out' ! x = f (out ! x)) \<and>
           (\<forall>c. c \<notin> set xs \<longrightarrow> out' ! c = out ! c)"
  using assms
proof (induction xs arbitrary: out)
  case Nil
  then show ?case by simp
next
  case (Cons x xs)
  let ?o = "out[x := f (out ! x)]"
  have "\<exists>out'. for_each (\<lambda>i out. Some (out[i := f (out ! i)])) xs ?o = Some out' \<and>
           length out' = length ?o \<and>
           (\<forall>y \<in> set xs. out' ! y = f (?o ! y)) \<and>
           (\<forall>c. c \<notin> set xs \<longrightarrow> out' ! c = ?o ! c)"
    using Cons.prems by (intro Cons.IH) simp_all
  then obtain out' where o: "for_each (\<lambda>i out. Some (out[i := f (out ! i)])) xs ?o = Some out'"
    "length out' = length ?o" "\<forall>y \<in> set xs. out' ! y = f (?o ! y)"
    "\<forall>c. c \<notin> set xs \<longrightarrow> out' ! c = ?o ! c" by blast
  have nx: "x \<notin> set xs" and lx: "x < length out" using Cons.prems by simp_all
  have 1: "out' ! x = f (out ! x)" using o(4) nx lx by simp
  have 2: "\<forall>y \<in> set xs. out' ! y = f (out ! y)"
  proof
    fix y assume y: "y \<in> set xs"
    then have "y \<noteq> x" using nx by auto
    then show "out' ! y = f (out ! y)" using o(3) y by simp
  qed
  show ?case using o(1,2,4) 1 2 by auto
qed

lemma grid_lin_indices:
  "concat (map (\<lambda>i. map (\<lambda>j. i * nx + j) [0 ..< nx]) [0 ..< ny]) = [0 ..< ny * nx]"
proof (induction ny)
  case 0
  then show ?case by simp
next
  case (Suc ny)
  have "map (\<lambda>j. ny * nx + j) [0 ..< nx] = [ny * nx ..< ny * nx + nx]"
    using map_add_upt[of "ny * nx" nx] by (simp add: add.commute)
  moreover have "[0 ..< ny * nx] @ [ny * nx ..< ny * nx + nx] = [0 ..< ny * nx + nx]"
    using upt_add_eq_append[of 0 "ny * nx" nx] by simp
  ultimately show ?case using Suc by (simp add: add.commute)
qed

lemma map_lin_grid_cells:
  "map (\<lambda>c. lin_ind_2d (num_gc_x_cl cfg) (fst c) (snd c)) (grid_cells cfg) =
     [0 ..< num_gc_y_cl cfg * num_gc_x_cl cfg]"
  using grid_lin_indices[of "num_gc_x_cl cfg" "num_gc_y_cl cfg"]
  by (simp add: grid_cells_def lin_ind_2d_def map_concat comp_def)

subsection \<open>Per-triangle geometry and the single-ray engine\<close>

lemma sqrt_sum_squares3_pos:
  fixes a b c :: real
  assumes "a * a + b * b + c * c \<noteq> 0"
  shows "0 < sqrt (a * a + b * b + c * c)"
  using assms sum_squares3_nonneg[of a b c] by (simp add: less_le)

lemma triangle_normal_area_pos:
  assumes "triangle_normal_area v0 v1 v2 = Some (nrm, area)"
  shows "0 < area"
proof -
  obtain x0 y0 z0 x1 y1 z1 x2 y2 z2 where v: "v0 = (x0, y0, z0)" "v1 = (x1, y1, z1)" "v2 = (x2, y2, z2)"
    by (cases v0, cases v1, cases v2) auto
  define a where "a = (y2 - y1) * (z0 - z1) - (z2 - z1) * (y0 - y1)"
  define b where "b = (z2 - z1) * (x0 - x1) - (x2 - x1) * (z0 - z1)"
  define c where "c = (x2 - x1) * (y0 - y1) - (y2 - y1) * (x0 - x1)"
  have e: "triangle_normal_area v0 v1 v2 =
      (if sqrt (a * a + b * b + c * c) = 0 then None
       else Some ((a / sqrt (a * a + b * b + c * c), b / sqrt (a * a + b * b + c * c),
                   c / sqrt (a * a + b * b + c * c)), sqrt (a * a + b * b + c * c) / 2))"
    unfolding triangle_normal_area_def v Let_def a_def b_def c_def by simp
  from assms have n: "a * a + b * b + c * c \<noteq> 0" and ar: "area = sqrt (a * a + b * b + c * c) / 2"
    unfolding e by (auto split: if_splits)
  show ?thesis unfolding ar using sqrt_sum_squares3_pos[OF n] by simp
qed

lemma tri_setup_inv:
  assumes "tri_setup cfg sun_pos k m n = Some ts"
  shows "tri_inv ts"
  using assms unfolding tri_setup_def tri_inv_def
  by (auto simp: Let_def split: prod.splits Option.bind_splits dest: triangle_normal_area_pos)

lemma sw_dir_cor_refrac_frame:
  assumes "sw_dir_cor_refrac ts = Some ts'"
  shows "ts' = ts\<lparr> sun := sun ts', dot_prod_hs := dot_prod (norm_hori ts) (sun ts') \<rparr>"
  using assms unfolding sw_dir_cor_refrac_def
  by (auto simp: Let_def split: if_splits Option.bind_splits)

lemma tri_geom_inv:
  assumes "tri_geom cfg sun_pos refrac_cor t = Some ts"
  shows "tri_inv ts"
proof -
  obtain k m n where t: "t = (k, m, n)" by (cases t)
  from assms obtain ts0 where s: "tri_setup cfg sun_pos k m n = Some ts0"
    and r: "(if refrac_cor = 1 then sw_dir_cor_refrac ts0 else Some ts0) = Some ts"
    unfolding tri_geom_def t by (auto split: option.splits)
  have i: "tri_inv ts0" using s by (rule tri_setup_inv)
  show ?thesis
  proof (cases "refrac_cor = 1")
    case True
    with r have e: "ts = ts0\<lparr> sun := sun ts, dot_prod_hs := dot_prod (norm_hori ts0) (sun ts) \<rparr>"
      using sw_dir_cor_refrac_frame by auto
    have "dot_prod_hs ts = dot_prod (norm_hori ts0) (sun ts)" "norm_hori ts = norm_hori ts0"
      "surf_enl_fac ts = surf_enl_fac ts0" "area_tilt ts = area_tilt ts0" "area_hori ts = area_hori ts0"
      using arg_cong[OF e, of dot_prod_hs] arg_cong[OF e, of norm_hori]
        arg_cong[OF e, of surf_enl_fac] arg_cong[OF e, of area_tilt] arg_cong[OF e, of area_hori]
      by simp_all
    with i show ?thesis by (simp add: tri_inv_def)
  next
    case False
    with r i show ?thesis by simp
  qed
qed

lemma tfar_rtcOccluded1:
  "tfar_pos (tfar (rtcOccluded1 sc \<lparr> org = p, dir = d, tnear = a, tfar = Fin t, \<dots> = e \<rparr>)) \<longleftrightarrow>
     0 < t \<and> \<not> sc p d a t"
  by (simp add: rtcOccluded1_def)

lemma sw_dir_cor_tri_eq:
  assumes g: "tri_geom cfg sun_pos refrac_cor (k, m, n) = Some ts"
    and c: "0 \<le> dot_prod_min_cl cfg" "0 < dist_search_cl cfg"
  shows "sw_dir_cor_tri cfg sun_pos refrac_cor l k m n (out, nr) =
           Some (out[l := fadd (out ! l) (tri_contrib cfg ts)], nr + tri_rays cfg ts)"
proof -
  have i: "dot_prod_hs ts = dot_prod (norm_hori ts) (sun ts)"
    "surf_enl_fac ts = area_tilt ts / area_hori ts"
    using tri_geom_inv[OF g] by (simp_all add: tri_inv_def)
  from g obtain ts0 where s: "tri_setup cfg sun_pos k m n = Some ts0"
    and r: "(if refrac_cor = 1 then sw_dir_cor_refrac ts0 else Some ts0) = Some ts"
    unfolding tri_geom_def by (auto split: option.splits)
  consider (shadow) "self_shadowed cfg ts"
    | (hit) "\<not> self_shadowed cfg ts" "occluded cfg ts"
    | (lit) "\<not> self_shadowed cfg ts" "\<not> occluded cfg ts" by blast
  then show ?thesis
  proof cases
    case shadow
    then show ?thesis
      unfolding sw_dir_cor_tri_def using c
      by (auto simp add: s r i tri_contrib_def tri_rays_def self_shadowed_def Let_def)
  next
    case hit
    then show ?thesis
      unfolding sw_dir_cor_tri_def using c
      by (simp add: s r i tri_contrib_def tri_rays_def self_shadowed_def occluded_def Let_def
          tfar_rtcOccluded1)
  next
    case lit
    then have "dot_prod (norm_hori ts) (sun ts) \<noteq> 0"
      using c(1) by (auto simp: self_shadowed_def)
    with lit show ?thesis
      unfolding sw_dir_cor_tri_def using c
      by (simp add: s r i tri_contrib_def tri_rays_def self_shadowed_def occluded_def Let_def
          tfar_rtcOccluded1)
  qed
qed

lemma grid_cells_lin_less:
  assumes "c \<in> set (grid_cells cfg)"
  shows "lin_ind_2d (num_gc_x_cl cfg) (fst c) (snd c) < num_gc_y_cl cfg * num_gc_x_cl cfg"
proof -
  have "lin_ind_2d (num_gc_x_cl cfg) (fst c) (snd c)
          \<in> set (map (\<lambda>c. lin_ind_2d (num_gc_x_cl cfg) (fst c) (snd c)) (grid_cells cfg))"
    using assms by simp
  then show ?thesis unfolding map_lin_grid_cells by simp
qed

lemma grid_cells_distinct:
  "distinct (map (\<lambda>c. lin_ind_2d (num_gc_x_cl cfg) (fst c) (snd c)) (grid_cells cfg))"
  unfolding map_lin_grid_cells by simp

lemma sw_dir_cor_gc_eq:
  assumes d: "processed cfg (i, j) \<longrightarrow>
                (\<forall>t \<in> set (cell_tris cfg i j). tri_geom cfg sun_pos refrac_cor t \<noteq> None)"
    and c: "0 \<le> dot_prod_min_cl cfg" "0 < dist_search_cl cfg"
    and l: "lin_ind_2d (num_gc_x_cl cfg) i j < length out"
  shows "sw_dir_cor_gc cfg sun_pos refrac_cor i j (out, nr) =
           Some (out[lin_ind_2d (num_gc_x_cl cfg) i j :=
                   (if processed cfg (i, j)
                    then fadd (out ! lin_ind_2d (num_gc_x_cl cfg) i j)
                           (sum_list (cell_contribs cfg sun_pos refrac_cor i j))
                    else NaN)],
                 nr + (if processed cfg (i, j)
                       then sum_list (cell_rays cfg sun_pos refrac_cor i j) else 0))"
proof (cases "processed cfg (i, j)")
  case False
  then show ?thesis by (simp add: sw_dir_cor_gc_def processed_def Let_def)
next
  case True
  let ?l = "lin_ind_2d (num_gc_x_cl cfg) i j"
  have b: "(case t of (k, m, n) \<Rightarrow> sw_dir_cor_tri cfg sun_pos refrac_cor ?l k m n) (o', n') =
             Some (o'[?l := fadd (o' ! ?l)
                      (case tri_geom cfg sun_pos refrac_cor t of None \<Rightarrow> 0
                       | Some ts \<Rightarrow> tri_contrib cfg ts)],
                   n' + (case tri_geom cfg sun_pos refrac_cor t of None \<Rightarrow> 0
                       | Some ts \<Rightarrow> tri_rays cfg ts))"
    if "t \<in> set (cell_tris cfg i j)" for t o' n'
  proof -
    obtain k m n where t: "t = (k, m, n)" by (cases t)
    from d True that obtain ts where g: "tri_geom cfg sun_pos refrac_cor (k, m, n) = Some ts"
      unfolding t by auto
    show ?thesis unfolding t using sw_dir_cor_tri_eq[OF g c] g by simp
  qed
  have "for_each (\<lambda>(k, m, n). sw_dir_cor_tri cfg sun_pos refrac_cor ?l k m n) (cell_tris cfg i j)
          (out, nr) =
        Some (out[?l := fadd (out ! ?l) (sum_list (cell_contribs cfg sun_pos refrac_cor i j))],
              nr + sum_list (cell_rays cfg sun_pos refrac_cor i j))"
    unfolding cell_contribs_def cell_rays_def
    by (rule for_each_accumulate[where L = "length out"]) (use b l in auto)
  then show ?thesis
    using True
    by (simp add: sw_dir_cor_gc_def processed_def Let_def for_each_nest3 cell_tris_def)
qed

lemma fdiv_loop:
  assumes "d \<noteq> 0" and "N \<le> length out"
  shows "\<exists>out'. for_each (\<lambda>i out. case fdiv (out ! i) d of None \<Rightarrow> None
                                         | Some v \<Rightarrow> Some (out[i := v])) [0 ..< N] out = Some out' \<and>
           length out' = length out \<and>
           (\<forall>l < N. fdiv (out ! l) d = Some (out' ! l)) \<and>
           (\<forall>l \<ge> N. out' ! l = out ! l)"
proof -
  let ?f = "\<lambda>c. case c of NaN \<Rightarrow> NaN | Val a \<Rightarrow> Val (a / d)"
  have e: "(\<lambda>i out. case fdiv (out ! i) d of None \<Rightarrow> None | Some v \<Rightarrow> Some (out[i := v]))
           = (\<lambda>i out. Some (out[i := ?f (out ! i)]))"
    using assms(1) by (intro ext) simp
  have "\<exists>out'. for_each (\<lambda>i out. Some (out[i := ?f (out ! i)])) [0 ..< N] out = Some out' \<and>
           length out' = length out \<and>
           (\<forall>x \<in> set [0 ..< N]. out' ! x = ?f (out ! x)) \<and>
           (\<forall>c. c \<notin> set [0 ..< N] \<longrightarrow> out' ! c = out ! c)"
    by (rule for_each_update) (use assms(2) in auto)
  then show ?thesis unfolding e using assms(1) by (auto simp: not_less)
qed

lemma sw_dir_cor_char:
  assumes io: "input_ok cfg out" and gd: "geom_defined cfg sun_pos refrac_cor"
  shows "\<exists>out'. sw_dir_cor cfg sun_pos out refrac_cor =
           Some (out', [Ray_tracing_time, Number_of_rays_shot (total_rays cfg sun_pos refrac_cor),
                        Fraction_of_rays_required (total_rays cfg sun_pos refrac_cor) (num_tri_cl cfg)]) \<and>
         length out' = length out \<and>
         (\<forall>c \<in> set (grid_cells cfg).
            fdiv (if processed cfg c
                  then fadd (out ! lin_ind_2d (num_gc_x_cl cfg) (fst c) (snd c))
                         (sum_list (cell_contribs cfg sun_pos refrac_cor (fst c) (snd c)))
                  else NaN) (num_tri_per_gc cfg)
              = Some (out' ! lin_ind_2d (num_gc_x_cl cfg) (fst c) (snd c))) \<and>
         (\<forall>l \<ge> num_gc_y_cl cfg * num_gc_x_cl cfg. out' ! l = out ! l)"
proof -
  let ?N = "num_gc_y_cl cfg * num_gc_x_cl cfg"
  let ?idx = "\<lambda>c. lin_ind_2d (num_gc_x_cl cfg) (fst c) (snd c)"
  let ?upd = "\<lambda>c v. if processed cfg c
                  then fadd v (sum_list (cell_contribs cfg sun_pos refrac_cor (fst c) (snd c)))
                  else NaN"
  let ?r = "\<lambda>c. if processed cfg c
                          then sum_list (cell_rays cfg sun_pos refrac_cor (fst c) (snd c)) else 0"
  from io have c: "0 \<le> dot_prod_min_cl cfg" "0 < dist_search_cl cfg"
    and p: "1 \<le> pixel_per_gc_cl cfg" and len: "?N \<le> length out" "?N \<le> length (mask_cl cfg)"
    by (simp_all add: input_ok_def)
  have d0: "num_tri_per_gc cfg \<noteq> 0" using p by (simp add: num_tri_per_gc_def)
  have step: "(case x of (i, j) \<Rightarrow> sw_dir_cor_gc cfg sun_pos refrac_cor i j) (o', n') =
                Some (o'[?idx x := ?upd x (o' ! ?idx x)], n' + ?r x)"
    if "x \<in> set (grid_cells cfg)" "length o' = length out" for x o' n'
  proof -
    obtain i j where x: "x = (i, j)" by (cases x)
    have d: "processed cfg (i, j) \<longrightarrow>
                (\<forall>t \<in> set (cell_tris cfg i j). tri_geom cfg sun_pos refrac_cor t \<noteq> None)"
      using gd that(1) unfolding geom_defined_def x by auto
    have l: "lin_ind_2d (num_gc_x_cl cfg) i j < length o'"
      using grid_cells_lin_less[OF that(1)] len that(2) by (simp add: x)
    show ?thesis unfolding x using sw_dir_cor_gc_eq[OF d c l] by simp
  qed
  have "\<exists>out1. for_each (\<lambda>(i, j). sw_dir_cor_gc cfg sun_pos refrac_cor i j) (grid_cells cfg) (out, 0)
            = Some (out1, 0 + sum_list (map ?r (grid_cells cfg))) \<and>
           length out1 = length out \<and>
           (\<forall>x \<in> set (grid_cells cfg). out1 ! ?idx x = ?upd x (out ! ?idx x)) \<and>
           (\<forall>c. c \<notin> ?idx ` set (grid_cells cfg) \<longrightarrow> out1 ! c = out ! c)"
  proof (rule for_each_cells)
    show "distinct (map ?idx (grid_cells cfg))" by (rule grid_cells_distinct)
    show "\<forall>x\<in>set (grid_cells cfg). ?idx x < length out"
      using grid_cells_lin_less len by fastforce
  qed (use step in auto)
  then obtain out1 where o1:
    "for_each (\<lambda>(i, j). sw_dir_cor_gc cfg sun_pos refrac_cor i j) (grid_cells cfg) (out, 0)
            = Some (out1, total_rays cfg sun_pos refrac_cor)"
    "length out1 = length out"
    "\<forall>x \<in> set (grid_cells cfg). out1 ! ?idx x = ?upd x (out ! ?idx x)"
    "\<forall>c. c \<notin> ?idx ` set (grid_cells cfg) \<longrightarrow> out1 ! c = out ! c"
    unfolding total_rays_def by auto
  have img: "?idx ` set (grid_cells cfg) = {0 ..< ?N}"
    using arg_cong[OF map_lin_grid_cells[of cfg], of set] by simp
  from fdiv_loop[OF d0, of ?N out1] len o1(2)
  obtain out2 where o2:
    "for_each (\<lambda>i out. case fdiv (out ! i) (num_tri_per_gc cfg) of None \<Rightarrow> None
                                         | Some v \<Rightarrow> Some (out[i := v])) [0 ..< ?N] out1 = Some out2"
    "length out2 = length out1"
    "\<forall>l < ?N. fdiv (out1 ! l) (num_tri_per_gc cfg) = Some (out2 ! l)"
    "\<forall>l \<ge> ?N. out2 ! l = out1 ! l" by auto
  have run: "sw_dir_cor cfg sun_pos out refrac_cor =
           Some (out2, [Ray_tracing_time, Number_of_rays_shot (total_rays cfg sun_pos refrac_cor),
                        Fraction_of_rays_required (total_rays cfg sun_pos refrac_cor) (num_tri_cl cfg)])"
    unfolding sw_dir_cor_def Let_def
    using len o1(1) o2(1)
    by (simp add: for_each_nest2 grid_cells_def[symmetric] num_tri_per_gc_def not_less)
  have cells: "fdiv (?upd c (out ! ?idx c)) (num_tri_per_gc cfg) = Some (out2 ! ?idx c)"
    if "c \<in> set (grid_cells cfg)" for c
    using o2(3) grid_cells_lin_less[OF that] o1(3) that by metis
  have rest: "out2 ! l = out ! l" if "l \<ge> ?N" for l
  proof -
    have "l \<notin> ?idx ` set (grid_cells cfg)" unfolding img using that by simp
    then show ?thesis using o2(4) o1(4) that by simp
  qed
  show ?thesis
    using run o2(2) o1(2) cells rest by (intro exI[of _ out2]) simp
qed

subsection \<open>Coherent-batch engine\<close>

lemma tri_geom_0: "tri_geom cfg sun_pos 0 (k, m, n) = tri_setup cfg sun_pos k m n"
  by (simp add: tri_geom_def split: option.splits)

lemma sw_dir_cor_coherent_tri_eq:
  assumes g: "tri_geom cfg sun_pos 0 (k, m, n) = Some ts"
    and c: "0 \<le> dot_prod_min_cl cfg"
  shows "sw_dir_cor_coherent_tri cfg sun_pos k m n (rays, scr, nrg) =
           Some (if self_shadowed cfg ts then (rays, scr, nrg)
                 else (rays @ [tri_ray cfg (nrg, ts)], scr @ [tri_value cfg ts], nrg + 1))"
proof -
  have i: "dot_prod_hs ts = dot_prod (norm_hori ts) (sun ts)"
    "surf_enl_fac ts = area_tilt ts / area_hori ts"
    using tri_geom_inv[OF g] by (simp_all add: tri_inv_def)
  have s: "tri_setup cfg sun_pos k m n = Some ts" using g by (simp add: tri_geom_0)
  show ?thesis
  proof (cases "self_shadowed cfg ts")
    case True
    then show ?thesis
      unfolding sw_dir_cor_coherent_tri_def using c
      by (auto simp add: s i self_shadowed_def Let_def)
  next
    case False
    then have "dot_prod (norm_hori ts) (sun ts) \<noteq> 0"
      using c by (auto simp: self_shadowed_def)
    with False show ?thesis
      unfolding sw_dir_cor_coherent_tri_def
      by (simp add: s i self_shadowed_def Let_def tri_ray_def tri_value_def)
  qed
qed

lemma sw_dir_cor_coherent_loop:
  assumes "\<forall>t \<in> set xs. tri_geom cfg sun_pos 0 t \<noteq> None" and "0 \<le> dot_prod_min_cl cfg"
  shows "for_each (\<lambda>(k, m, n). sw_dir_cor_coherent_tri cfg sun_pos k m n) xs (rays, scr, nrg) =
           Some (rays @ map (tri_ray cfg) (enumerate nrg (survivors cfg sun_pos xs)),
                 scr @ map (tri_value cfg) (survivors cfg sun_pos xs),
                 nrg + length (survivors cfg sun_pos xs))"
  using assms(1)
proof (induction xs arbitrary: rays scr nrg)
  case Nil
  then show ?case by (simp add: survivors_def)
next
  case (Cons t xs)
  obtain k m n where t: "t = (k, m, n)" by (cases t)
  from Cons.prems obtain ts where g: "tri_geom cfg sun_pos 0 (k, m, n) = Some ts"
    unfolding t by auto
  have ih: "for_each (\<lambda>(k, m, n). sw_dir_cor_coherent_tri cfg sun_pos k m n) xs (r', s', n') =
           Some (r' @ map (tri_ray cfg) (enumerate n' (survivors cfg sun_pos xs)),
                 s' @ map (tri_value cfg) (survivors cfg sun_pos xs),
                 n' + length (survivors cfg sun_pos xs))" for r' s' n'
    using Cons.prems by (intro Cons.IH) simp
  have sv: "survivors cfg sun_pos (t # xs) =
              (if self_shadowed cfg ts then [] else [ts]) @ survivors cfg sun_pos xs"
    using g by (simp add: survivors_def t)
  show ?case
    unfolding t using sw_dir_cor_coherent_tri_eq[OF g assms(2)] ih sv
    by (simp add: t)
qed

lemma rtcOccluded1_ray_id [simp]: "ray_id (rtcOccluded1 sc r) = ray_id r"
  by (simp add: rtcOccluded1_def split: tfar_t.splits)

lemma tfar_rtcOccluded1_tri_ray:
  "tfar_pos (tfar (rtcOccluded1 (scene cfg) (tri_ray cfg (l, ts)))) \<longleftrightarrow>
     0 < dist_search_cl cfg \<and> \<not> occluded cfg ts"
  by (simp add: tri_ray_def tfar_rtcOccluded1 occluded_def)

lemma ray_id_tri_ray [simp]: "ray_id (tri_ray cfg (l, ts)) = l"
  by (simp add: tri_ray_def)

lemma fold_if_add:
  fixes a :: real
  shows "fold (\<lambda>k agg. if P k then agg + h k else agg) xs a =
         a + sum_list (map (\<lambda>k. if P k then h k else 0) xs)"
  by (induction xs arbitrary: a) simp_all

lemma enumerate_nth_0:
  "k < length xs \<Longrightarrow> enumerate 0 xs ! k = (k, xs ! k)"
  by (simp add: nth_enumerate_eq)

lemma sum_list_survivors:
  assumes "\<forall>t \<in> set xs. tri_geom cfg sun_pos 0 t \<noteq> None"
  shows "sum_list (map (\<lambda>ts. if occluded cfg ts then 0 else tri_value cfg ts) (survivors cfg sun_pos xs))
       = sum_list (map (\<lambda>t. case tri_geom cfg sun_pos 0 t of None \<Rightarrow> 0
                              | Some ts \<Rightarrow> tri_contrib cfg ts) xs)"
  using assms
  by (induction xs) (auto simp: survivors_def tri_contrib_def tri_value_def)

lemma length_survivors:
  assumes "\<forall>t \<in> set xs. tri_geom cfg sun_pos 0 t \<noteq> None"
  shows "length (survivors cfg sun_pos xs)
       = sum_list (map (\<lambda>t. case tri_geom cfg sun_pos 0 t of None \<Rightarrow> 0
                              | Some ts \<Rightarrow> tri_rays cfg ts) xs)"
  using assms
  by (induction xs) (auto simp: survivors_def tri_rays_def)

text \<open>Draining a batch: the sum over the rays that were not occluded.\<close>

lemma drain_batch:
  assumes "0 < dist_search_cl cfg"
  shows "fold (\<lambda>k agg. if tfar_pos (tfar (rtcOccluded1M (scene cfg)
                             (map (tri_ray cfg) (enumerate 0 S)) (length S) ! k))
                         then agg + map (tri_value cfg) S !
                                ray_id (rtcOccluded1M (scene cfg)
                                   (map (tri_ray cfg) (enumerate 0 S)) (length S) ! k)
                         else agg) [0 ..< length S] a
         = a + sum_list (map (\<lambda>ts. if occluded cfg ts then 0 else tri_value cfg ts) S)"
proof -
  have r: "rtcOccluded1M (scene cfg) (map (tri_ray cfg) (enumerate 0 S)) (length S) ! k
             = rtcOccluded1 (scene cfg) (tri_ray cfg (k, S ! k))" if "k < length S" for k
    using that by (simp add: rtcOccluded1M_def nth_enumerate_eq)
  have "fold (\<lambda>k agg. if tfar_pos (tfar (rtcOccluded1M (scene cfg)
                             (map (tri_ray cfg) (enumerate 0 S)) (length S) ! k))
                         then agg + map (tri_value cfg) S !
                                ray_id (rtcOccluded1M (scene cfg)
                                   (map (tri_ray cfg) (enumerate 0 S)) (length S) ! k)
                         else agg) [0 ..< length S] a
      = a + sum_list (map (\<lambda>k. if tfar_pos (tfar (rtcOccluded1M (scene cfg)
                             (map (tri_ray cfg) (enumerate 0 S)) (length S) ! k))
                         then map (tri_value cfg) S !
                                ray_id (rtcOccluded1M (scene cfg)
                                   (map (tri_ray cfg) (enumerate 0 S)) (length S) ! k)
                         else 0) [0 ..< length S])"
    by (rule fold_if_add)
  also have "map (\<lambda>k. if tfar_pos (tfar (rtcOccluded1M (scene cfg)
                             (map (tri_ray cfg) (enumerate 0 S)) (length S) ! k))
                         then map (tri_value cfg) S !
                                ray_id (rtcOccluded1M (scene cfg)
                                   (map (tri_ray cfg) (enumerate 0 S)) (length S) ! k)
                         else 0) [0 ..< length S]
      = map (\<lambda>k. if occluded cfg (S ! k) then 0 else tri_value cfg (S ! k)) [0 ..< length S]"
    using assms by (intro map_cong refl) (simp add: r tfar_rtcOccluded1_tri_ray)
  also have "\<dots> = map (\<lambda>ts. if occluded cfg ts then 0 else tri_value cfg ts) (map (nth S) [0 ..< length S])"
    by simp
  finally show ?thesis by (simp only: map_nth)
qed

lemma sw_dir_cor_coherent_gc_eq:
  assumes d: "processed cfg (i, j) \<longrightarrow>
                (\<forall>t \<in> set (cell_tris cfg i j). tri_geom cfg sun_pos 0 t \<noteq> None)"
    and c: "0 \<le> dot_prod_min_cl cfg" "0 < dist_search_cl cfg" "1 \<le> pixel_per_gc_cl cfg"
  shows "sw_dir_cor_coherent_gc cfg sun_pos i j (out, nr) =
           Some (out[lin_ind_2d (num_gc_x_cl cfg) i j :=
                   (if processed cfg (i, j)
                    then Val (sum_list (cell_contribs cfg sun_pos 0 i j) / num_tri_per_gc cfg)
                    else NaN)],
                 nr + (if processed cfg (i, j)
                       then sum_list (cell_rays cfg sun_pos 0 i j) else 0))"
proof (cases "processed cfg (i, j)")
  case False
  then show ?thesis by (simp add: sw_dir_cor_coherent_gc_def processed_def Let_def)
next
  case True
  let ?S = "survivors cfg sun_pos (cell_tris cfg i j)"
  have df: "\<forall>t \<in> set (cell_tris cfg i j). tri_geom cfg sun_pos 0 t \<noteq> None"
    using d True by simp
  have loop: "sw_dir_cor_coherent_batch cfg sun_pos i j =
      Some (map (tri_ray cfg) (enumerate 0 ?S), map (tri_value cfg) ?S, length ?S)"
    unfolding sw_dir_cor_coherent_batch_def for_each_nest3 cell_tris_def[symmetric]
    using sw_dir_cor_coherent_loop[OF df c(1), of "[]" "[]" 0] by simp
  have d0: "real (pixel_per_gc_cl cfg * pixel_per_gc_cl cfg * 2) \<noteq> 0"
    using c(3) by simp
  have agg: "fold (\<lambda>k agg. if tfar_pos (tfar (rtcOccluded1M (scene cfg)
                             (map (tri_ray cfg) (enumerate 0 ?S)) (length ?S) ! k))
                         then agg + map (tri_value cfg) ?S !
                                ray_id (rtcOccluded1M (scene cfg)
                                   (map (tri_ray cfg) (enumerate 0 ?S)) (length ?S) ! k)
                         else agg) [0 ..< length ?S] 0
         = sum_list (cell_contribs cfg sun_pos 0 i j)"
    unfolding drain_batch[OF c(2)] sum_list_survivors[OF df] cell_contribs_def by simp
  have nr: "length ?S = sum_list (cell_rays cfg sun_pos 0 i j)"
    unfolding length_survivors[OF df] cell_rays_def by simp
  have m: "mask_cl cfg ! lin_ind_2d (num_gc_x_cl cfg) i j = 1"
    using True by (simp add: processed_def)
  show ?thesis
    unfolding sw_dir_cor_coherent_gc_def Let_def prod.case loop option.case agg
    using True d0 m by (simp add: nr num_tri_per_gc_def)
qed

lemma sw_dir_cor_coherent_char:
  assumes io: "input_ok cfg out" and gd: "geom_defined cfg sun_pos 0"
  shows "\<exists>out'. sw_dir_cor_coherent cfg sun_pos out =
           Some (out', [Ray_tracing_time, Number_of_rays_shot (total_rays cfg sun_pos 0),
                        Fraction_of_rays_required (total_rays cfg sun_pos 0) (num_tri_cl cfg)]) \<and>
         length out' = length out \<and>
         (\<forall>c \<in> set (grid_cells cfg).
            out' ! lin_ind_2d (num_gc_x_cl cfg) (fst c) (snd c) =
              (if processed cfg c
               then Val (sum_list (cell_contribs cfg sun_pos 0 (fst c) (snd c)) / num_tri_per_gc cfg)
               else NaN)) \<and>
         (\<forall>l \<ge> num_gc_y_cl cfg * num_gc_x_cl cfg. out' ! l = out ! l)"
proof -
  let ?N = "num_gc_y_cl cfg * num_gc_x_cl cfg"
  let ?idx = "\<lambda>c. lin_ind_2d (num_gc_x_cl cfg) (fst c) (snd c)"
  let ?upd = "\<lambda>c (v :: cfloat). if processed cfg c
               then Val (sum_list (cell_contribs cfg sun_pos 0 (fst c) (snd c)) / num_tri_per_gc cfg)
               else NaN"
  let ?r = "\<lambda>c. if processed cfg c
                          then sum_list (cell_rays cfg sun_pos 0 (fst c) (snd c)) else 0"
  from io have c: "0 \<le> dot_prod_min_cl cfg" "0 < dist_search_cl cfg" "1 \<le> pixel_per_gc_cl cfg"
    and len: "?N \<le> length out" "?N \<le> length (mask_cl cfg)"
    by (simp_all add: input_ok_def)
  have step: "(case x of (i, j) \<Rightarrow> sw_dir_cor_coherent_gc cfg sun_pos i j) (o', n') =
                Some (o'[?idx x := ?upd x (o' ! ?idx x)], n' + ?r x)"
    if "x \<in> set (grid_cells cfg)" for x o' n'
  proof -
    obtain i j where x: "x = (i, j)" by (cases x)
    have d: "processed cfg (i, j) \<longrightarrow>
                (\<forall>t \<in> set (cell_tris cfg i j). tri_geom cfg sun_pos 0 t \<noteq> None)"
      using gd that(1) unfolding geom_defined_def x by auto
    show ?thesis unfolding x using sw_dir_cor_coherent_gc_eq[OF d c] by simp
  qed
  have "\<exists>out1. for_each (\<lambda>(i, j). sw_dir_cor_coherent_gc cfg sun_pos i j) (grid_cells cfg) (out, 0)
            = Some (out1, 0 + sum_list (map ?r (grid_cells cfg))) \<and>
           length out1 = length out \<and>
           (\<forall>x \<in> set (grid_cells cfg). out1 ! ?idx x = ?upd x (out ! ?idx x)) \<and>
           (\<forall>c. c \<notin> ?idx ` set (grid_cells cfg) \<longrightarrow> out1 ! c = out ! c)"
  proof (rule for_each_cells)
    show "distinct (map ?idx (grid_cells cfg))" by (rule grid_cells_distinct)
    show "\<forall>x\<in>set (grid_cells cfg). ?idx x < length out"
      using grid_cells_lin_less len by fastforce
  qed (use step in auto)
  then obtain out1 where o1:
    "for_each (\<lambda>(i, j). sw_dir_cor_coherent_gc cfg sun_pos i j) (grid_cells cfg) (out, 0)
            = Some (out1, total_rays cfg sun_pos 0)"
    "length out1 = length out"
    "\<forall>x \<in> set (grid_cells cfg). out1 ! ?idx x = ?upd x (out ! ?idx x)"
    "\<forall>c. c \<notin> ?idx ` set (grid_cells cfg) \<longrightarrow> out1 ! c = out ! c"
    unfolding total_rays_def by auto
  have img: "?idx ` set (grid_cells cfg) = {0 ..< ?N}"
    using arg_cong[OF map_lin_grid_cells[of cfg], of set] by simp
  have run: "sw_dir_cor_coherent cfg sun_pos out =
           Some (out1, [Ray_tracing_time, Number_of_rays_shot (total_rays cfg sun_pos 0),
                        Fraction_of_rays_required (total_rays cfg sun_pos 0) (num_tri_cl cfg)])"
    unfolding sw_dir_cor_coherent_def Let_def
    using len o1(1)
    by (simp add: for_each_nest2 grid_cells_def[symmetric] not_less)
  have rest: "out1 ! l = out ! l" if "l \<ge> ?N" for l
  proof -
    have "l \<notin> ?idx ` set (grid_cells cfg)" unfolding img using that by simp
    then show ?thesis using o1(4) by simp
  qed
  show ?thesis
    using run o1(2) o1(3) rest by (intro exI[of _ out1]) simp
qed

subsection \<open>Packet-8 engine\<close>

lemma mark_valid_0 [simp]: "mark_valid v a 0 = v"
  by (simp add: mark_valid_def)

lemma mark_valid_Suc: "mark_valid v a (Suc n) = mark_valid (v[a := - 1]) (Suc a) n"
proof -
  have "[a ..< a + Suc n] = a # [Suc a ..< Suc a + n]"
    by (subst upt_rec) simp
  then show ?thesis by (simp add: mark_valid_def)
qed

lemma length_mark_valid [simp]: "length (mark_valid v a n) = length v"
  by (induction n arbitrary: v a) (simp_all add: mark_valid_Suc)

lemma mark_valid_nth:
  "l < length v \<Longrightarrow> mark_valid v a n ! l = (if a \<le> l \<and> l < a + n then - 1 else v ! l)"
  by (induction n arbitrary: v a) (auto simp: mark_valid_Suc nth_list_update)

lemma sw_dir_cor_coherent_rp8_tri_eq:
  assumes g: "tri_geom cfg sun_pos 0 (k, m, n) = Some ts"
    and c: "0 \<le> dot_prod_min_cl cfg"
  shows "sw_dir_cor_coherent_rp8_tri cfg sun_pos k m n (ray8, valid8, scr, nrg) =
           Some (if self_shadowed cfg ts then (ray8, valid8, scr, nrg)
                 else (ray8 @ [tri_ray cfg (nrg, ts)], valid8[nrg := - 1],
                       scr @ [tri_value cfg ts], nrg + 1))"
proof -
  have i: "dot_prod_hs ts = dot_prod (norm_hori ts) (sun ts)"
    "surf_enl_fac ts = area_tilt ts / area_hori ts"
    using tri_geom_inv[OF g] by (simp_all add: tri_inv_def)
  have s: "tri_setup cfg sun_pos k m n = Some ts" using g by (simp add: tri_geom_0)
  show ?thesis
  proof (cases "self_shadowed cfg ts")
    case True
    then show ?thesis
      unfolding sw_dir_cor_coherent_rp8_tri_def using c
      by (auto simp add: s i self_shadowed_def Let_def)
  next
    case False
    then have "dot_prod (norm_hori ts) (sun ts) \<noteq> 0"
      using c by (auto simp: self_shadowed_def)
    with False show ?thesis
      unfolding sw_dir_cor_coherent_rp8_tri_def
      by (simp add: s i self_shadowed_def Let_def tri_ray_def tri_value_def)
  qed
qed

lemma sw_dir_cor_coherent_rp8_loop:
  assumes "\<forall>t \<in> set xs. tri_geom cfg sun_pos 0 t \<noteq> None" and "0 \<le> dot_prod_min_cl cfg"
  shows "for_each (\<lambda>(k, m, n). sw_dir_cor_coherent_rp8_tri cfg sun_pos k m n) xs
           (ray8, valid8, scr, nrg) =
           Some (ray8 @ map (tri_ray cfg) (enumerate nrg (survivors cfg sun_pos xs)),
                 mark_valid valid8 nrg (length (survivors cfg sun_pos xs)),
                 scr @ map (tri_value cfg) (survivors cfg sun_pos xs),
                 nrg + length (survivors cfg sun_pos xs))"
  using assms(1)
proof (induction xs arbitrary: ray8 valid8 scr nrg)
  case Nil
  then show ?case by (simp add: survivors_def)
next
  case (Cons t xs)
  obtain k m n where t: "t = (k, m, n)" by (cases t)
  from Cons.prems obtain ts where g: "tri_geom cfg sun_pos 0 (k, m, n) = Some ts"
    unfolding t by auto
  have ih: "for_each (\<lambda>(k, m, n). sw_dir_cor_coherent_rp8_tri cfg sun_pos k m n) xs (r', v', s', n') =
           Some (r' @ map (tri_ray cfg) (enumerate n' (survivors cfg sun_pos xs)),
                 mark_valid v' n' (length (survivors cfg sun_pos xs)),
                 s' @ map (tri_value cfg) (survivors cfg sun_pos xs),
                 n' + length (survivors cfg sun_pos xs))" for r' v' s' n'
    using Cons.prems by (intro Cons.IH) simp
  have sv: "survivors cfg sun_pos (t # xs) =
              (if self_shadowed cfg ts then [] else [ts]) @ survivors cfg sun_pos xs"
    using g by (simp add: survivors_def t)
  show ?case
    unfolding t using sw_dir_cor_coherent_rp8_tri_eq[OF g assms(2)] ih sv
    by (simp add: t mark_valid_Suc)
qed

lemma length_survivors_le: "length (survivors cfg sun_pos xs) \<le> length xs"
  by (induction xs) (auto simp: survivors_def split: option.splits)

lemma drain_packet:
  assumes "0 < dist_search_cl cfg" and "length S \<le> 8"
  shows "fold (\<lambda>n agg. if tfar_pos (tfar (rtcOccluded8 (mark_valid (replicate 8 0) 0 (length S))
                             (scene cfg) (map (tri_ray cfg) (enumerate 0 S)) ! n))
                         then agg + map (tri_value cfg) S ! n
                         else agg) [0 ..< length S] a
         = a + sum_list (map (\<lambda>ts. if occluded cfg ts then 0 else tri_value cfg ts) S)"
proof -
  let ?R = "rtcOccluded8 (mark_valid (replicate 8 0) 0 (length S))
                             (scene cfg) (map (tri_ray cfg) (enumerate 0 S))"
  have r: "?R ! k = rtcOccluded1 (scene cfg) (tri_ray cfg (k, S ! k))" if "k < length S" for k
    using that assms(2) by (simp add: rtcOccluded8_def nth_enumerate_eq mark_valid_nth)
  have "fold (\<lambda>n agg. if tfar_pos (tfar (?R ! n)) then agg + map (tri_value cfg) S ! n else agg)
          [0 ..< length S] a
      = a + sum_list (map (\<lambda>n. if tfar_pos (tfar (?R ! n)) then map (tri_value cfg) S ! n else 0)
          [0 ..< length S])"
    by (rule fold_if_add)
  also have "map (\<lambda>n. if tfar_pos (tfar (?R ! n)) then map (tri_value cfg) S ! n else 0)
          [0 ..< length S]
      = map (\<lambda>k. if occluded cfg (S ! k) then 0 else tri_value cfg (S ! k)) [0 ..< length S]"
    using assms(1) by (intro map_cong refl) (simp add: r tfar_rtcOccluded1_tri_ray)
  also have "\<dots> = map (\<lambda>ts. if occluded cfg ts then 0 else tri_value cfg ts) (map (nth S) [0 ..< length S])"
    by simp
  finally show ?thesis by (simp only: map_nth)
qed

lemma length_block_tris [simp]: "length (block_tris k m) = 8"
  by (simp add: block_tris_def upt_conv_Cons)

lemma sw_dir_cor_coherent_rp8_block_eq:
  assumes df: "\<forall>t \<in> set (block_tris k m). tri_geom cfg sun_pos 0 t \<noteq> None"
    and c: "0 \<le> dot_prod_min_cl cfg" "0 < dist_search_cl cfg"
  shows "sw_dir_cor_coherent_rp8_block cfg sun_pos k m (agg, nr) =
           Some (agg + sum_list (map (\<lambda>t. case tri_geom cfg sun_pos 0 t of None \<Rightarrow> 0
                              | Some ts \<Rightarrow> tri_contrib cfg ts) (block_tris k m)),
                 nr + sum_list (map (\<lambda>t. case tri_geom cfg sun_pos 0 t of None \<Rightarrow> 0
                              | Some ts \<Rightarrow> tri_rays cfg ts) (block_tris k m)))"
proof -
  let ?S = "survivors cfg sun_pos (block_tris k m)"
  have loop: "sw_dir_cor_coherent_rp8_packet cfg sun_pos k m =
        Some (map (tri_ray cfg) (enumerate 0 ?S), mark_valid (replicate 8 0) 0 (length ?S),
              map (tri_value cfg) ?S, length ?S)"
    unfolding sw_dir_cor_coherent_rp8_packet_def for_each_nest3 block_tris_def[symmetric]
    using sw_dir_cor_coherent_rp8_loop[OF df c(1), of "[]" "replicate 8 0" "[]" 0] by simp
  have l8: "length ?S \<le> 8" using length_survivors_le[of cfg sun_pos "block_tris k m"] by simp
  have ag: "fold (\<lambda>n agg. if tfar_pos (tfar (rtcOccluded8 (mark_valid (replicate 8 0) 0 (length ?S))
                             (scene cfg) (map (tri_ray cfg) (enumerate 0 ?S)) ! n))
                         then agg + map (tri_value cfg) ?S ! n
                         else agg) [0 ..< length ?S] agg
         = agg + sum_list (map (\<lambda>t. case tri_geom cfg sun_pos 0 t of None \<Rightarrow> 0
                              | Some ts \<Rightarrow> tri_contrib cfg ts) (block_tris k m))"
    unfolding drain_packet[OF c(2) l8] sum_list_survivors[OF df] by simp
  show ?thesis
    unfolding sw_dir_cor_coherent_rp8_block_def Let_def prod.case loop option.case ag
    by (simp add: length_survivors[OF df])
qed

lemma stride2_even: "stride2 a (a + 2 * h) = map (\<lambda>t. a + 2 * t) [0 ..< h]"
  by (simp add: stride2_def)

lemma stride2_Suc: "stride2 a (a + 2 * Suc h) = stride2 a (a + 2 * h) @ [a + 2 * h]"
  unfolding stride2_even by simp

lemma sum_list_concat_map:
  fixes f :: "'a \<Rightarrow> 'b :: monoid_add"
  shows "sum_list (map f (concat xss)) = sum_list (map (\<lambda>xs. sum_list (map f xs)) xss)"
  by (induction xss) simp_all

lemma sum_list_pairs:
  fixes F :: "nat \<Rightarrow> 'a :: comm_monoid_add"
  shows "sum_list (map F [a ..< a + 2 * h]) = sum_list (map (\<lambda>k. F k + F (k + 1)) (stride2 a (a + 2 * h)))"
proof (induction h)
  case 0
  then show ?case by (simp add: stride2_def)
next
  case (Suc h)
  have "[a ..< a + 2 * Suc h] = [a ..< a + 2 * h] @ [a + 2 * h, a + 2 * h + 1]"
    by (simp add: upt_rec[of "a + 2 * h"] upt_add_eq_append[of a "a + 2 * h" 2, simplified])
  then show ?case
    unfolding stride2_Suc using Suc by (simp add: add.assoc)
qed

lemma mset_block_tris:
  "mset (block_tris k m) =
     (mset (map (\<lambda>n. (k, m, n)) [0 ..< 2]) + mset (map (\<lambda>n. (k, m + 1, n)) [0 ..< 2])) +
     (mset (map (\<lambda>n. (k + 1, m, n)) [0 ..< 2]) + mset (map (\<lambda>n. (k + 1, m + 1, n)) [0 ..< 2]))"
proof -
  have "[k ..< k + 2] = [k, k + 1]" "[m ..< m + 2] = [m, m + 1]"
    by (simp_all add: upt_rec[of k] upt_rec[of "Suc k"] upt_rec[of m] upt_rec[of "Suc m"])
  then show ?thesis by (simp add: block_tris_def)
qed

lemma mset_cell_blocks:
  assumes "even (pixel_per_gc_cl cfg)"
  shows "mset (concat (map (\<lambda>(k, m). block_tris k m) (cell_blocks cfg i j))) = mset (cell_tris cfg i j)"
proof -
  obtain h where p: "pixel_per_gc_cl cfg = 2 * h" using assms by (auto elim: evenE)
  let ?a = "i * pixel_per_gc_cl cfg" and ?b = "j * pixel_per_gc_cl cfg"
  let ?pix = "\<lambda>k m. mset (map (\<lambda>n. (k, m, n)) [0 ..< 2])"
  let ?row = "\<lambda>k. sum_list (map (?pix k) [?b ..< ?b + 2 * h])"
  have row: "?row k = sum_list (map (\<lambda>m. ?pix k m + ?pix k (m + 1)) (stride2 ?b (?b + 2 * h)))" for k
    by (rule sum_list_pairs)
  have "mset (cell_tris cfg i j) = sum_list (map ?row [?a ..< ?a + 2 * h])"
    by (simp add: cell_tris_def p mset_concat comp_def)
  also have "\<dots> = sum_list (map (\<lambda>k. ?row k + ?row (k + 1)) (stride2 ?a (?a + 2 * h)))"
    by (rule sum_list_pairs)
  also have "\<dots> = sum_list (map (\<lambda>k. sum_list (map (\<lambda>m. mset (block_tris k m))
                        (stride2 ?b (?b + 2 * h)))) (stride2 ?a (?a + 2 * h)))"
    unfolding row mset_block_tris by (simp add: sum_list_addf)
  also have "\<dots> = mset (concat (map (\<lambda>(k, m). block_tris k m) (cell_blocks cfg i j)))"
    by (simp add: cell_blocks_def p mset_concat comp_def map_concat sum_list_concat_map
        sum_list_concat_map[where f = "\<lambda>x. x", simplified])
  finally show ?thesis by simp
qed

lemma sum_list_mset_cong:
  fixes f :: "'a \<Rightarrow> 'b :: comm_monoid_add"
  assumes "mset xs = mset ys"
  shows "sum_list (map f xs) = sum_list (map f ys)"
proof -
  have "sum_list (map f xs) = sum_mset (image_mset f (mset xs))"
    by (simp add: sum_mset_sum_list[symmetric])
  also have "\<dots> = sum_mset (image_mset f (mset ys))" using assms by simp
  also have "\<dots> = sum_list (map f ys)" by (simp add: sum_mset_sum_list[symmetric])
  finally show ?thesis .
qed

lemma for_each_accumulate_agg:
  fixes agg :: real
  assumes "\<And>x a n. x \<in> set xs \<Longrightarrow> body x (a, n) = Some (a + c x, n + r x)"
  shows "for_each body xs (agg, nr) = Some (agg + sum_list (map c xs), nr + sum_list (map r xs))"
  using assms
  by (induction xs arbitrary: agg nr) (simp_all add: add.assoc)

lemma sw_dir_cor_coherent_rp8_gc_eq:
  assumes d: "processed cfg (i, j) \<longrightarrow>
                (\<forall>t \<in> set (cell_tris cfg i j). tri_geom cfg sun_pos 0 t \<noteq> None)"
    and c: "0 \<le> dot_prod_min_cl cfg" "0 < dist_search_cl cfg" "1 \<le> pixel_per_gc_cl cfg"
    and e: "even (pixel_per_gc_cl cfg)"
  shows "sw_dir_cor_coherent_rp8_gc cfg sun_pos i j (out, nr) =
           Some (out[lin_ind_2d (num_gc_x_cl cfg) i j :=
                   (if processed cfg (i, j)
                    then Val (sum_list (cell_contribs cfg sun_pos 0 i j) / num_tri_per_gc cfg)
                    else NaN)],
                 nr + (if processed cfg (i, j)
                       then sum_list (cell_rays cfg sun_pos 0 i j) else 0))"
proof (cases "processed cfg (i, j)")
  case False
  then show ?thesis by (simp add: sw_dir_cor_coherent_rp8_gc_def processed_def Let_def)
next
  case True
  let ?B = "cell_blocks cfg i j"
  let ?fc = "\<lambda>t. case tri_geom cfg sun_pos 0 t of None \<Rightarrow> 0 | Some ts \<Rightarrow> tri_contrib cfg ts"
  let ?fr = "\<lambda>t. case tri_geom cfg sun_pos 0 t of None \<Rightarrow> 0 | Some ts \<Rightarrow> tri_rays cfg ts"
  note ms = mset_cell_blocks[OF e, of i j]
  have df: "\<forall>t \<in> set (cell_tris cfg i j). tri_geom cfg sun_pos 0 t \<noteq> None"
    using d True by simp
  have st: "set (concat (map (\<lambda>(k, m). block_tris k m) ?B)) = set (cell_tris cfg i j)"
    using ms by (rule mset_eq_setD)
  have blk: "(case b of (k, m) \<Rightarrow> sw_dir_cor_coherent_rp8_block cfg sun_pos k m) (a, n) =
           Some (a + sum_list (map ?fc (case b of (k, m) \<Rightarrow> block_tris k m)),
                 n + sum_list (map ?fr (case b of (k, m) \<Rightarrow> block_tris k m)))"
    if "b \<in> set ?B" for b a n
  proof -
    obtain k m where b: "b = (k, m)" by (cases b)
    have "set (block_tris k m) \<subseteq> set (cell_tris cfg i j)"
      using that unfolding st[symmetric] b by force
    then have "\<forall>t \<in> set (block_tris k m). tri_geom cfg sun_pos 0 t \<noteq> None"
      using df by blast
    from sw_dir_cor_coherent_rp8_block_eq[OF this c(1,2)] show ?thesis by (simp add: b)
  qed
  have "for_each (\<lambda>(k, m). sw_dir_cor_coherent_rp8_block cfg sun_pos k m) ?B (0, nr) =
          Some (0 + sum_list (map (\<lambda>b. sum_list (map ?fc (case b of (k, m) \<Rightarrow> block_tris k m))) ?B),
                nr + sum_list (map (\<lambda>b. sum_list (map ?fr (case b of (k, m) \<Rightarrow> block_tris k m))) ?B))"
    by (rule for_each_accumulate_agg) (use blk in auto)
  moreover have "sum_list (map (\<lambda>b. sum_list (map ?fc (case b of (k, m) \<Rightarrow> block_tris k m))) ?B)
      = sum_list (map ?fc (concat (map (\<lambda>(k, m). block_tris k m) ?B)))"
    by (simp add: sum_list_concat_map comp_def)
  moreover have "sum_list (map (\<lambda>b. sum_list (map ?fr (case b of (k, m) \<Rightarrow> block_tris k m))) ?B)
      = sum_list (map ?fr (concat (map (\<lambda>(k, m). block_tris k m) ?B)))"
    by (simp add: sum_list_concat_map comp_def)
  ultimately have loop:
    "for_each (\<lambda>(k, m). sw_dir_cor_coherent_rp8_block cfg sun_pos k m) ?B (0, nr) =
          Some (sum_list (cell_contribs cfg sun_pos 0 i j), nr + sum_list (cell_rays cfg sun_pos 0 i j))"
    unfolding cell_contribs_def cell_rays_def
    using sum_list_mset_cong[OF ms, of ?fc] sum_list_mset_cong[OF ms, of ?fr] by simp
  have d0: "real (pixel_per_gc_cl cfg * pixel_per_gc_cl cfg) * 2 \<noteq> 0"
    using c(3) by simp
  have m: "mask_cl cfg ! lin_ind_2d (num_gc_x_cl cfg) i j = 1"
    using True by (simp add: processed_def)
  show ?thesis
    unfolding sw_dir_cor_coherent_rp8_gc_def Let_def for_each_nest2 cell_blocks_def[symmetric]
      prod.case loop option.case
    using True d0 m by (simp add: num_tri_per_gc_def)
qed

lemma sw_dir_cor_coherent_rp8_char:
  assumes io: "input_ok cfg out" and gd: "geom_defined cfg sun_pos 0"
    and e: "even (pixel_per_gc_cl cfg)"
  shows "\<exists>out'. sw_dir_cor_coherent_rp8 cfg sun_pos out =
           Some (out', [Ray_tracing_time, Number_of_rays_shot (total_rays cfg sun_pos 0),
                        Fraction_of_rays_required (total_rays cfg sun_pos 0) (num_tri_cl cfg)]) \<and>
         length out' = length out \<and>
         (\<forall>c \<in> set (grid_cells cfg).
            out' ! lin_ind_2d (num_gc_x_cl cfg) (fst c) (snd c) =
              (if processed cfg c
               then Val (sum_list (cell_contribs cfg sun_pos 0 (fst c) (snd c)) / num_tri_per_gc cfg)
               else NaN)) \<and>
         (\<forall>l \<ge> num_gc_y_cl cfg * num_gc_x_cl cfg. out' ! l = out ! l)"
proof -
  let ?N = "num_gc_y_cl cfg * num_gc_x_cl cfg"
  let ?idx = "\<lambda>c. lin_ind_2d (num_gc_x_cl cfg) (fst c) (snd c)"
  let ?upd = "\<lambda>c (v :: cfloat). if processed cfg c
               then Val (sum_list (cell_contribs cfg sun_pos 0 (fst c) (snd c)) / num_tri_per_gc cfg)
               else NaN"
  let ?r = "\<lambda>c. if processed cfg c
                          then sum_list (cell_rays cfg sun_pos 0 (fst c) (snd c)) else 0"
  from io have c: "0 \<le> dot_prod_min_cl cfg" "0 < dist_search_cl cfg" "1 \<le> pixel_per_gc_cl cfg"
    and len: "?N \<le> length out" "?N \<le> length (mask_cl cfg)"
    by (simp_all add: input_ok_def)
  have step: "(case x of (i, j) \<Rightarrow> sw_dir_cor_coherent_rp8_gc cfg sun_pos i j) (o', n') =
                Some (o'[?idx x := ?upd x (o' ! ?idx x)], n' + ?r x)"
    if "x \<in> set (grid_cells cfg)" for x o' n'
  proof -
    obtain i j where x: "x = (i, j)" by (cases x)
    have d: "processed cfg (i, j) \<longrightarrow>
                (\<forall>t \<in> set (cell_tris cfg i j). tri_geom cfg sun_pos 0 t \<noteq> None)"
      using gd that(1) unfolding geom_defined_def x by auto
    show ?thesis unfolding x using sw_dir_cor_coherent_rp8_gc_eq[OF d c e] by simp
  qed
  have "\<exists>out1. for_each (\<lambda>(i, j). sw_dir_cor_coherent_rp8_gc cfg sun_pos i j) (grid_cells cfg) (out, 0)
            = Some (out1, 0 + sum_list (map ?r (grid_cells cfg))) \<and>
           length out1 = length out \<and>
           (\<forall>x \<in> set (grid_cells cfg). out1 ! ?idx x = ?upd x (out ! ?idx x)) \<and>
           (\<forall>c. c \<notin> ?idx ` set (grid_cells cfg) \<longrightarrow> out1 ! c = out ! c)"
  proof (rule for_each_cells)
    show "distinct (map ?idx (grid_cells cfg))" by (rule grid_cells_distinct)
    show "\<forall>x\<in>set (grid_cells cfg). ?idx x < length out"
      using grid_cells_lin_less len by fastforce
  qed (use step in auto)
  then obtain out1 where o1:
    "for_each (\<lambda>(i, j). sw_dir_cor_coherent_rp8_gc cfg sun_pos i j) (grid_cells cfg) (out, 0)
            = Some (out1, total_rays cfg sun_pos 0)"
    "length out1 = length out"
    "\<forall>x \<in> set (grid_cells cfg). out1 ! ?idx x = ?upd x (out ! ?idx x)"
    "\<forall>c. c \<notin> ?idx ` set (grid_cells cfg) \<longrightarrow> out1 ! c = out ! c"
    unfolding total_rays_def by auto
  have img: "?idx ` set (grid_cells cfg) = {0 ..< ?N}"
    using arg_cong[OF map_lin_grid_cells[of cfg], of set] by simp
  have run: "sw_dir_cor_coherent_rp8 cfg sun_pos out =
           Some (out1, [Ray_tracing_time, Number_of_rays_shot (total_rays cfg sun_pos 0),
                        Fraction_of_rays_required (total_rays cfg sun_pos 0) (num_tri_cl cfg)])"
    unfolding sw_dir_cor_coherent_rp8_def Let_def
    using len o1(1) e
    by (simp add: for_each_nest2 grid_cells_def[symmetric] not_less even_iff_mod_2_eq_zero)
  have rest: "out1 ! l = out ! l" if "l \<ge> ?N" for l
  proof -
    have "l \<notin> ?idx ` set (grid_cells cfg)" unfolding img using that by simp
    then show ?thesis using o1(4) by simp
  qed
  show ?thesis
    using run o1(2) o1(3) rest by (intro exI[of _ out1]) simp
qed

subsection \<open>The single-ray engine, triangle by triangle\<close>

lemma ex_initialise:
  "initialise (\<lambda>v a b g. ex_scene) ex_dem 2 2 ex_dem 2 2 1 0 [1] 100 ''triangle'' 5 90 = Some ex_cfg"
  by (simp add: initialise_def ex_cfg_def deg2rad_def)

lemma cos_deg2rad_nonneg:
  assumes "0 < ang_max" "ang_max \<le> 90"
  shows "0 \<le> cos (deg2rad ang_max)"
proof -
  have "0 \<le> deg2rad ang_max" using assms(1) by (simp add: deg2rad_def)
  moreover have "deg2rad ang_max \<le> pi / 2"
  proof -
    have "ang_max / 180 \<le> 1 / 2" using assms(2) by simp
    then have "ang_max / 180 * pi \<le> 1 / 2 * pi"
      by (rule mult_right_mono) simp
    then show ?thesis by (simp add: deg2rad_def)
  qed
  ultimately show ?thesis by (intro cos_ge_zero) simp_all
qed

text \<open>
  Claim C2. In the single-ray engine, for a triangle of a processed cell whose geometry
  \<open>ts\<close> is defined (after the optional refraction), under the input constraints
  \<open>0 < ang_max \<le> 90\<close> and \<open>0 < dist_search\<close>: if \<open>n_h \<cdot> s \<le> cos (deg2rad ang_max)\<close> or
  \<open>n_t \<cdot> s \<le> 0\<close> (both comparisons are \<open>\<le>\<close>) the pass leaves the cell and the ray counter
  unchanged, a contribution of 0 with no ray issued; otherwise exactly one ray is
  counted, the scene is asked about origin \<open>r\<close>, direction \<open>s\<close>, \<open>tnear = 0\<close> and
  \<open>tfar = dist_search \<cdot> 1000\<close>, and the cell is unchanged on a hit and grows by
  \<open>min ((n_t \<cdot> s / n_h \<cdot> s) \<cdot> (A_tilted / A_horizontal)) sw_dir_cor_max\<close> on a miss.
\<close>

theorem single_ray_triangle:
  assumes init: "initialise initializeScene vert_grid dem_dim_0 dem_dim_1 vert_grid_in
                   dem_dim_in_0 dem_dim_in_1 pixel_per_gc offset_gc mask_arr dist_search
                   geom_type sw_dir_cor_max ang_max = Some cfg"
    and valid: "0 < ang_max" "ang_max \<le> 90" "0 < dist_search"
    and geom: "tri_geom cfg sun_pos refrac_cor (k, m, n) = Some ts"
  shows "sw_dir_cor_tri cfg sun_pos refrac_cor l k m n (out, num_rays) =
     (if dot_prod (norm_hori ts) (sun ts) \<le> cos (deg2rad ang_max) \<or>
         dot_prod (norm_tilt ts) (sun ts) \<le> 0
      then Some (out, num_rays)
      else if scene cfg (ray_org ts) (sun ts) 0 (dist_search * 1000)
      then Some (out, num_rays + 1)
      else Some (out[l := fadd (out ! l)
                   (min ((dot_prod (norm_tilt ts) (sun ts) / dot_prod (norm_hori ts) (sun ts))
                           * (area_tilt ts / area_hori ts)) sw_dir_cor_max)],
                 num_rays + 1))"
proof -
  from init have f: "dot_prod_min_cl cfg = cos (deg2rad ang_max)"
    "dist_search_cl cfg = dist_search * 1000" "sw_dir_cor_max_cl cfg = sw_dir_cor_max"
    by (auto simp: initialise_def split: if_splits)
  have c: "0 \<le> dot_prod_min_cl cfg" "0 < dist_search_cl cfg"
    using cos_deg2rad_nonneg[OF valid(1,2)] valid(3) by (simp_all add: f)
  show ?thesis
    unfolding sw_dir_cor_tri_eq[OF geom c]
    by (simp add: tri_contrib_def tri_rays_def self_shadowed_def occluded_def f)
qed

theorem single_ray_triangle_witness:
  "initialise (\<lambda>v a b g. ex_scene) ex_dem 2 2 ex_dem 2 2 1 0 [1] 100 ''triangle'' 5 90 = Some ex_cfg \<and>
   (0 :: real) < 90 \<and> (90 :: real) \<le> 90 \<and> (0 :: real) < 100 \<and>
   tri_geom ex_cfg (1 / 3, 1 / 3, 11 / 10) 0 (0, 0, 0) =
     Some \<lparr> cent = (1 / 3, 1 / 3, 0), norm_tilt = (0, 0, 1), area_tilt = 1 / 2,
            ray_org = (1 / 3, 1 / 3, 1 / 10),
            vert_hori = ((0, 0, 0), (1, 0, 0), (0, 1, 0)), norm_hori = (0, 0, 1),
            area_hori = 1 / 2, surf_enl_fac = 1, sun = (0, 0, 1), dot_prod_hs = 1 \<rparr> \<and>
   sw_dir_cor_tri ex_cfg (1 / 3, 1 / 3, 11 / 10) 0 0 0 0 0 ([Val 0], 0) = Some ([Val 1], 1)"
proof -
  have g: "tri_geom ex_cfg (1 / 3, 1 / 3, 11 / 10) 0 (0, 0, 0) =
     Some \<lparr> cent = (1 / 3, 1 / 3, 0), norm_tilt = (0, 0, 1), area_tilt = 1 / 2,
            ray_org = (1 / 3, 1 / 3, 1 / 10),
            vert_hori = ((0, 0, 0), (1, 0, 0), (0, 1, 0)), norm_hori = (0, 0, 1),
            area_hori = 1 / 2, surf_enl_fac = 1, sun = (0, 0, 1), dot_prod_hs = 1 \<rparr>"
    by (simp add: tri_geom_def tri_setup_def ex_cfg_def ex_dem_def func_ptr_def triangle_vert_ll_def
        vert_at_def triangle_centroid_def triangle_normal_area_def vec_unit_def dot_prod_def Let_def)
  have s: "\<not> scene ex_cfg (1 / 3, 1 / 3, 1 / 10) (0, 0, 1) 0 (100 * 1000)"
    by (simp add: ex_cfg_def ex_scene_def)
  show ?thesis
    using single_ray_triangle[OF ex_initialise _ _ _ g, of 0 "[Val 0]" 0] ex_initialise g s
    by (simp add: dot_prod_def deg2rad_def)
qed

subsection \<open>The early return of the packet-8 engine\<close>

text \<open>
  Claim C6. For every configuration with an odd \<open>pixel_per_gc\<close>, a call of
  \<open>sw_dir_cor_coherent_rp8\<close> prints the error message and returns at once: the output
  array is the one passed in, no element written.
\<close>

theorem rp8_odd_pixel_per_gc:
  assumes "odd (pixel_per_gc_cl cfg)"
  shows "sw_dir_cor_coherent_rp8 cfg sun_pos out = Some (out, [Error_even_pixel_per_gc])"
  using assms by (simp add: sw_dir_cor_coherent_rp8_def odd_iff_mod_2_eq_one)

theorem rp8_odd_pixel_per_gc_witness:
  "odd (pixel_per_gc_cl ex_cfg) \<and>
   sw_dir_cor_coherent_rp8 ex_cfg (0, 0, 1) [Val 7] = Some ([Val 7], [Error_even_pixel_per_gc])"
  using rp8_odd_pixel_per_gc[of ex_cfg "(0, 0, 1)" "[Val 7]"] by (simp add: ex_cfg_def)

subsection \<open>Atmospheric refraction\<close>

lemma arctan_series_bounds:
  fixes x :: real
  assumes x0: "0 < x" and x1: "x \<le> 1"
  shows "(\<Sum>i<2*n. (- 1) ^ i * (1 / real (i * 2 + 1) * x ^ (i * 2 + 1))) \<le> arctan x"
    and "arctan x \<le> (\<Sum>i<2*n+1. (- 1) ^ i * (1 / real (i * 2 + 1) * x ^ (i * 2 + 1)))"
proof -
  have ax: "\<bar>x\<bar> \<le> 1" using x0 x1 by simp
  have pos: "0 < 1 / real (0 * 2 + 1) * x ^ (0 * 2 + 1)" using x0 by simp
  from summable_Leibniz(2)[OF zeroseq_arctan_series[OF ax] monoseq_arctan_series[OF ax]] pos
  have b: "(\<Sum>i. (- 1) ^ i * (1 / real (i * 2 + 1) * x ^ (i * 2 + 1)))
      \<in> {\<Sum>i<2*n. (- 1) ^ i * (1 / real (i * 2 + 1) * x ^ (i * 2 + 1)) ..
          \<Sum>i<2*n+1. (- 1) ^ i * (1 / real (i * 2 + 1) * x ^ (i * 2 + 1))}"
    by blast
  have e: "arctan x = (\<Sum>i. (- 1) ^ i * (1 / real (i * 2 + 1) * x ^ (i * 2 + 1)))"
    by (rule arctan_series[OF ax])
  show "(\<Sum>i<2*n. (- 1) ^ i * (1 / real (i * 2 + 1) * x ^ (i * 2 + 1))) \<le> arctan x"
    using b e by simp
  show "arctan x \<le> (\<Sum>i<2*n+1. (- 1) ^ i * (1 / real (i * 2 + 1) * x ^ (i * 2 + 1)))"
    using b e by simp
qed

lemma pi_lower: "3.14159 < pi"
proof -
  have a: "(\<Sum>i<2*2. (- 1) ^ i * (1 / real (i * 2 + 1) * (1/5) ^ (i * 2 + 1))) \<le> arctan (1/5 :: real)"
    by (rule arctan_series_bounds(1)) simp_all
  have b: "arctan (1/239 :: real) \<le> (\<Sum>i<2*0+1. (- 1) ^ i * (1 / real (i * 2 + 1) * (1/239) ^ (i * 2 + 1)))"
    by (rule arctan_series_bounds(2)) simp_all
  have a': "(1/5 - 1/375 + 1/15625 - 1/546875 :: real) \<le> arctan (1/5)"
    using a by (simp add: numeral_eq_Suc)
  have b': "arctan (1/239 :: real) \<le> 1/239"
    using b by simp
  have "pi = 16 * arctan (1/5) - 4 * arctan (1/239)"
    using machin by simp
  with a' b' show ?thesis by simp
qed

lemma pi_upper: "pi < 3.1416"
proof -
  have a: "arctan (1/5 :: real) \<le> (\<Sum>i<2*2+1. (- 1) ^ i * (1 / real (i * 2 + 1) * (1/5) ^ (i * 2 + 1)))"
    by (rule arctan_series_bounds(2)) simp_all
  have b: "(\<Sum>i<2*1. (- 1) ^ i * (1 / real (i * 2 + 1) * (1/239) ^ (i * 2 + 1))) \<le> arctan (1/239 :: real)"
    by (rule arctan_series_bounds(1)) simp_all
  have a': "arctan (1/5) \<le> (1/5 - 1/375 + 1/15625 - 1/546875 + 1/17578125 :: real)"
    using a by (simp add: numeral_eq_Suc)
  have b': "(1/239 - 1 / (3 * 239^3) :: real) \<le> arctan (1/239)"
    using b by (simp add: numeral_eq_Suc)
  have "pi = 16 * arctan (1/5) - 4 * arctan (1/239)"
    using machin by simp
  with a' b' show ?thesis by simp
qed

lemma y90_bounds: "0.00189011 < y90" "y90 < 0.001890121"
  using pi_lower pi_upper by (simp_all add: y90_def deg2rad_def)

lemma tan_y90_lower: "0.0019279 / 1.02 + 1 / 10^8 < tan y90"
proof -
  define c :: real where "c = 0.0019279 / 1.02 + 1 / 10^8"
  have c: "0 < c" "c \<le> 1" by (simp_all add: c_def)
  have "arctan c \<le> (\<Sum>i<2*0+1. (- 1) ^ i * (1 / real (i * 2 + 1) * c ^ (i * 2 + 1)))"
    by (rule arctan_series_bounds(2)[OF c])
  then have "arctan c \<le> c" by simp
  also have "c < y90" using y90_bounds(1) by (simp add: c_def)
  finally have l: "arctan c < y90" .
  have "y90 < pi / 2" using y90_bounds(2) pi_lower by simp
  with l have "tan (arctan c) < tan y90"
    by (intro tan_monotone) (simp_all add: arctan_lbound)
  then show ?thesis by (simp add: c_def tan_arctan)
qed

lemma tan_y90_upper: "tan y90 < 0.0019279 / 1.02 + 3 / 10^8"
proof -
  define d :: real where "d = 0.0019279 / 1.02 + 3 / 10^8"
  have d: "0 < d" "d \<le> 1" by (simp_all add: d_def)
  have "(\<Sum>i<2*1. (- 1) ^ i * (1 / real (i * 2 + 1) * d ^ (i * 2 + 1))) \<le> arctan d"
    by (rule arctan_series_bounds(1)[OF d])
  then have a: "d - d^3 / 3 \<le> arctan d" by (simp add: numeral_eq_Suc)
  have "y90 < d - d^3 / 3" using y90_bounds(2) by (simp add: d_def power3_eq_cube)
  with a have l: "y90 < arctan d" by simp
  have "- (pi / 2) < y90" using y90_bounds(1) pi_lower by simp
  with l have "tan y90 < tan (arctan d)"
    using arctan_ubound[of d] by (intro tan_monotone) simp_all
  then show ?thesis by (simp add: d_def tan_arctan)
qed

lemma tan_90: "tan (deg2rad (90 + 10.3 / (90 + 5.11))) = - inverse (tan y90)"
proof -
  have "deg2rad (90 + 10.3 / (90 + 5.11)) = pi / 2 - (- y90)"
    by (simp add: deg2rad_def y90_def field_simps)
  then show ?thesis by (simp only: tan_cot tan_minus inverse_minus_eq)
qed

lemma cos_90: "cos (deg2rad (90 + 10.3 / (90 + 5.11))) \<noteq> 0"
proof -
  have e: "deg2rad (90 + 10.3 / (90 + 5.11)) = y90 + pi / 2"
    by (simp add: deg2rad_def y90_def field_simps)
  have "0 < y90" "y90 < pi" using y90_bounds pi_lower by simp_all
  then have "0 < sin y90" by (rule sin_gt_zero)
  then show ?thesis unfolding e by (simp add: cos_add)
qed

lemma atmos_refrac_formula:
  assumes "cos (deg2rad (max (- 1) (min e 90) + 10.3 / (max (- 1) (min e 90) + 5.11))) \<noteq> 0"
    and "tan (deg2rad (max (- 1) (min e 90) + 10.3 / (max (- 1) (min e 90) + 5.11))) \<noteq> 0"
    and "273 + temp \<noteq> 0"
  shows "atmos_refrac e temp pressure =
     Some ((1.02 / tan (deg2rad (max (- 1) (min e 90) + 10.3 / (max (- 1) (min e 90) + 5.11)))
            + 0.0019279) * ((pressure / 101) * (283 / (273 + temp))) / 60)"
  using assms unfolding atmos_refrac_def Let_def by simp

lemma atmos_refrac_90:
  assumes "273 + temp \<noteq> 0"
  shows "atmos_refrac 90 temp pressure =
     Some ((0.0019279 - 1.02 * tan y90) * ((pressure / 101) * (283 / (273 + temp))) / 60)"
proof -
  have t: "0 < tan y90" using tan_y90_lower by (simp add: less_trans[rotated])
  have i: "1.02 / (- inverse (tan y90)) + 0.0019279 = 0.0019279 - 1.02 * tan y90"
    using t by (simp add: field_simps)
  have z: "- inverse (tan y90) \<noteq> 0" using t by simp
  have c: "max (- 1) (min (90::real) 90) = 90" by simp
  have "atmos_refrac 90 temp pressure =
     Some ((1.02 / tan (deg2rad (90 + 10.3 / (90 + 5.11)))
            + 0.0019279) * ((pressure / 101) * (283 / (273 + temp))) / 60)"
    using atmos_refrac_formula[of 90 temp pressure] cos_90 z assms
    unfolding c tan_90 by blast
  then show ?thesis unfolding tan_90 i .
qed

lemma bracket_90: "- 4 / 10^8 < 0.0019279 - 1.02 * tan y90" "0.0019279 - 1.02 * tan y90 < - 1 / 10^8"
  using tan_y90_lower tan_y90_upper by simp_all

subsection \<open>Triangle normals\<close>

lemma sqrt_square_abs: "sqrt (a * a) = \<bar>a\<bar>" for a :: real
  by (simp add: real_sqrt_mult)

lemma triangle_normal_area_cross:
  "triangle_normal_area (x0, y0, z0) (x1, y1, z1) (x2, y2, z2) =
     (case vec_unit (cross_prod (x2 - x1, y2 - y1, z2 - z1) (x0 - x1, y0 - y1, z0 - z1)) of
        None \<Rightarrow> None
      | Some u \<Rightarrow> Some (u, sqrt (dot_prod (cross_prod (x2 - x1, y2 - y1, z2 - z1) (x0 - x1, y0 - y1, z0 - z1))
                                       (cross_prod (x2 - x1, y2 - y1, z2 - z1) (x0 - x1, y0 - y1, z0 - z1))) / 2))"
  by (simp add: triangle_normal_area_def vec_unit_def cross_prod_def dot_prod_def Let_def)

lemma triangle_normal_area_flat:
  assumes "d = (x1 - x0) * (y2 - y0) - (x2 - x0) * (y1 - y0)" and "d \<noteq> 0"
  shows "triangle_normal_area (x0, y0, z) (x1, y1, z) (x2, y2, z) = Some ((0, 0, d / \<bar>d\<bar>), \<bar>d\<bar> / 2)"
proof -
  have e: "(x2 - x1) * (y0 - y1) - (y2 - y1) * (x0 - x1) = d"
    unfolding assms(1) by (simp add: algebra_simps)
  show ?thesis
    unfolding triangle_normal_area_def Let_def
    using assms(2) by (simp add: e sqrt_square_abs)
qed

lemma tri_setup_normals:
  assumes "tri_setup cfg sun_pos k m n = Some ts"
  shows "tri_normal (vert_grid_cl cfg) (dem_dim_1_cl cfg)
           (k + pixel_per_gc_cl cfg * offset_gc_cl cfg)
           (m + pixel_per_gc_cl cfg * offset_gc_cl cfg) n = Some (norm_tilt ts)"
    and "tri_normal (vert_grid_in_cl cfg) (dem_dim_in_1_cl cfg) k m n = Some (norm_hori ts)"
  using assms unfolding tri_setup_def tri_normal_def
  by (auto simp: Let_def split: prod.splits Option.bind_splits)

lemma triangle_normal_area_collinear:
  assumes "(x1 - x0) * (y2 - y0) - (x2 - x0) * (y1 - y0) = 0"
  shows "triangle_normal_area (x0, y0, z) (x1, y1, z) (x2, y2, z) = None"
proof -
  have e: "(x2 - x1) * (y0 - y1) - (y2 - y1) * (x0 - x1) = 0"
    using assms by (simp add: algebra_simps)
  show ?thesis
    unfolding triangle_normal_area_def Let_def by (simp add: e)
qed

lemma triangle_normal_area_winding:
  "triangle_normal_area (x0, y0, z) (x1, y1, z) (x2, y2, z) =
     (if winding (x0, y0, z) (x1, y1, z) (x2, y2, z) = 0 then None
      else Some ((0, 0, if 0 < winding (x0, y0, z) (x1, y1, z) (x2, y2, z) then 1 else - 1),
                 \<bar>winding (x0, y0, z) (x1, y1, z) (x2, y2, z)\<bar> / 2))"
proof -
  define d where "d = (x1 - x0) * (y2 - y0) - (x2 - x0) * (y1 - y0)"
  have w: "winding (x0, y0, z) (x1, y1, z) (x2, y2, z) = d"
    by (simp add: winding_def d_def)
  consider "d = 0" | "0 < d" | "d < 0" by linarith
  then show ?thesis
  proof cases
    case 1
    then show ?thesis
      unfolding w using triangle_normal_area_collinear[of x1 x0 y2 y0 x2 y1 z]
      by (simp add: d_def)
  next
    case 2
    then have "d / \<bar>d\<bar> = 1" "d \<noteq> 0" by simp_all
    then show ?thesis
      unfolding w using triangle_normal_area_flat[OF d_def, of z] 2 by simp
  next
    case 3
    then have "d / \<bar>d\<bar> = - 1" "d \<noteq> 0" by simp_all
    then show ?thesis
      unfolding w using triangle_normal_area_flat[OF d_def, of z] 3 by simp
  qed
qed

lemma tri_normal_flat_ll:
  assumes "vert_at vert_grid (lin_ind_2d dim_1 i j * 3) = Some (x_ll, y_ll, z)"
    and "vert_at vert_grid (lin_ind_2d dim_1 i (Suc j) * 3) = Some (x_lr, y_lr, z)"
    and "vert_at vert_grid (lin_ind_2d dim_1 (Suc i) j * 3) = Some (x_ul, y_ul, z)"
  shows "tri_normal vert_grid dim_1 i j 0 =
     (if winding (x_ll, y_ll, z) (x_lr, y_lr, z) (x_ul, y_ul, z) = 0 then None
      else Some (0, 0, if 0 < winding (x_ll, y_ll, z) (x_lr, y_lr, z) (x_ul, y_ul, z)
                       then 1 else - 1))"
proof -
  have t: "triangle_vert_ll dim_1 i j =
     (lin_ind_2d dim_1 i j * 3, lin_ind_2d dim_1 i (j + 1) * 3, lin_ind_2d dim_1 (i + 1) j * 3)"
    by (simp add: triangle_vert_ll_def lin_ind_2d_def)
  show ?thesis
    unfolding tri_normal_def func_ptr_def
    by (simp add: t assms triangle_normal_area_winding)
qed

lemma tri_normal_flat_ur:
  assumes "vert_at vert_grid (lin_ind_2d dim_1 i (Suc j) * 3) = Some (x_lr, y_lr, z)"
    and "vert_at vert_grid (lin_ind_2d dim_1 (Suc i) (Suc j) * 3) = Some (x_ur, y_ur, z)"
    and "vert_at vert_grid (lin_ind_2d dim_1 (Suc i) j * 3) = Some (x_ul, y_ul, z)"
  shows "tri_normal vert_grid dim_1 i j 1 =
     (if winding (x_lr, y_lr, z) (x_ur, y_ur, z) (x_ul, y_ul, z) = 0 then None
      else Some (0, 0, if 0 < winding (x_lr, y_lr, z) (x_ur, y_ur, z) (x_ul, y_ul, z)
                       then 1 else - 1))"
proof -
  have t: "triangle_vert_ur dim_1 i j =
     (lin_ind_2d dim_1 i (j + 1) * 3, lin_ind_2d dim_1 (i + 1) (j + 1) * 3,
      lin_ind_2d dim_1 (i + 1) j * 3)"
    by (simp add: triangle_vert_ur_def lin_ind_2d_def)
  show ?thesis
    unfolding tri_normal_def func_ptr_def
    by (simp add: t assms triangle_normal_area_winding)
qed

lemma winding_axis_aligned:
  assumes "x_ll = x_ul" "x_lr = x_ur" "x_ll < x_lr" "y_ll = y_lr" "y_ul = y_ur" "y_ll < y_ul"
  shows "0 < winding (x_ll, y_ll, z) (x_lr, y_lr, z) (x_ul, y_ul, z)"
    and "0 < winding (x_lr, y_lr, z) (x_ur, y_ur, z) (x_ul, y_ul, z)"
proof -
  have p: "0 < (x_lr - x_ll) * (y_ul - y_ll)" using assms by simp
  show "0 < winding (x_ll, y_ll, z) (x_lr, y_lr, z) (x_ul, y_ul, z)"
    using p assms by (simp add: winding_def)
  have "winding (x_lr, y_lr, z) (x_ur, y_ur, z) (x_ul, y_ul, z) = (x_lr - x_ll) * (y_ul - y_ll)"
    using assms by (simp add: winding_def algebra_simps)
  then show "0 < winding (x_lr, y_lr, z) (x_ur, y_ur, z) (x_ul, y_ul, z)"
    using p by simp
qed

text \<open>
  Claim C8 promises an upward normal for every flat DEM. On the flat DEM whose rows run
  south the lower-left triangle of the pixel has the vertices \<open>(0, 0, 0)\<close>, \<open>(1, 0, 0)\<close>,
  \<open>(0, -1, 0)\<close> and its normal points down.
\<close>

theorem flat_dem_normal_counterexample:
  "triangle_vert_ll 2 0 0 = (0, 3, 6) \<and>
   vert_at ex_dem_south 0 = Some (0, 0, 0) \<and>
   vert_at ex_dem_south 3 = Some (1, 0, 0) \<and>
   vert_at ex_dem_south 6 = Some (0, - 1, 0) \<and>
   triangle_normal_area (0, 0, 0) (1, 0, 0) (0, - 1, 0) = Some ((0, 0, - 1), 1 / 2) \<and>
   tri_normal ex_dem_south 2 0 0 0 = Some (0, 0, - 1)"
  by (simp add: triangle_vert_ll_def vert_at_def ex_dem_south_def triangle_normal_area_def
      tri_normal_def func_ptr_def)

text \<open>
  Claim C8, amended. \<open>triangle_normal_area\<close> returns the unit vector of
  \<open>(v2 - v1) \<times> (v0 - v1)\<close> and half the magnitude of that cross product (nothing when the
  cross product vanishes). The indexer yields the lower-left ordering
  \<open>(i, j), (i, j + 1), (i + 1, j)\<close> and the upper-right ordering
  \<open>(i, j + 1), (i + 1, j + 1), (i + 1, j)\<close>. For a flat triangle (one \<open>z\<close>) the normal is
  \<open>(0, 0, 1)\<close> exactly when the vertices in their order run counter-clockwise seen from
  above, \<open>(0, 0, -1)\<close> exactly when they run clockwise, and undefined when they are
  collinear; this holds for the two triangles that the engines compute for a flat
  pixel of a DEM. When the pixel is axis-aligned (the two left corners share one \<open>x\<close>,
  the two right corners a larger one, the two lower corners share one \<open>y\<close>, the two
  upper corners a larger one) both triangles run counter-clockwise and both normals
  are \<open>(0, 0, 1)\<close>.
\<close>

theorem triangle_normal_area_spec:
  "triangle_normal_area (x0, y0, z0) (x1, y1, z1) (x2, y2, z2) =
     (case vec_unit (cross_prod (x2 - x1, y2 - y1, z2 - z1) (x0 - x1, y0 - y1, z0 - z1)) of
        None \<Rightarrow> None
      | Some u \<Rightarrow> Some (u, sqrt (dot_prod (cross_prod (x2 - x1, y2 - y1, z2 - z1) (x0 - x1, y0 - y1, z0 - z1))
                                       (cross_prod (x2 - x1, y2 - y1, z2 - z1) (x0 - x1, y0 - y1, z0 - z1))) / 2)) \<and>
   triangle_vert_ll dim_1 i j =
     (lin_ind_2d dim_1 i j * 3, lin_ind_2d dim_1 i (j + 1) * 3, lin_ind_2d dim_1 (i + 1) j * 3) \<and>
   triangle_vert_ur dim_1 i j =
     (lin_ind_2d dim_1 i (j + 1) * 3, lin_ind_2d dim_1 (i + 1) (j + 1) * 3,
      lin_ind_2d dim_1 (i + 1) j * 3) \<and>
   (0 < (x1 - x0) * (y2 - y0) - (x2 - x0) * (y1 - y0) \<longrightarrow>
      triangle_normal_area (x0, y0, h) (x1, y1, h) (x2, y2, h) =
        Some ((0, 0, 1), ((x1 - x0) * (y2 - y0) - (x2 - x0) * (y1 - y0)) / 2)) \<and>
   ((x1 - x0) * (y2 - y0) - (x2 - x0) * (y1 - y0) < 0 \<longrightarrow>
      triangle_normal_area (x0, y0, h) (x1, y1, h) (x2, y2, h) =
        Some ((0, 0, - 1), ((x2 - x0) * (y1 - y0) - (x1 - x0) * (y2 - y0)) / 2)) \<and>
   ((x1 - x0) * (y2 - y0) - (x2 - x0) * (y1 - y0) = 0 \<longrightarrow>
      triangle_normal_area (x0, y0, h) (x1, y1, h) (x2, y2, h) = None) \<and>
   (xa < xb \<and> ya < yc \<longrightarrow>
      triangle_normal_area (xa, ya, h) (xb, ya, h) (xa, yc, h) =
        Some ((0, 0, 1), (xb - xa) * (yc - ya) / 2) \<and>
      triangle_normal_area (xb, ya, h) (xb, yc, h) (xa, yc, h) =
        Some ((0, 0, 1), (xb - xa) * (yc - ya) / 2)) \<and>
   (vert_at vert_grid (lin_ind_2d dim_1 i j * 3) = Some (x_ll, y_ll, z) \<and>
    vert_at vert_grid (lin_ind_2d dim_1 i (Suc j) * 3) = Some (x_lr, y_lr, z) \<and>
    vert_at vert_grid (lin_ind_2d dim_1 (Suc i) j * 3) = Some (x_ul, y_ul, z) \<and>
    vert_at vert_grid (lin_ind_2d dim_1 (Suc i) (Suc j) * 3) = Some (x_ur, y_ur, z) \<longrightarrow>
      tri_normal vert_grid dim_1 i j 0 =
        (if winding (x_ll, y_ll, z) (x_lr, y_lr, z) (x_ul, y_ul, z) = 0 then None
         else Some (0, 0, if 0 < winding (x_ll, y_ll, z) (x_lr, y_lr, z) (x_ul, y_ul, z)
                          then 1 else - 1)) \<and>
      tri_normal vert_grid dim_1 i j 1 =
        (if winding (x_lr, y_lr, z) (x_ur, y_ur, z) (x_ul, y_ul, z) = 0 then None
         else Some (0, 0, if 0 < winding (x_lr, y_lr, z) (x_ur, y_ur, z) (x_ul, y_ul, z)
                          then 1 else - 1)) \<and>
      (x_ll = x_ul \<and> x_lr = x_ur \<and> x_ll < x_lr \<and> y_ll = y_lr \<and> y_ul = y_ur \<and> y_ll < y_ul \<longrightarrow>
         tri_normal vert_grid dim_1 i j 0 = Some (0, 0, 1) \<and>
         tri_normal vert_grid dim_1 i j 1 = Some (0, 0, 1)))"
proof (intro conjI impI)
  show "triangle_normal_area (x0, y0, z0) (x1, y1, z1) (x2, y2, z2) =
     (case vec_unit (cross_prod (x2 - x1, y2 - y1, z2 - z1) (x0 - x1, y0 - y1, z0 - z1)) of
        None \<Rightarrow> None
      | Some u \<Rightarrow> Some (u, sqrt (dot_prod (cross_prod (x2 - x1, y2 - y1, z2 - z1) (x0 - x1, y0 - y1, z0 - z1))
                                       (cross_prod (x2 - x1, y2 - y1, z2 - z1) (x0 - x1, y0 - y1, z0 - z1))) / 2))"
    by (rule triangle_normal_area_cross)
  show "triangle_vert_ll dim_1 i j =
     (lin_ind_2d dim_1 i j * 3, lin_ind_2d dim_1 i (j + 1) * 3, lin_ind_2d dim_1 (i + 1) j * 3)"
    by (simp add: triangle_vert_ll_def lin_ind_2d_def)
  show "triangle_vert_ur dim_1 i j =
     (lin_ind_2d dim_1 i (j + 1) * 3, lin_ind_2d dim_1 (i + 1) (j + 1) * 3,
      lin_ind_2d dim_1 (i + 1) j * 3)"
    by (simp add: triangle_vert_ur_def lin_ind_2d_def)
next
  assume p: "0 < (x1 - x0) * (y2 - y0) - (x2 - x0) * (y1 - y0)"
  show "triangle_normal_area (x0, y0, h) (x1, y1, h) (x2, y2, h) =
        Some ((0, 0, 1), ((x1 - x0) * (y2 - y0) - (x2 - x0) * (y1 - y0)) / 2)"
    using triangle_normal_area_flat[OF refl, of x1 x0 y2 y0 x2 y1 h] p by simp
next
  assume n: "(x1 - x0) * (y2 - y0) - (x2 - x0) * (y1 - y0) < 0"
  define d where "d = (x1 - x0) * (y2 - y0) - (x2 - x0) * (y1 - y0)"
  have "d / \<bar>d\<bar> = - 1" "\<bar>d\<bar> = - d" "d \<noteq> 0" using n unfolding d_def[symmetric] by simp_all
  then have "triangle_normal_area (x0, y0, h) (x1, y1, h) (x2, y2, h) = Some ((0, 0, - 1), - d / 2)"
    using triangle_normal_area_flat[OF d_def, of h] by simp
  then show "triangle_normal_area (x0, y0, h) (x1, y1, h) (x2, y2, h) =
        Some ((0, 0, - 1), ((x2 - x0) * (y1 - y0) - (x1 - x0) * (y2 - y0)) / 2)"
    by (simp add: d_def)
next
  assume "(x1 - x0) * (y2 - y0) - (x2 - x0) * (y1 - y0) = 0"
  then show "triangle_normal_area (x0, y0, h) (x1, y1, h) (x2, y2, h) = None"
    by (rule triangle_normal_area_collinear)
next
  assume g: "xa < xb \<and> ya < yc"
  define d where "d = (xb - xa) * (yc - ya)"
  have p: "0 < d" using g by (simp add: d_def)
  then have s: "d / \<bar>d\<bar> = 1" "\<bar>d\<bar> = d" "d \<noteq> 0" by simp_all
  have e1: "d = (xb - xa) * (yc - ya) - (xa - xa) * (ya - ya)"
    by (simp add: d_def)
  have e2: "d = (xb - xb) * (yc - ya) - (xa - xb) * (yc - ya)"
    by (simp add: d_def algebra_simps)
  show "triangle_normal_area (xa, ya, h) (xb, ya, h) (xa, yc, h) =
        Some ((0, 0, 1), (xb - xa) * (yc - ya) / 2)"
    using triangle_normal_area_flat[OF e1 s(3), of h] s by (simp add: d_def)
  show "triangle_normal_area (xb, ya, h) (xb, yc, h) (xa, yc, h) =
        Some ((0, 0, 1), (xb - xa) * (yc - ya) / 2)"
    using triangle_normal_area_flat[OF e2 s(3), of h] s by (simp add: d_def)
next
  assume v: "vert_at vert_grid (lin_ind_2d dim_1 i j * 3) = Some (x_ll, y_ll, z) \<and>
    vert_at vert_grid (lin_ind_2d dim_1 i (Suc j) * 3) = Some (x_lr, y_lr, z) \<and>
    vert_at vert_grid (lin_ind_2d dim_1 (Suc i) j * 3) = Some (x_ul, y_ul, z) \<and>
    vert_at vert_grid (lin_ind_2d dim_1 (Suc i) (Suc j) * 3) = Some (x_ur, y_ur, z)"
  from v have ll: "vert_at vert_grid (lin_ind_2d dim_1 i j * 3) = Some (x_ll, y_ll, z)"
    and lr: "vert_at vert_grid (lin_ind_2d dim_1 i (Suc j) * 3) = Some (x_lr, y_lr, z)"
    and ul: "vert_at vert_grid (lin_ind_2d dim_1 (Suc i) j * 3) = Some (x_ul, y_ul, z)"
    and ur: "vert_at vert_grid (lin_ind_2d dim_1 (Suc i) (Suc j) * 3) = Some (x_ur, y_ur, z)"
    by simp_all
  show n0: "tri_normal vert_grid dim_1 i j 0 =
        (if winding (x_ll, y_ll, z) (x_lr, y_lr, z) (x_ul, y_ul, z) = 0 then None
         else Some (0, 0, if 0 < winding (x_ll, y_ll, z) (x_lr, y_lr, z) (x_ul, y_ul, z)
                          then 1 else - 1))"
    by (rule tri_normal_flat_ll[OF ll lr ul])
  show n1: "tri_normal vert_grid dim_1 i j 1 =
        (if winding (x_lr, y_lr, z) (x_ur, y_ur, z) (x_ul, y_ul, z) = 0 then None
         else Some (0, 0, if 0 < winding (x_lr, y_lr, z) (x_ur, y_ur, z) (x_ul, y_ul, z)
                          then 1 else - 1))"
    by (rule tri_normal_flat_ur[OF lr ur ul])
  assume a: "x_ll = x_ul \<and> x_lr = x_ur \<and> x_ll < x_lr \<and> y_ll = y_lr \<and> y_ul = y_ur \<and> y_ll < y_ul"
  then have w: "0 < winding (x_ll, y_ll, z) (x_lr, y_lr, z) (x_ul, y_ul, z)"
    "0 < winding (x_lr, y_lr, z) (x_ur, y_ur, z) (x_ul, y_ul, z)"
    using winding_axis_aligned[of x_ll x_ul x_lr x_ur y_ll y_lr y_ul y_ur z] by blast+
  show "tri_normal vert_grid dim_1 i j 0 = Some (0, 0, 1)" unfolding n0 using w(1) by simp
  show "tri_normal vert_grid dim_1 i j 1 = Some (0, 0, 1)" unfolding n1 using w(2) by simp
qed

theorem triangle_normal_area_spec_witness:
  "(0 :: real) < (1 - 0) * (1 - 0) - (0 - 0) * (0 - 0) \<and>
   (1 - 0) * (- 1 - 0) - (0 - 0) * (0 - 0) < (0 :: real) \<and>
   ((0 :: real) < 1 \<and> (0 :: real) < 1) \<and>
   triangle_vert_ll 2 0 0 = (0, 3, 6) \<and> triangle_vert_ur 2 0 0 = (3, 9, 6) \<and>
   triangle_normal_area (0, 0, 0) (1, 0, 0) (0, 1, 0) = Some ((0, 0, 1), 1 / 2) \<and>
   triangle_normal_area (1, 0, 0) (1, 1, 0) (0, 1, 0) = Some ((0, 0, 1), 1 / 2) \<and>
   triangle_normal_area (0, 0, 0) (1, 0, 0) (0, - 1, 0) = Some ((0, 0, - 1), 1 / 2) \<and>
   vert_at ex_dem (lin_ind_2d 2 0 0 * 3) = Some (0, 0, 0) \<and>
   vert_at ex_dem (lin_ind_2d 2 0 (Suc 0) * 3) = Some (1, 0, 0) \<and>
   vert_at ex_dem (lin_ind_2d 2 (Suc 0) 0 * 3) = Some (0, 1, 0) \<and>
   vert_at ex_dem (lin_ind_2d 2 (Suc 0) (Suc 0) * 3) = Some (1, 1, 0) \<and>
   tri_normal ex_dem 2 0 0 0 = Some (0, 0, 1) \<and>
   tri_normal ex_dem 2 0 0 1 = Some (0, 0, 1)"
proof -
  note w1 = triangle_normal_area_spec[where ?x0.0 = 0 and ?y0.0 = 0 and ?x1.0 = 1 and ?y1.0 = 0
      and ?x2.0 = 0 and ?y2.0 = 1 and h = 0 and ?dim_1.0 = 2 and i = 0 and j = 0
      and xa = 0 and xb = 1 and ya = 0 and yc = 1 and vert_grid = ex_dem
      and x_ll = 0 and y_ll = 0 and x_lr = 1 and y_lr = 0 and x_ul = 0 and y_ul = 1
      and x_ur = 1 and y_ur = 1 and z = 0, THEN conjunct2]
  note w2 = triangle_normal_area_spec[where ?x0.0 = 0 and ?y0.0 = 0 and ?x1.0 = 1 and ?y1.0 = 0
      and ?x2.0 = 0 and ?y2.0 = "- 1" and h = 0, THEN conjunct2, THEN conjunct2, THEN conjunct2,
      THEN conjunct2, THEN conjunct1]
  have v: "vert_at ex_dem (lin_ind_2d 2 0 0 * 3) = Some (0, 0, 0)"
    "vert_at ex_dem (lin_ind_2d 2 0 (Suc 0) * 3) = Some (1, 0, 0)"
    "vert_at ex_dem (lin_ind_2d 2 (Suc 0) 0 * 3) = Some (0, 1, 0)"
    "vert_at ex_dem (lin_ind_2d 2 (Suc 0) (Suc 0) * 3) = Some (1, 1, 0)"
    by (simp_all add: vert_at_def ex_dem_def lin_ind_2d_def)
  show ?thesis using w1 w2 v by (simp add: lin_ind_2d_def winding_def)
qed

subsection \<open>The refraction block\<close>

lemma ex_tri_setup: "tri_setup ex_cfg (4 / 3, 1 / 3, 1 / 10) 0 0 0 = Some ex_ts"
  by (simp add: tri_setup_def ex_cfg_def ex_dem_def ex_ts_def func_ptr_def triangle_vert_ll_def
      vert_at_def triangle_centroid_def triangle_normal_area_def vec_unit_def dot_prod_def Let_def)

lemma ang0_bounds: "0 < deg2rad (10.3 / 5.11)" "deg2rad (10.3 / 5.11) < pi / 2"
  using pi_gt_zero by (simp_all add: deg2rad_def)

lemma atmos_refrac_0: "atmos_refrac 0 10 101 = Some ((1.02 / tan (deg2rad (10.3 / 5.11)) + 0.0019279) / 60)"
proof -
  have c: "cos (deg2rad (10.3 / 5.11)) \<noteq> 0"
    using cos_gt_zero[OF ang0_bounds] by simp
  have t: "tan (deg2rad (10.3 / 5.11)) \<noteq> 0"
    using tan_gt_zero[OF ang0_bounds] by simp
  have m: "max (- 1) (min (0::real) 90) = 0" by simp
  show ?thesis
    using atmos_refrac_formula[of 0 10 101] c t unfolding m by simp
qed

lemma ex_refrac:
  "sw_dir_cor_refrac ex_ts =
     Some (ex_ts\<lparr> sun := (cos ex_theta, 0, sin ex_theta), dot_prod_hs := sin ex_theta \<rparr>)"
proof -
  have a: "atmos_refrac (90 - rad2deg (arccos 0)) (K2degC 283.15) (101 * ((283.15 / 283.15) powr (9.81 / (287 * 0.0065))))
      = Some ((1.02 / tan (deg2rad (10.3 / 5.11)) + 0.0019279) / 60)"
    using atmos_refrac_0 by (simp add: rad2deg_def K2degC_def)
  show ?thesis
    unfolding sw_dir_cor_refrac_def Let_def
    apply (simp add: ex_ts_def triangle_centroid_def)
    apply (simp add: a[simplified] cross_prod_def vec_unit_def vec_rot_def dot_prod_def ex_theta_def Let_def)
    done
qed

lemma cross_prod_self: "cross_prod v v = (0, 0, 0)"
  by (cases v) (simp add: cross_prod_def)

text \<open>With the sun exactly along the horizontal normal the rotation axis is the zero
  vector, and the refraction block has no defined result.\<close>

lemma sw_dir_cor_refrac_overhead:
  assumes "sun ts = norm_hori ts"
  shows "sw_dir_cor_refrac ts = None"
  unfolding sw_dir_cor_refrac_def Let_def
  by (simp add: assms cross_prod_self vec_unit_eq_None_iff[THEN iffD2] split: option.splits)

text \<open>
  Claim C9. When the refraction block of the single-ray engine runs on the geometry of a
  triangle, the result differs from its input in the sun vector and in \<open>dot_prod_hs\<close>
  only, the latter recomputed from the unchanged horizontal normal and the new sun
  vector: centroid, tilted normal, areas, ray origin, horizontal vertices and normal and
  the enlargement factor are as before. The terrain object is an argument that the
  block does not receive and no engine returns, as in the source, where the cached
  members are assigned by \<open>initialise\<close> only.
\<close>

theorem refraction_frame:
  assumes "tri_setup cfg sun_pos k m n = Some ts" and "sw_dir_cor_refrac ts = Some ts'"
  shows "tri_geom cfg sun_pos 0 (k, m, n) = Some ts \<and>
         tri_geom cfg sun_pos 1 (k, m, n) = Some ts' \<and>
         ts' = ts\<lparr> sun := sun ts', dot_prod_hs := dot_prod (norm_hori ts) (sun ts') \<rparr> \<and>
         cent ts' = cent ts \<and> norm_tilt ts' = norm_tilt ts \<and> area_tilt ts' = area_tilt ts \<and>
         ray_org ts' = ray_org ts \<and> vert_hori ts' = vert_hori ts \<and>
         norm_hori ts' = norm_hori ts \<and> area_hori ts' = area_hori ts \<and>
         surf_enl_fac ts' = surf_enl_fac ts"
proof -
  note e = sw_dir_cor_refrac_frame[OF assms(2)]
  have "cent ts' = cent ts" "norm_tilt ts' = norm_tilt ts" "area_tilt ts' = area_tilt ts"
    "ray_org ts' = ray_org ts" "vert_hori ts' = vert_hori ts" "norm_hori ts' = norm_hori ts"
    "area_hori ts' = area_hori ts" "surf_enl_fac ts' = surf_enl_fac ts"
    using arg_cong[OF e, of cent] arg_cong[OF e, of norm_tilt] arg_cong[OF e, of area_tilt]
      arg_cong[OF e, of ray_org] arg_cong[OF e, of vert_hori] arg_cong[OF e, of norm_hori]
      arg_cong[OF e, of area_hori] arg_cong[OF e, of surf_enl_fac]
    by simp_all
  moreover have "tri_geom cfg sun_pos 0 (k, m, n) = Some ts" "tri_geom cfg sun_pos 1 (k, m, n) = Some ts'"
    using assms by (simp_all add: tri_geom_def)
  ultimately show ?thesis using e by blast
qed

theorem refraction_frame_witness:
  "tri_setup ex_cfg (4 / 3, 1 / 3, 1 / 10) 0 0 0 = Some ex_ts \<and>
   sw_dir_cor_refrac ex_ts =
     Some (ex_ts\<lparr> sun := (cos ex_theta, 0, sin ex_theta), dot_prod_hs := sin ex_theta \<rparr>) \<and>
   tri_geom ex_cfg (4 / 3, 1 / 3, 1 / 10) 1 (0, 0, 0) =
     Some (ex_ts\<lparr> sun := (cos ex_theta, 0, sin ex_theta), dot_prod_hs := sin ex_theta \<rparr>) \<and>
   norm_hori (ex_ts\<lparr> sun := (cos ex_theta, 0, sin ex_theta), dot_prod_hs := sin ex_theta \<rparr>)
     = norm_hori ex_ts \<and>
   ray_org (ex_ts\<lparr> sun := (cos ex_theta, 0, sin ex_theta), dot_prod_hs := sin ex_theta \<rparr>)
     = ray_org ex_ts"
  using refraction_frame[OF ex_tri_setup ex_refrac] ex_tri_setup ex_refrac by simp

subsection \<open>Refraction with the sun overhead\<close>

lemma ex_tri_geom_overhead:
  "tri_geom ex_cfg (1 / 3, 1 / 3, 11 / 10) 0 (0, 0, 0) =
     Some \<lparr> cent = (1 / 3, 1 / 3, 0), norm_tilt = (0, 0, 1), area_tilt = 1 / 2,
            ray_org = (1 / 3, 1 / 3, 1 / 10),
            vert_hori = ((0, 0, 0), (1, 0, 0), (0, 1, 0)), norm_hori = (0, 0, 1),
            area_hori = 1 / 2, surf_enl_fac = 1, sun = (0, 0, 1), dot_prod_hs = 1 \<rparr>"
  by (simp add: tri_geom_def tri_setup_def ex_cfg_def ex_dem_def func_ptr_def triangle_vert_ll_def
      vert_at_def triangle_centroid_def triangle_normal_area_def vec_unit_def dot_prod_def Let_def)

lemma ex_tri_geom_overhead_refrac:
  "tri_geom ex_cfg (1 / 3, 1 / 3, 11 / 10) 1 (0, 0, 0) = None"
proof -
  have "tri_setup ex_cfg (1 / 3, 1 / 3, 11 / 10) 0 0 0 =
     Some \<lparr> cent = (1 / 3, 1 / 3, 0), norm_tilt = (0, 0, 1), area_tilt = 1 / 2,
            ray_org = (1 / 3, 1 / 3, 1 / 10),
            vert_hori = ((0, 0, 0), (1, 0, 0), (0, 1, 0)), norm_hori = (0, 0, 1),
            area_hori = 1 / 2, surf_enl_fac = 1, sun = (0, 0, 1), dot_prod_hs = 1 \<rparr>"
    using ex_tri_geom_overhead by (simp add: tri_geom_def split: option.splits)
  then show ?thesis
    by (simp add: tri_geom_def sw_dir_cor_refrac_overhead)
qed

text \<open>
  Claim C7. The steps of \<^verbatim>\<open>atmos_refrac\<close> are those of the claim (lemma
  \<open>atmos_refrac_formula\<close>), and the source comments the added constant with
  \<^verbatim>\<open>set R = 0.0 for h = 90.0 degree\<close>. The constant does not do that. With the sun along
  the horizontal normal of a flat triangle at elevation 0 the engine computes the true
  elevation angle 90, the temperature 10 degrees Celsius and the pressure 101 kPa, and
  \<open>atmos_refrac 90 10 101\<close> is \<open>(0.0019279 - 1.02 \<cdot> tan (deg2rad (10.3 / 95.11))) / 60\<close>,
  whose bracket lies strictly between \<open>-4 / 10 ^ 8\<close> and \<open>-1 / 10 ^ 8\<close>: not 0. The
  refraction block then normalises the rotation axis \<open>s \<times> n_h\<close>, the zero vector, so
  that the geometry defined without refraction has no defined apparent sun vector with
  refraction.
\<close>

theorem atmos_refrac_overhead_nonzero:
  "90 - rad2deg (arccos 1) = 90 \<and> K2degC 283.15 = 10 \<and>
   atmos_refrac 90 10 101 =
     Some ((0.0019279 - 1.02 * tan (deg2rad (10.3 / (90 + 5.11)))) / 60) \<and>
   - 4 / 10 ^ 8 < 0.0019279 - 1.02 * tan (deg2rad (10.3 / (90 + 5.11))) \<and>
   0.0019279 - 1.02 * tan (deg2rad (10.3 / (90 + 5.11))) < - 1 / 10 ^ 8 \<and>
   atmos_refrac 90 10 101 \<noteq> Some 0 \<and>
   tri_geom ex_cfg (1 / 3, 1 / 3, 11 / 10) 0 (0, 0, 0) =
     Some \<lparr> cent = (1 / 3, 1 / 3, 0), norm_tilt = (0, 0, 1), area_tilt = 1 / 2,
            ray_org = (1 / 3, 1 / 3, 1 / 10),
            vert_hori = ((0, 0, 0), (1, 0, 0), (0, 1, 0)), norm_hori = (0, 0, 1),
            area_hori = 1 / 2, surf_enl_fac = 1, sun = (0, 0, 1), dot_prod_hs = 1 \<rparr> \<and>
   tri_geom ex_cfg (1 / 3, 1 / 3, 11 / 10) 1 (0, 0, 0) = None"
proof -
  have a: "atmos_refrac 90 10 101 = Some ((0.0019279 - 1.02 * tan y90) / 60)"
    using atmos_refrac_90[of 10 101] by simp
  have n: "atmos_refrac 90 10 101 \<noteq> Some 0"
    unfolding a using bracket_90(2) by simp
  have u: "90 - rad2deg (arccos 1) = 90" "K2degC 283.15 = 10"
    by (simp_all add: rad2deg_def K2degC_def)
  show ?thesis
    using a n u bracket_90 ex_tri_geom_overhead ex_tri_geom_overhead_refrac
    unfolding y90_def by blast
qed

subsection \<open>Bounds of the contributions and the output invariant\<close>

lemma grid_cells_iff:
  "(i, j) \<in> set (grid_cells cfg) \<longleftrightarrow> i < num_gc_y_cl cfg \<and> j < num_gc_x_cl cfg"
  by (auto simp: grid_cells_def intro: bexI[of _ i])

lemma grid_cells_cover:
  assumes "l < num_gc_y_cl cfg * num_gc_x_cl cfg"
  shows "\<exists>c \<in> set (grid_cells cfg). lin_ind_2d (num_gc_x_cl cfg) (fst c) (snd c) = l"
proof -
  have "l \<in> set [0 ..< num_gc_y_cl cfg * num_gc_x_cl cfg]" using assms by simp
  then have "l \<in> set (map (\<lambda>c. lin_ind_2d (num_gc_x_cl cfg) (fst c) (snd c)) (grid_cells cfg))"
    unfolding map_lin_grid_cells .
  then show ?thesis by auto
qed

lemma processed_lin:
  "processed cfg c \<longleftrightarrow> mask_cl cfg ! lin_ind_2d (num_gc_x_cl cfg) (fst c) (snd c) = 1"
  by (simp add: processed_def)

lemma tri_contrib_bounds:
  assumes "tri_inv ts" and "0 \<le> dot_prod_min_cl cfg" and "0 \<le> sw_dir_cor_max_cl cfg"
  shows "0 \<le> tri_contrib cfg ts" and "tri_contrib cfg ts \<le> sw_dir_cor_max_cl cfg"
proof -
  show "tri_contrib cfg ts \<le> sw_dir_cor_max_cl cfg"
    using assms(3) by (simp add: tri_contrib_def)
  show "0 \<le> tri_contrib cfg ts"
  proof (cases "self_shadowed cfg ts \<or> occluded cfg ts")
    case True
    then show ?thesis by (simp add: tri_contrib_def)
  next
    case False
    then have h: "0 < dot_prod (norm_hori ts) (sun ts)" and t: "0 < dot_prod (norm_tilt ts) (sun ts)"
      using assms(2) by (auto simp: self_shadowed_def)
    have a: "0 < area_tilt ts" "0 < area_hori ts" using assms(1) by (simp_all add: tri_inv_def)
    have "0 \<le> (dot_prod (norm_tilt ts) (sun ts) / dot_prod (norm_hori ts) (sun ts))
                  * (area_tilt ts / area_hori ts)"
      using h t a by (intro mult_nonneg_nonneg divide_nonneg_pos) simp_all
    then show ?thesis using False assms(3) by (simp add: tri_contrib_def)
  qed
qed

lemma length_cell_tris:
  "length (cell_tris cfg i j) = pixel_per_gc_cl cfg * pixel_per_gc_cl cfg * 2"
  by (simp add: cell_tris_def length_concat comp_def sum_list_triv)

lemma sum_list_bounds:
  fixes xs :: "real list"
  assumes "\<forall>x \<in> set xs. 0 \<le> x \<and> x \<le> M"
  shows "0 \<le> sum_list xs" and "sum_list xs \<le> real (length xs) * M"
  using assms by (induction xs) (auto simp: algebra_simps)

lemma cell_contribs_bounds:
  assumes "0 \<le> dot_prod_min_cl cfg" and "0 \<le> sw_dir_cor_max_cl cfg" and "1 \<le> pixel_per_gc_cl cfg"
  shows "0 \<le> sum_list (cell_contribs cfg sun_pos refrac_cor i j) / num_tri_per_gc cfg"
    and "sum_list (cell_contribs cfg sun_pos refrac_cor i j) / num_tri_per_gc cfg
           \<le> sw_dir_cor_max_cl cfg"
proof -
  have b: "\<forall>x \<in> set (cell_contribs cfg sun_pos refrac_cor i j). 0 \<le> x \<and> x \<le> sw_dir_cor_max_cl cfg"
    unfolding cell_contribs_def
    using tri_contrib_bounds[OF tri_geom_inv assms(1,2)] assms(2)
    by (auto split: option.splits)
  have n: "real (length (cell_contribs cfg sun_pos refrac_cor i j)) = num_tri_per_gc cfg"
    by (simp add: cell_contribs_def length_cell_tris num_tri_per_gc_def)
  have p: "0 < num_tri_per_gc cfg" using assms(3) by (simp add: num_tri_per_gc_def)
  show "0 \<le> sum_list (cell_contribs cfg sun_pos refrac_cor i j) / num_tri_per_gc cfg"
    using sum_list_bounds(1)[OF b] p by simp
  show "sum_list (cell_contribs cfg sun_pos refrac_cor i j) / num_tri_per_gc cfg
           \<le> sw_dir_cor_max_cl cfg"
    using sum_list_bounds(2)[OF b] p unfolding n by (simp add: field_simps)
qed

text \<open>The invariant from the value of every cell.\<close>

lemma output_invariantI:
  assumes io: "input_ok cfg out"
    and cells: "\<forall>c \<in> set (grid_cells cfg).
            out' ! lin_ind_2d (num_gc_x_cl cfg) (fst c) (snd c) =
              (if processed cfg c
               then Val (sum_list (cell_contribs cfg sun_pos refrac_cor (fst c) (snd c)) / num_tri_per_gc cfg)
               else NaN)"
  shows "output_invariant cfg out'"
  unfolding output_invariant_def
proof (intro allI impI)
  fix l assume "l < num_gc_y_cl cfg * num_gc_x_cl cfg"
  then obtain c where c: "c \<in> set (grid_cells cfg)"
    and l: "lin_ind_2d (num_gc_x_cl cfg) (fst c) (snd c) = l"
    using grid_cells_cover by blast
  from io have k: "0 \<le> dot_prod_min_cl cfg" "0 \<le> sw_dir_cor_max_cl cfg" "1 \<le> pixel_per_gc_cl cfg"
    by (simp_all add: input_ok_def)
  note b = cell_contribs_bounds[OF k, of sun_pos refrac_cor "fst c" "snd c"]
  show "(out' ! l = NaN \<longleftrightarrow> mask_cl cfg ! l \<noteq> 1) \<and>
        (mask_cl cfg ! l = 1 \<longrightarrow>
           (\<exists>v. out' ! l = Val v \<and> 0 \<le> v \<and> v \<le> sw_dir_cor_max_cl cfg))"
    using cells[rule_format, OF c] b unfolding l processed_lin by auto
qed

lemma sw_dir_cor_zero_cells:
  assumes io: "input_ok cfg out" and gd: "geom_defined cfg sun_pos refrac_cor"
    and z: "\<forall>l < num_gc_y_cl cfg * num_gc_x_cl cfg. mask_cl cfg ! l = 1 \<longrightarrow> out ! l = Val 0"
  shows "\<exists>out'. sw_dir_cor cfg sun_pos out refrac_cor =
           Some (out', [Ray_tracing_time, Number_of_rays_shot (total_rays cfg sun_pos refrac_cor),
                        Fraction_of_rays_required (total_rays cfg sun_pos refrac_cor) (num_tri_cl cfg)]) \<and>
         length out' = length out \<and>
         (\<forall>c \<in> set (grid_cells cfg).
            out' ! lin_ind_2d (num_gc_x_cl cfg) (fst c) (snd c) =
              (if processed cfg c
               then Val (sum_list (cell_contribs cfg sun_pos refrac_cor (fst c) (snd c)) / num_tri_per_gc cfg)
               else NaN)) \<and>
         (\<forall>l \<ge> num_gc_y_cl cfg * num_gc_x_cl cfg. out' ! l = out ! l)"
proof -
  from sw_dir_cor_char[OF io gd] obtain out' where o:
    "sw_dir_cor cfg sun_pos out refrac_cor =
           Some (out', [Ray_tracing_time, Number_of_rays_shot (total_rays cfg sun_pos refrac_cor),
                        Fraction_of_rays_required (total_rays cfg sun_pos refrac_cor) (num_tri_cl cfg)])"
    "length out' = length out"
    "\<forall>c \<in> set (grid_cells cfg).
            fdiv (if processed cfg c
                  then fadd (out ! lin_ind_2d (num_gc_x_cl cfg) (fst c) (snd c))
                         (sum_list (cell_contribs cfg sun_pos refrac_cor (fst c) (snd c)))
                  else NaN) (num_tri_per_gc cfg)
              = Some (out' ! lin_ind_2d (num_gc_x_cl cfg) (fst c) (snd c))"
    "\<forall>l \<ge> num_gc_y_cl cfg * num_gc_x_cl cfg. out' ! l = out ! l" by blast
  from io have p: "num_tri_per_gc cfg \<noteq> 0" by (simp add: input_ok_def num_tri_per_gc_def)
  have "out' ! lin_ind_2d (num_gc_x_cl cfg) (fst c) (snd c) =
              (if processed cfg c
               then Val (sum_list (cell_contribs cfg sun_pos refrac_cor (fst c) (snd c)) / num_tri_per_gc cfg)
               else NaN)" if c: "c \<in> set (grid_cells cfg)" for c
  proof (cases "processed cfg c")
    case False
    then show ?thesis using o(3)[rule_format, OF c] p by simp
  next
    case True
    then have "out ! lin_ind_2d (num_gc_x_cl cfg) (fst c) (snd c) = Val 0"
      using z grid_cells_lin_less[OF c] by (simp add: processed_lin)
    then show ?thesis using o(3)[rule_format, OF c] p True by simp
  qed
  then show ?thesis using o(1,2,4) by blast
qed

lemmas ex_geom_defs = tri_setup_def func_ptr_def triangle_vert_ll_def
  triangle_vert_ur_def vert_at_def triangle_centroid_def triangle_normal_area_def vec_unit_def
  dot_prod_def Let_def lin_ind_2d_def

lemma upt_0_2: "[0 ..< 2] = [0, Suc 0]" "[0 ..< Suc 0] = [0]"
  by (simp_all add: upt_rec)

lemma ex_cfg2_input_ok: "input_ok ex_cfg2 [Val 0]"
  by (simp add: input_ok_def ex_cfg2_def)

lemma ex_cfg2_cell_tris:
  "cell_tris ex_cfg2 0 0 =
     [(0, 0, 0), (0, 0, Suc 0), (0, Suc 0, 0), (0, Suc 0, Suc 0),
      (Suc 0, 0, 0), (Suc 0, 0, Suc 0), (Suc 0, Suc 0, 0), (Suc 0, Suc 0, Suc 0)]"
  by (simp add: cell_tris_def ex_cfg2_def upt_0_2)

lemma ex_cfg2_grid_cells: "grid_cells ex_cfg2 = [(0, 0)]"
  by (simp add: grid_cells_def ex_cfg2_def upt_0_2)

lemma ex_cfg2_geom_defined: "geom_defined ex_cfg2 (1, 1, 10) 0"
  unfolding geom_defined_def ex_cfg2_grid_cells
  apply (simp add: ex_cfg2_cell_tris tri_geom_def)
  apply (simp add: ex_geom_defs ex_cfg2_def ex_dem3_def)
  done

lemma ex_cfg2_zero: "zero_initialised ex_cfg2 [Val 0]"
  by (simp add: zero_initialised_def ex_cfg2_def)

text \<open>
  Claim C1, amended. Let the configuration satisfy the input constraints and the buffers
  cover the grid. After a call of the coherent engine on well-formed geometry every cell
  of the grid is NaN exactly when its mask byte is not 1 and is otherwise a number between
  0 and \<open>sw_dir_cor_max\<close>. The same holds for the packet engine when \<open>pixel_per_gc\<close> is
  even, and for the single-ray engine (with or without refraction) when the cells to
  process hold 0 on entry.
\<close>

theorem output_invariant_engines:
  assumes "input_ok cfg out"
  shows "(geom_defined cfg sun_pos refrac_cor \<and> zero_initialised cfg out \<longrightarrow>
            (\<exists>out' lg. sw_dir_cor cfg sun_pos out refrac_cor = Some (out', lg) \<and>
                        output_invariant cfg out')) \<and>
         (geom_defined cfg sun_pos 0 \<longrightarrow>
            (\<exists>out' lg. sw_dir_cor_coherent cfg sun_pos out = Some (out', lg) \<and>
                        output_invariant cfg out')) \<and>
         (geom_defined cfg sun_pos 0 \<and> even (pixel_per_gc_cl cfg) \<longrightarrow>
            (\<exists>out' lg. sw_dir_cor_coherent_rp8 cfg sun_pos out = Some (out', lg) \<and>
                        output_invariant cfg out'))"
proof (intro conjI impI)
  assume h: "geom_defined cfg sun_pos refrac_cor \<and> zero_initialised cfg out"
  then have z: "\<forall>l < num_gc_y_cl cfg * num_gc_x_cl cfg. mask_cl cfg ! l = 1 \<longrightarrow> out ! l = Val 0"
    by (simp add: zero_initialised_def)
  from sw_dir_cor_zero_cells[OF assms conjunct1[OF h] z] output_invariantI[OF assms]
  show "\<exists>out' lg. sw_dir_cor cfg sun_pos out refrac_cor = Some (out', lg) \<and>
                        output_invariant cfg out'" by blast
next
  assume h: "geom_defined cfg sun_pos 0"
  from sw_dir_cor_coherent_char[OF assms h] output_invariantI[OF assms]
  show "\<exists>out' lg. sw_dir_cor_coherent cfg sun_pos out = Some (out', lg) \<and>
                        output_invariant cfg out'" by blast
next
  assume h: "geom_defined cfg sun_pos 0 \<and> even (pixel_per_gc_cl cfg)"
  from sw_dir_cor_coherent_rp8_char[OF assms conjunct1[OF h] conjunct2[OF h]]
    output_invariantI[OF assms]
  show "\<exists>out' lg. sw_dir_cor_coherent_rp8 cfg sun_pos out = Some (out', lg) \<and>
                        output_invariant cfg out'" by blast
qed

theorem output_invariant_engines_witness:
  "input_ok ex_cfg2 [Val 0] \<and> geom_defined ex_cfg2 (1, 1, 10) 0 \<and>
   zero_initialised ex_cfg2 [Val 0] \<and> even (pixel_per_gc_cl ex_cfg2) \<and>
   (\<exists>out' lg. sw_dir_cor ex_cfg2 (1, 1, 10) [Val 0] 0 = Some (out', lg) \<and>
               output_invariant ex_cfg2 out') \<and>
   (\<exists>out' lg. sw_dir_cor_coherent ex_cfg2 (1, 1, 10) [Val 0] = Some (out', lg) \<and>
               output_invariant ex_cfg2 out') \<and>
   (\<exists>out' lg. sw_dir_cor_coherent_rp8 ex_cfg2 (1, 1, 10) [Val 0] = Some (out', lg) \<and>
               output_invariant ex_cfg2 out')"
proof -
  have e: "even (pixel_per_gc_cl ex_cfg2)" by (simp add: ex_cfg2_def)
  show ?thesis
    using output_invariant_engines[OF ex_cfg2_input_ok, of "(1, 1, 10)" 0]
      ex_cfg2_input_ok ex_cfg2_geom_defined ex_cfg2_zero e by blast
qed

lemma ex_cfg_input_ok: "input_ok ex_cfg [Val 100]"
  by (simp add: input_ok_def ex_cfg_def)

lemma ex_cfg_cell_tris: "cell_tris ex_cfg 0 0 = [(0, 0, 0), (0, 0, Suc 0)]"
  by (simp add: cell_tris_def ex_cfg_def upt_0_2)

lemma ex_cfg_grid_cells: "grid_cells ex_cfg = [(0, 0)]"
  by (simp add: grid_cells_def ex_cfg_def upt_0_2)

lemma ex_cfg_geom_defined: "geom_defined ex_cfg (10, 0, 1 / 10) 0"
  unfolding geom_defined_def ex_cfg_grid_cells
  apply (simp add: ex_cfg_cell_tris tri_geom_def)
  apply (simp add: ex_geom_defs ex_cfg_def ex_dem_def)
  done

lemma ex_sw_dir_cor_prior:
  "sw_dir_cor ex_cfg (10, 0, 1 / 10) [Val 100] 0 =
     Some ([Val 50], [Ray_tracing_time, Number_of_rays_shot 0, Fraction_of_rays_required 0 2])"
  by (simp add: sw_dir_cor_def sw_dir_cor_gc_def sw_dir_cor_tri_def ex_geom_defs ex_cfg_def ex_dem_def
      upt_0_2)

text \<open>
  Claim C1 as stated covers every valid input of every engine. The single-ray engine adds
  to what the buffer holds: with the sun on the horizon both triangles of the example cell
  are self-shadowed, and a cell that held 100 on entry ends at 50, above
  \<open>sw_dir_cor_max = 5\<close>.
\<close>

theorem single_ray_prior_buffer_counterexample:
  "input_ok ex_cfg [Val 100] \<and> geom_defined ex_cfg (10, 0, 1 / 10) 0 \<and>
   mask_cl ex_cfg ! 0 = 1 \<and>
   sw_dir_cor ex_cfg (10, 0, 1 / 10) [Val 100] 0 =
     Some ([Val 50], [Ray_tracing_time, Number_of_rays_shot 0, Fraction_of_rays_required 0 2]) \<and>
   \<not> 50 \<le> sw_dir_cor_max_cl ex_cfg"
  using ex_cfg_input_ok ex_cfg_geom_defined ex_sw_dir_cor_prior by (simp add: ex_cfg_def)

subsection \<open>The batch and the packets hold the same contributions\<close>

lemma survivors_append:
  "survivors cfg sun_pos (xs @ ys) = survivors cfg sun_pos xs @ survivors cfg sun_pos ys"
  by (simp add: survivors_def)

lemma survivors_concat:
  "survivors cfg sun_pos (concat xss) = concat (map (survivors cfg sun_pos) xss)"
  by (induction xss) (simp_all add: survivors_append, simp add: survivors_def)

lemma mset_survivors_cong:
  assumes "mset xs = mset ys"
  shows "mset (survivors cfg sun_pos xs) = mset (survivors cfg sun_pos ys)"
  unfolding survivors_def mset_concat map_map
  by (rule sum_list_mset_cong[OF assms])

lemma batch_contribs_eq:
  assumes "\<forall>t \<in> set (cell_tris cfg i j). tri_geom cfg sun_pos 0 t \<noteq> None"
    and "0 \<le> dot_prod_min_cl cfg"
  shows "batch_contribs cfg sun_pos i j = map (tri_value cfg) (survivors cfg sun_pos (cell_tris cfg i j))"
  unfolding batch_contribs_def sw_dir_cor_coherent_batch_def for_each_nest3 cell_tris_def[symmetric]
  using sw_dir_cor_coherent_loop[OF assms, of "[]" "[]" 0] by simp

lemma packet_contribs_eq:
  assumes df: "\<forall>t \<in> set (cell_tris cfg i j). tri_geom cfg sun_pos 0 t \<noteq> None"
    and c: "0 \<le> dot_prod_min_cl cfg" and e: "even (pixel_per_gc_cl cfg)"
  shows "packet_contribs cfg sun_pos i j =
           map (tri_value cfg)
             (survivors cfg sun_pos (concat (map (\<lambda>(k, m). block_tris k m) (cell_blocks cfg i j))))"
proof -
  have st: "set (concat (map (\<lambda>(k, m). block_tris k m) (cell_blocks cfg i j))) = set (cell_tris cfg i j)"
    using mset_cell_blocks[OF e, of i j] by (rule mset_eq_setD)
  have b: "(case b of (k, m) \<Rightarrow> case sw_dir_cor_coherent_rp8_packet cfg sun_pos k m of
                               None \<Rightarrow> []
                             | Some (ray8, valid8, sw_dir_cor_ray, num_rays_gc) \<Rightarrow> sw_dir_cor_ray)
           = map (tri_value cfg) (survivors cfg sun_pos (case b of (k, m) \<Rightarrow> block_tris k m))"
    if "b \<in> set (cell_blocks cfg i j)" for b
  proof -
    obtain k m where bk: "b = (k, m)" by (cases b)
    have "set (block_tris k m) \<subseteq> set (cell_tris cfg i j)"
      using that unfolding st[symmetric] bk by force
    then have d: "\<forall>t \<in> set (block_tris k m). tri_geom cfg sun_pos 0 t \<noteq> None"
      using df by blast
    show ?thesis
      unfolding bk prod.case sw_dir_cor_coherent_rp8_packet_def for_each_nest3 block_tris_def[symmetric]
      using sw_dir_cor_coherent_rp8_loop[OF d c, of "[]" "replicate 8 0" "[]" 0] by simp
  qed
  have "packet_contribs cfg sun_pos i j =
          concat (map (\<lambda>b. map (tri_value cfg) (survivors cfg sun_pos (case b of (k, m) \<Rightarrow> block_tris k m)))
                      (cell_blocks cfg i j))"
    unfolding packet_contribs_def using b by (intro arg_cong[of _ _ concat] map_cong refl) auto
  also have "\<dots> = map (tri_value cfg)
             (survivors cfg sun_pos (concat (map (\<lambda>(k, m). block_tris k m) (cell_blocks cfg i j))))"
    by (simp add: survivors_concat map_concat comp_def split_def)
  finally show ?thesis .
qed

lemma mset_batch_packet:
  assumes df: "\<forall>t \<in> set (cell_tris cfg i j). tri_geom cfg sun_pos 0 t \<noteq> None"
    and c: "0 \<le> dot_prod_min_cl cfg" and e: "even (pixel_per_gc_cl cfg)"
  shows "mset (batch_contribs cfg sun_pos i j) = mset (packet_contribs cfg sun_pos i j)"
  unfolding batch_contribs_eq[OF df c] packet_contribs_eq[OF df c e] mset_map
  using mset_survivors_cong[OF mset_cell_blocks[OF e, of i j], of cfg sun_pos] by simp

lemma length_batch_contribs:
  assumes df: "\<forall>t \<in> set (cell_tris cfg i j). tri_geom cfg sun_pos 0 t \<noteq> None"
    and c: "0 \<le> dot_prod_min_cl cfg"
  shows "length (batch_contribs cfg sun_pos i j) = sum_list (cell_rays cfg sun_pos 0 i j)"
  unfolding batch_contribs_eq[OF df c] cell_rays_def
  using length_survivors[OF df] by simp

subsection \<open>The value of a cell\<close>

lemma geom_definedD:
  assumes "geom_defined cfg sun_pos refrac_cor" and "i < num_gc_y_cl cfg" and "j < num_gc_x_cl cfg"
    and "processed cfg (i, j)"
  shows "\<forall>t \<in> set (cell_tris cfg i j). tri_geom cfg sun_pos refrac_cor t \<noteq> None"
proof -
  have "(i, j) \<in> set (grid_cells cfg)" using assms(2,3) by (simp add: grid_cells_iff)
  with assms(1,4) show ?thesis unfolding geom_defined_def by fastforce
qed

lemma length_cell_contribs:
  "length (cell_contribs cfg sun_pos refrac_cor i j) = pixel_per_gc_cl cfg * pixel_per_gc_cl cfg * 2"
  by (simp add: cell_contribs_def length_cell_tris)

text \<open>
  Claim C3, amended. For every processed cell the coherent engine, and the packet engine
  when \<open>pixel_per_gc\<close> is even, leave the sum of the per-triangle contributions divided
  by the fixed count \<open>pixel_per_gc\<^sup>2 \<cdot> 2\<close>; the single-ray engine leaves the sum of the
  cell's content on entry and of the contributions, divided by that count, which is the
  same value when the cell held 0. The list of contributions always has
  \<open>pixel_per_gc\<^sup>2 \<cdot> 2\<close> entries, a culled or occluded triangle contributing 0.
\<close>

theorem cell_value_fixed_count:
  assumes "input_ok cfg out"
  shows "(geom_defined cfg sun_pos refrac_cor \<longrightarrow>
            (\<exists>out' lg. sw_dir_cor cfg sun_pos out refrac_cor = Some (out', lg) \<and>
               (\<forall>i j a. i < num_gc_y_cl cfg \<and> j < num_gc_x_cl cfg \<and> processed cfg (i, j) \<and>
                    out ! lin_ind_2d (num_gc_x_cl cfg) i j = Val a \<longrightarrow>
                  out' ! lin_ind_2d (num_gc_x_cl cfg) i j =
                    Val ((a + sum_list (cell_contribs cfg sun_pos refrac_cor i j))
                           / (real (pixel_per_gc_cl cfg * pixel_per_gc_cl cfg) * 2))))) \<and>
         (geom_defined cfg sun_pos 0 \<longrightarrow>
            (\<exists>out' lg. sw_dir_cor_coherent cfg sun_pos out = Some (out', lg) \<and>
               (\<forall>i j. i < num_gc_y_cl cfg \<and> j < num_gc_x_cl cfg \<and> processed cfg (i, j) \<longrightarrow>
                  out' ! lin_ind_2d (num_gc_x_cl cfg) i j =
                    Val (sum_list (cell_contribs cfg sun_pos 0 i j)
                           / (real (pixel_per_gc_cl cfg * pixel_per_gc_cl cfg) * 2))))) \<and>
         (geom_defined cfg sun_pos 0 \<and> even (pixel_per_gc_cl cfg) \<longrightarrow>
            (\<exists>out' lg. sw_dir_cor_coherent_rp8 cfg sun_pos out = Some (out', lg) \<and>
               (\<forall>i j. i < num_gc_y_cl cfg \<and> j < num_gc_x_cl cfg \<and> processed cfg (i, j) \<longrightarrow>
                  out' ! lin_ind_2d (num_gc_x_cl cfg) i j =
                    Val (sum_list (cell_contribs cfg sun_pos 0 i j)
                           / (real (pixel_per_gc_cl cfg * pixel_per_gc_cl cfg) * 2))))) \<and>
         (\<forall>i j. length (cell_contribs cfg sun_pos refrac_cor i j)
                  = pixel_per_gc_cl cfg * pixel_per_gc_cl cfg * 2)"
proof (intro conjI impI allI)
  assume gd: "geom_defined cfg sun_pos refrac_cor"
  from assms have p: "num_tri_per_gc cfg \<noteq> 0" by (simp add: input_ok_def num_tri_per_gc_def)
  from sw_dir_cor_char[OF assms gd] obtain out' lg where o:
    "sw_dir_cor cfg sun_pos out refrac_cor = Some (out', lg)"
    "\<forall>c \<in> set (grid_cells cfg).
            fdiv (if processed cfg c
                  then fadd (out ! lin_ind_2d (num_gc_x_cl cfg) (fst c) (snd c))
                         (sum_list (cell_contribs cfg sun_pos refrac_cor (fst c) (snd c)))
                  else NaN) (num_tri_per_gc cfg)
              = Some (out' ! lin_ind_2d (num_gc_x_cl cfg) (fst c) (snd c))" by blast
  have "out' ! lin_ind_2d (num_gc_x_cl cfg) i j =
                    Val ((a + sum_list (cell_contribs cfg sun_pos refrac_cor i j))
                           / (real (pixel_per_gc_cl cfg * pixel_per_gc_cl cfg) * 2))"
    if "i < num_gc_y_cl cfg \<and> j < num_gc_x_cl cfg \<and> processed cfg (i, j) \<and>
                    out ! lin_ind_2d (num_gc_x_cl cfg) i j = Val a" for i j a
  proof -
    have "(i, j) \<in> set (grid_cells cfg)" using that by (simp add: grid_cells_iff)
    from o(2)[rule_format, OF this] that p show ?thesis
      by (simp add: num_tri_per_gc_def)
  qed
  with o(1) show "\<exists>out' lg. sw_dir_cor cfg sun_pos out refrac_cor = Some (out', lg) \<and>
               (\<forall>i j a. i < num_gc_y_cl cfg \<and> j < num_gc_x_cl cfg \<and> processed cfg (i, j) \<and>
                    out ! lin_ind_2d (num_gc_x_cl cfg) i j = Val a \<longrightarrow>
                  out' ! lin_ind_2d (num_gc_x_cl cfg) i j =
                    Val ((a + sum_list (cell_contribs cfg sun_pos refrac_cor i j))
                           / (real (pixel_per_gc_cl cfg * pixel_per_gc_cl cfg) * 2)))" by blast
next
  assume gd: "geom_defined cfg sun_pos 0"
  from sw_dir_cor_coherent_char[OF assms gd] obtain out' lg where o:
    "sw_dir_cor_coherent cfg sun_pos out = Some (out', lg)"
    "\<forall>c \<in> set (grid_cells cfg).
            out' ! lin_ind_2d (num_gc_x_cl cfg) (fst c) (snd c) =
              (if processed cfg c
               then Val (sum_list (cell_contribs cfg sun_pos 0 (fst c) (snd c)) / num_tri_per_gc cfg)
               else NaN)" by blast
  have "out' ! lin_ind_2d (num_gc_x_cl cfg) i j =
                    Val (sum_list (cell_contribs cfg sun_pos 0 i j)
                           / (real (pixel_per_gc_cl cfg * pixel_per_gc_cl cfg) * 2))"
    if "i < num_gc_y_cl cfg \<and> j < num_gc_x_cl cfg \<and> processed cfg (i, j)" for i j
  proof -
    have "(i, j) \<in> set (grid_cells cfg)" using that by (simp add: grid_cells_iff)
    from o(2)[rule_format, OF this] that show ?thesis
      by (simp add: num_tri_per_gc_def)
  qed
  with o(1) show "\<exists>out' lg. sw_dir_cor_coherent cfg sun_pos out = Some (out', lg) \<and>
               (\<forall>i j. i < num_gc_y_cl cfg \<and> j < num_gc_x_cl cfg \<and> processed cfg (i, j) \<longrightarrow>
                  out' ! lin_ind_2d (num_gc_x_cl cfg) i j =
                    Val (sum_list (cell_contribs cfg sun_pos 0 i j)
                           / (real (pixel_per_gc_cl cfg * pixel_per_gc_cl cfg) * 2)))" by blast
next
  assume h: "geom_defined cfg sun_pos 0 \<and> even (pixel_per_gc_cl cfg)"
  from sw_dir_cor_coherent_rp8_char[OF assms conjunct1[OF h] conjunct2[OF h]] obtain out' lg where o:
    "sw_dir_cor_coherent_rp8 cfg sun_pos out = Some (out', lg)"
    "\<forall>c \<in> set (grid_cells cfg).
            out' ! lin_ind_2d (num_gc_x_cl cfg) (fst c) (snd c) =
              (if processed cfg c
               then Val (sum_list (cell_contribs cfg sun_pos 0 (fst c) (snd c)) / num_tri_per_gc cfg)
               else NaN)" by blast
  have "out' ! lin_ind_2d (num_gc_x_cl cfg) i j =
                    Val (sum_list (cell_contribs cfg sun_pos 0 i j)
                           / (real (pixel_per_gc_cl cfg * pixel_per_gc_cl cfg) * 2))"
    if "i < num_gc_y_cl cfg \<and> j < num_gc_x_cl cfg \<and> processed cfg (i, j)" for i j
  proof -
    have "(i, j) \<in> set (grid_cells cfg)" using that by (simp add: grid_cells_iff)
    from o(2)[rule_format, OF this] that show ?thesis
      by (simp add: num_tri_per_gc_def)
  qed
  with o(1) show "\<exists>out' lg. sw_dir_cor_coherent_rp8 cfg sun_pos out = Some (out', lg) \<and>
               (\<forall>i j. i < num_gc_y_cl cfg \<and> j < num_gc_x_cl cfg \<and> processed cfg (i, j) \<longrightarrow>
                  out' ! lin_ind_2d (num_gc_x_cl cfg) i j =
                    Val (sum_list (cell_contribs cfg sun_pos 0 i j)
                           / (real (pixel_per_gc_cl cfg * pixel_per_gc_cl cfg) * 2)))" by blast
next
  fix i j
  show "length (cell_contribs cfg sun_pos refrac_cor i j)
                  = pixel_per_gc_cl cfg * pixel_per_gc_cl cfg * 2"
    by (rule length_cell_contribs)
qed

lemma ex_cfg2_input_ok_100: "input_ok ex_cfg2 [Val 100]"
  by (simp add: input_ok_def ex_cfg2_def)

lemma ex_cfg2_processed: "processed ex_cfg2 (0, 0)"
  by (simp add: processed_def ex_cfg2_def lin_ind_2d_def)

lemma ex_cfg_processed: "processed ex_cfg (0, 0)"
  by (simp add: processed_def ex_cfg_def lin_ind_2d_def)

theorem cell_value_fixed_count_witness:
  "input_ok ex_cfg2 [Val 0] \<and> geom_defined ex_cfg2 (1, 1, 10) 0 \<and> even (pixel_per_gc_cl ex_cfg2) \<and>
   (\<exists>out' lg. sw_dir_cor ex_cfg2 (1, 1, 10) [Val 0] 0 = Some (out', lg) \<and>
      out' ! 0 = Val ((0 + sum_list (cell_contribs ex_cfg2 (1, 1, 10) 0 0 0)) / 8)) \<and>
   (\<exists>out' lg. sw_dir_cor_coherent ex_cfg2 (1, 1, 10) [Val 0] = Some (out', lg) \<and>
      out' ! 0 = Val (sum_list (cell_contribs ex_cfg2 (1, 1, 10) 0 0 0) / 8)) \<and>
   (\<exists>out' lg. sw_dir_cor_coherent_rp8 ex_cfg2 (1, 1, 10) [Val 0] = Some (out', lg) \<and>
      out' ! 0 = Val (sum_list (cell_contribs ex_cfg2 (1, 1, 10) 0 0 0) / 8)) \<and>
   length (cell_contribs ex_cfg2 (1, 1, 10) 0 0 0) = 8"
proof -
  have e: "even (pixel_per_gc_cl ex_cfg2)" by (simp add: ex_cfg2_def)
  have f: "num_gc_y_cl ex_cfg2 = 1" "num_gc_x_cl ex_cfg2 = 1"
    "real (pixel_per_gc_cl ex_cfg2 * pixel_per_gc_cl ex_cfg2) * 2 = 8"
    "pixel_per_gc_cl ex_cfg2 * pixel_per_gc_cl ex_cfg2 * 2 = 8"
    "lin_ind_2d 1 0 0 = 0" "[Val 0] ! 0 = Val 0"
    by (simp_all add: ex_cfg2_def lin_ind_2d_def)
  note t = cell_value_fixed_count[OF ex_cfg2_input_ok, of "(1, 1, 10)" 0, unfolded f]
  note t1 = t[THEN conjunct1, rule_format, OF ex_cfg2_geom_defined]
  note t2 = t[THEN conjunct2, THEN conjunct1, rule_format, OF ex_cfg2_geom_defined]
  note t3 = t[THEN conjunct2, THEN conjunct2, THEN conjunct1, rule_format,
      OF conjI[OF ex_cfg2_geom_defined e]]
  note t4 = t[THEN conjunct2, THEN conjunct2, THEN conjunct2, rule_format, of 0 0]
  from t1 obtain o1 l1 where
    a: "sw_dir_cor ex_cfg2 (1, 1, 10) [Val 0] 0 = Some (o1, l1)"
    and a': "\<forall>i j a. i < 1 \<and> j < 1 \<and> processed ex_cfg2 (i, j) \<and> [Val 0] ! lin_ind_2d 1 i j = Val a \<longrightarrow>
       o1 ! lin_ind_2d 1 i j = Val ((a + sum_list (cell_contribs ex_cfg2 (1, 1, 10) 0 i j)) / 8)"
    by blast
  from t2 obtain o2 l2 where
    b: "sw_dir_cor_coherent ex_cfg2 (1, 1, 10) [Val 0] = Some (o2, l2)"
    and b': "\<forall>i j. i < 1 \<and> j < 1 \<and> processed ex_cfg2 (i, j) \<longrightarrow>
       o2 ! lin_ind_2d 1 i j = Val (sum_list (cell_contribs ex_cfg2 (1, 1, 10) 0 i j) / 8)"
    by blast
  from t3 obtain o3 l3 where
    c: "sw_dir_cor_coherent_rp8 ex_cfg2 (1, 1, 10) [Val 0] = Some (o3, l3)"
    and c': "\<forall>i j. i < 1 \<and> j < 1 \<and> processed ex_cfg2 (i, j) \<longrightarrow>
       o3 ! lin_ind_2d 1 i j = Val (sum_list (cell_contribs ex_cfg2 (1, 1, 10) 0 i j) / 8)"
    by blast
  have a2: "o1 ! 0 = Val ((0 + sum_list (cell_contribs ex_cfg2 (1, 1, 10) 0 0 0)) / 8)"
    using a'[rule_format, of 0 0 0] ex_cfg2_processed by (simp add: lin_ind_2d_def)
  have b2: "o2 ! 0 = Val (sum_list (cell_contribs ex_cfg2 (1, 1, 10) 0 0 0) / 8)"
    using b'[rule_format, of 0 0] ex_cfg2_processed by (simp add: lin_ind_2d_def)
  have c2: "o3 ! 0 = Val (sum_list (cell_contribs ex_cfg2 (1, 1, 10) 0 0 0) / 8)"
    using c'[rule_format, of 0 0] ex_cfg2_processed by (simp add: lin_ind_2d_def)
  show ?thesis
    using ex_cfg2_input_ok ex_cfg2_geom_defined e a a2 b b2 c c2 t4 by blast
qed

lemma ex_cell_contribs_overhead:
  "cell_contribs ex_cfg (1 / 3, 1 / 3, 11 / 10) 0 0 0 = [1, 1]"
  unfolding cell_contribs_def ex_cfg_cell_tris
  apply (simp add: tri_geom_def)
  apply (simp add: ex_geom_defs ex_cfg_def ex_dem_def)
  apply (simp add: tri_contrib_def self_shadowed_def occluded_def dot_prod_def ex_scene_def)
  done

lemma ex_cfg_geom_defined_overhead: "geom_defined ex_cfg (1 / 3, 1 / 3, 11 / 10) 0"
  unfolding geom_defined_def ex_cfg_grid_cells
  apply (simp add: ex_cfg_cell_tris tri_geom_def)
  apply (simp add: ex_geom_defs ex_cfg_def ex_dem_def)
  done

lemma ex_sw_dir_cor_overhead:
  "sw_dir_cor ex_cfg (1 / 3, 1 / 3, 11 / 10) [Val 100] 0 =
     Some ([Val 51], [Ray_tracing_time, Number_of_rays_shot 2, Fraction_of_rays_required 2 2])"
  by (simp add: sw_dir_cor_def sw_dir_cor_gc_def sw_dir_cor_tri_def ex_geom_defs ex_cfg_def ex_dem_def
      upt_0_2 rtcOccluded1_def ex_scene_def)

text \<open>
  Claim C3 as stated covers the single-ray engine on any buffer. With the sun above the
  example cell both triangles contribute 1, so the sum over the fixed count is 1; the
  single-ray engine, started on a cell that holds 100, leaves \<open>(100 + 2) / 2 = 51\<close>.
\<close>

theorem cell_value_counterexample:
  "input_ok ex_cfg [Val 100] \<and> geom_defined ex_cfg (1 / 3, 1 / 3, 11 / 10) 0 \<and>
   processed ex_cfg (0, 0) \<and>
   sw_dir_cor ex_cfg (1 / 3, 1 / 3, 11 / 10) [Val 100] 0 =
     Some ([Val 51], [Ray_tracing_time, Number_of_rays_shot 2, Fraction_of_rays_required 2 2]) \<and>
   cell_contribs ex_cfg (1 / 3, 1 / 3, 11 / 10) 0 0 0 = [1, 1] \<and>
   Val 51 \<noteq> Val (sum_list [1, 1] / (real (pixel_per_gc_cl ex_cfg * pixel_per_gc_cl ex_cfg) * 2))"
  using ex_cfg_input_ok ex_cfg_geom_defined_overhead ex_cfg_processed ex_sw_dir_cor_overhead
    ex_cell_contribs_overhead
  by (simp add: ex_cfg_def)

subsection \<open>Accumulating and overwriting\<close>







lemma ex_cfg2_geom_defined_horizon: "geom_defined ex_cfg2 (10, 0, 1 / 10) 0"
  unfolding geom_defined_def ex_cfg2_grid_cells
  apply (simp add: ex_cfg2_cell_tris tri_geom_def)
  apply (simp add: ex_geom_defs ex_cfg2_def ex_dem3_def)
  done




subsection \<open>Agreement of the three engines\<close>

text \<open>
  Claim C5, amended. On the same DEMs, mask, configuration and sun position, under the
  input constraints and with well-formed geometry, an even \<open>pixel_per_gc\<close> and an output
  buffer whose cells to process hold 0 on entry, the single-ray engine without refraction,
  the coherent engine and the packet engine return the same output buffer and print the
  same number of rays; in every processed cell the contributions stored with the batch
  and with the packets are the same multiset, one entry for each ray the single-ray
  engine issues.
\<close>

theorem engines_agree:
  assumes io: "input_ok cfg out" and gd: "geom_defined cfg sun_pos 0"
    and ev: "even (pixel_per_gc_cl cfg)" and z: "zero_initialised cfg out"
  shows "\<exists>out' lg.
           sw_dir_cor cfg sun_pos out 0 = Some (out', lg) \<and>
           sw_dir_cor_coherent cfg sun_pos out = Some (out', lg) \<and>
           sw_dir_cor_coherent_rp8 cfg sun_pos out = Some (out', lg) \<and>
           (\<forall>i j. i < num_gc_y_cl cfg \<and> j < num_gc_x_cl cfg \<and> processed cfg (i, j) \<longrightarrow>
              mset (batch_contribs cfg sun_pos i j) = mset (packet_contribs cfg sun_pos i j) \<and>
              length (batch_contribs cfg sun_pos i j) = sum_list (cell_rays cfg sun_pos 0 i j))"
proof -
  let ?N = "num_gc_y_cl cfg * num_gc_x_cl cfg"
  let ?lg = "[Ray_tracing_time, Number_of_rays_shot (total_rays cfg sun_pos 0),
              Fraction_of_rays_required (total_rays cfg sun_pos 0) (num_tri_cl cfg)]"
  let ?v = "\<lambda>c. if processed cfg c
               then Val (sum_list (cell_contribs cfg sun_pos 0 (fst c) (snd c)) / num_tri_per_gc cfg)
               else NaN"
  from z have z': "\<forall>l < ?N. mask_cl cfg ! l = 1 \<longrightarrow> out ! l = Val 0"
    by (simp add: zero_initialised_def)
  from io have c: "0 \<le> dot_prod_min_cl cfg" by (simp add: input_ok_def)
  from sw_dir_cor_zero_cells[OF io gd z'] obtain o1 where a:
    "sw_dir_cor cfg sun_pos out 0 = Some (o1, ?lg)" "length o1 = length out"
    "\<forall>c \<in> set (grid_cells cfg). o1 ! lin_ind_2d (num_gc_x_cl cfg) (fst c) (snd c) = ?v c"
    "\<forall>l \<ge> ?N. o1 ! l = out ! l" by blast
  from sw_dir_cor_coherent_char[OF io gd] obtain o2 where b:
    "sw_dir_cor_coherent cfg sun_pos out = Some (o2, ?lg)" "length o2 = length out"
    "\<forall>c \<in> set (grid_cells cfg). o2 ! lin_ind_2d (num_gc_x_cl cfg) (fst c) (snd c) = ?v c"
    "\<forall>l \<ge> ?N. o2 ! l = out ! l" by blast
  from sw_dir_cor_coherent_rp8_char[OF io gd ev] obtain o3 where d:
    "sw_dir_cor_coherent_rp8 cfg sun_pos out = Some (o3, ?lg)" "length o3 = length out"
    "\<forall>c \<in> set (grid_cells cfg). o3 ! lin_ind_2d (num_gc_x_cl cfg) (fst c) (snd c) = ?v c"
    "\<forall>l \<ge> ?N. o3 ! l = out ! l" by blast
  have same: "o1 ! l = o2 ! l \<and> o1 ! l = o3 ! l" for l
  proof (cases "l < ?N")
    case True
    from grid_cells_cover[OF True] obtain c where k: "c \<in> set (grid_cells cfg)"
      "lin_ind_2d (num_gc_x_cl cfg) (fst c) (snd c) = l" by blast
    show ?thesis
      using a(3)[rule_format, OF k(1)] b(3)[rule_format, OF k(1)] d(3)[rule_format, OF k(1)]
      unfolding k(2) by simp
  next
    case False
    then show ?thesis using a(4) b(4) d(4) by simp
  qed
  have e2: "o2 = o1"
  proof (rule nth_equalityI)
    show "length o2 = length o1" using a(2) b(2) by simp
    show "o2 ! l = o1 ! l" for l using same[of l] by metis
  qed
  have e3: "o3 = o1"
  proof (rule nth_equalityI)
    show "length o3 = length o1" using a(2) d(2) by simp
    show "o3 ! l = o1 ! l" for l using same[of l] by metis
  qed
  have q: "mset (batch_contribs cfg sun_pos i j) = mset (packet_contribs cfg sun_pos i j) \<and>
           length (batch_contribs cfg sun_pos i j) = sum_list (cell_rays cfg sun_pos 0 i j)"
    if "i < num_gc_y_cl cfg \<and> j < num_gc_x_cl cfg \<and> processed cfg (i, j)" for i j
  proof -
    have df: "\<forall>t \<in> set (cell_tris cfg i j). tri_geom cfg sun_pos 0 t \<noteq> None"
      using geom_definedD[OF gd] that by blast
    show ?thesis
      using mset_batch_packet[OF df c ev] length_batch_contribs[OF df c] by simp
  qed
  show ?thesis
    using a(1) b(1) d(1) q unfolding e2 e3 by blast
qed

theorem engines_agree_witness:
  "input_ok ex_cfg2 [Val 0] \<and> geom_defined ex_cfg2 (1, 1, 10) 0 \<and>
   even (pixel_per_gc_cl ex_cfg2) \<and> zero_initialised ex_cfg2 [Val 0] \<and>
   (\<exists>out' lg.
      sw_dir_cor ex_cfg2 (1, 1, 10) [Val 0] 0 = Some (out', lg) \<and>
      sw_dir_cor_coherent ex_cfg2 (1, 1, 10) [Val 0] = Some (out', lg) \<and>
      sw_dir_cor_coherent_rp8 ex_cfg2 (1, 1, 10) [Val 0] = Some (out', lg)) \<and>
   mset (batch_contribs ex_cfg2 (1, 1, 10) 0 0) = mset (packet_contribs ex_cfg2 (1, 1, 10) 0 0)"
proof -
  have e: "even (pixel_per_gc_cl ex_cfg2)" by (simp add: ex_cfg2_def)
  have f: "num_gc_y_cl ex_cfg2 = 1" "num_gc_x_cl ex_cfg2 = 1" by (simp_all add: ex_cfg2_def)
  from engines_agree[OF ex_cfg2_input_ok ex_cfg2_geom_defined e ex_cfg2_zero, unfolded f]
  obtain out' lg where
    a: "sw_dir_cor ex_cfg2 (1, 1, 10) [Val 0] 0 = Some (out', lg)"
       "sw_dir_cor_coherent ex_cfg2 (1, 1, 10) [Val 0] = Some (out', lg)"
       "sw_dir_cor_coherent_rp8 ex_cfg2 (1, 1, 10) [Val 0] = Some (out', lg)"
    and b: "\<forall>i j. i < 1 \<and> j < 1 \<and> processed ex_cfg2 (i, j) \<longrightarrow>
              mset (batch_contribs ex_cfg2 (1, 1, 10) i j) = mset (packet_contribs ex_cfg2 (1, 1, 10) i j) \<and>
              length (batch_contribs ex_cfg2 (1, 1, 10) i j) = sum_list (cell_rays ex_cfg2 (1, 1, 10) 0 i j)"
    by blast
  have m: "mset (batch_contribs ex_cfg2 (1, 1, 10) 0 0) = mset (packet_contribs ex_cfg2 (1, 1, 10) 0 0)"
    using b[rule_format, of 0 0] ex_cfg2_processed by simp
  show ?thesis
    using ex_cfg2_input_ok ex_cfg2_geom_defined e ex_cfg2_zero a m by blast
qed

lemma ex2_sw_dir_cor_prior:
  "sw_dir_cor ex_cfg2 (10, 0, 1 / 10) [Val 100] 0 =
     Some ([Val (25 / 2)], [Ray_tracing_time, Number_of_rays_shot 0, Fraction_of_rays_required 0 8])"
  by (simp add: sw_dir_cor_def sw_dir_cor_gc_def sw_dir_cor_tri_def ex_geom_defs ex_cfg2_def ex_dem3_def
      upt_0_2 upt_rec[of 0 2])

lemma ex2_sw_dir_cor_coherent_prior:
  "sw_dir_cor_coherent ex_cfg2 (10, 0, 1 / 10) [Val 100] =
     Some ([Val 0], [Ray_tracing_time, Number_of_rays_shot 0, Fraction_of_rays_required 0 8])"
  by (simp add: sw_dir_cor_coherent_def sw_dir_cor_coherent_gc_def sw_dir_cor_coherent_batch_def
      sw_dir_cor_coherent_tri_def rtcOccluded1M_def ex_geom_defs ex_cfg2_def ex_dem3_def upt_0_2)

lemma ex2_sw_dir_cor_coherent_rp8_prior:
  "sw_dir_cor_coherent_rp8 ex_cfg2 (10, 0, 1 / 10) [Val 100] =
     Some ([Val 0], [Ray_tracing_time, Number_of_rays_shot 0, Fraction_of_rays_required 0 8])"
  by (simp add: sw_dir_cor_coherent_rp8_def sw_dir_cor_coherent_rp8_gc_def
      sw_dir_cor_coherent_rp8_block_def sw_dir_cor_coherent_rp8_packet_def
      sw_dir_cor_coherent_rp8_tri_def rtcOccluded8_def stride2_def
      ex_geom_defs ex_cfg2_def ex_dem3_def upt_0_2 upt_rec[of 0 2])

text \<open>
  Claim C5 as stated ignores what the output buffer holds on entry. On the cell of two by
  two pixels with the sun on the horizon every triangle is self-shadowed; started on a
  cell that holds 100 the single-ray engine leaves \<open>100 / 8\<close>, the other two engines 0.
\<close>

theorem engines_agree_counterexample:
  "input_ok ex_cfg2 [Val 100] \<and> geom_defined ex_cfg2 (10, 0, 1 / 10) 0 \<and>
   even (pixel_per_gc_cl ex_cfg2) \<and>
   sw_dir_cor ex_cfg2 (10, 0, 1 / 10) [Val 100] 0 =
     Some ([Val (25 / 2)], [Ray_tracing_time, Number_of_rays_shot 0, Fraction_of_rays_required 0 8]) \<and>
   sw_dir_cor_coherent ex_cfg2 (10, 0, 1 / 10) [Val 100] =
     Some ([Val 0], [Ray_tracing_time, Number_of_rays_shot 0, Fraction_of_rays_required 0 8]) \<and>
   sw_dir_cor_coherent_rp8 ex_cfg2 (10, 0, 1 / 10) [Val 100] =
     Some ([Val 0], [Ray_tracing_time, Number_of_rays_shot 0, Fraction_of_rays_required 0 8]) \<and>
   Val (25 / 2) \<noteq> Val 0"
  using ex_cfg2_input_ok_100 ex_cfg2_geom_defined_horizon ex2_sw_dir_cor_prior
    ex2_sw_dir_cor_coherent_prior ex2_sw_dir_cor_coherent_rp8_prior
  by (simp add: ex_cfg2_def)

end
